theory Spec2Isabelle
  imports Main "HOL-Library.Word" "HOL-Library.Sublist" "HOL-Library.AList"
    "HOL-Library.Char_ord"
begin

section \<open>JavaScript values and the built-ins the plugin calls\<close>

text \<open>
  The plugin is TypeScript; at run time its values are JavaScript values. A string is a
  list of code units; the model covers code units below 256 (one \<open>char\<close> each).
  Numbers are the safe integers, the whole numbers from \<open>-2^53\<close> to
  \<open>2^53 - 1\<close>, which a JavaScript number holds exactly and prints with all its
  digits: a signed word of 54 bits, read with \<open>sint\<close> (fractions, NaN, the
  infinities and larger numbers are outside the model). An object is the list of its
  own properties in the order of their creation, each name once.
\<close>

datatype json =
    JNull
  | JBool bool
  | JNum "54 word"
  | JStr string
  | JArr "json list"
  | JObj "(string \<times> json) list"

text \<open>
  A value handed around by the executed code: \<open>undefined\<close> (functions and symbols
  behave like it under \<open>JSON.stringify\<close>), a JSON value, or a BigInt, the
  value \<open>JSON.stringify\<close> refuses (as it refuses cyclic objects).
\<close>

datatype jsval = Undefined | Json json | BigInt int

text \<open>
  A thrown value, as far as a \<open>catch\<close> block that evaluates
  \<open>err instanceof Error ? err.message : String(err)\<close> can tell: an instance of
  \<open>Error\<close> with its message; any other value, with the string that
  \<open>String(err)\<close> returns for it; or a value that \<open>String(err)\<close> cannot
  convert, such as \<open>Object.create(null)\<close>, which has neither \<open>toString\<close>
  nor \<open>valueOf\<close>.
\<close>

datatype thrown = ErrorObj string | Coercible string | Uncoercible

text \<open>How an awaited promise settles.\<close>

datatype 'a settled = Fulfilled 'a | Rejected thrown

text \<open>
  The expression \<open>err instanceof Error ? err.message : String(err)\<close>
  (runtime.ts line 113, generators.ts line 147). \<open>String\<close> raises a TypeError
  when the value has no primitive conversion.
\<close>

fun errorText :: "thrown \<Rightarrow> thrown + string" where
  "errorText (ErrorObj m) = Inr m"
| "errorText (Coercible s) = Inr s"
| "errorText Uncoercible = Inl (ErrorObj ''Cannot convert object to primitive value'')"

text \<open>
  Decimal numerals, as a template literal and \<open>JSON.stringify\<close> print a whole
  number below 1e21.
\<close>

fun show_nat :: "nat \<Rightarrow> string" where
  "show_nat n =
     (if n < 10 then [''0123456789'' ! n]
      else show_nat (n div 10) @ [''0123456789'' ! (n mod 10)])"

declare show_nat.simps [simp del]

definition show_int :: "int \<Rightarrow> string" where
  "show_int i = (if i < 0 then ''-'' @ show_nat (nat (- i)) else show_nat (nat i))"

text \<open>\<open>Array.prototype.join\<close> on an array of strings.\<close>

fun join :: "string \<Rightarrow> string list \<Rightarrow> string" where
  "join sep [] = []"
| "join sep [x] = x"
| "join sep (x # y # ys) = x @ sep @ join sep (y # ys)"

text \<open>
  The order in which JavaScript enumerates the own properties of an object
  (\<open>Object.entries\<close>, \<open>JSON.stringify\<close>): first the names that are array
  indices, the canonical decimal numerals of the integers below \<open>2^32 - 1\<close>, in
  ascending numeric order, then the other names in the order of their creation.
\<close>

definition digitsValue :: "string \<Rightarrow> nat" where
  "digitsValue k = foldl (\<lambda>n c. 10 * n + (of_char c - 48)) 0 k"

definition isArrayIndex :: "string \<Rightarrow> bool" where
  "isArrayIndex k =
     (k \<noteq> [] \<and> list_all (\<lambda>c. CHR ''0'' \<le> c \<and> c \<le> CHR ''9'') k
      \<and> (k = ''0'' \<or> hd k \<noteq> CHR ''0'') \<and> digitsValue k < 4294967295)"

definition ownEntries :: "(string \<times> 'a) list \<Rightarrow> (string \<times> 'a) list" where
  "ownEntries kvs =
     sort_key (\<lambda>(k, v). digitsValue k) (filter (\<lambda>(k, v). isArrayIndex k) kvs) @
     filter (\<lambda>(k, v). \<not> isArrayIndex k) kvs"

text \<open>
  An assignment \<open>obj[k] = v\<close> to a plain object: the property is replaced where it
  is, or created after the others. The name \<open>__proto__\<close> is the exception: the
  assignment sets the prototype of the object and creates no own property.
\<close>

definition setProperty :: "string \<Rightarrow> 'a \<Rightarrow> (string \<times> 'a) list \<Rightarrow> (string \<times> 'a) list" where
  "setProperty k v obj = (if k = ''__proto__'' then obj else AList.update k v obj)"

text \<open>
  \<open>JSON.stringify\<close> on a JSON value, without indentation: strings are quoted
  with the escapes of the standard, arrays and objects are written without spaces, the
  properties of an object in the order of enumeration.
\<close>

definition quote_char :: "char \<Rightarrow> string" where
  "quote_char c =
     (let n = (of_char c :: nat) in
      if n = 0x22 then [CHR 0x5C, CHR 0x22]
      else if n = 0x5C then [CHR 0x5C, CHR 0x5C]
      else if n = 0x08 then [CHR 0x5C, CHR ''b'']
      else if n = 0x0C then [CHR 0x5C, CHR ''f'']
      else if n = 0x0A then [CHR 0x5C, CHR ''n'']
      else if n = 0x0D then [CHR 0x5C, CHR ''r'']
      else if n = 0x09 then [CHR 0x5C, CHR ''t'']
      else if n < 0x20 then
        [CHR 0x5C] @ ''u00'' @ [''0123456789abcdef'' ! (n div 16), ''0123456789abcdef'' ! (n mod 16)]
      else [c])"

definition quote_string :: "string \<Rightarrow> string" where
  "quote_string s = [CHR 0x22] @ concat (map quote_char s) @ [CHR 0x22]"

function JSON_stringify :: "json \<Rightarrow> string" where
  "JSON_stringify JNull = ''null''"
| "JSON_stringify (JBool b) = (if b then ''true'' else ''false'')"
| "JSON_stringify (JNum n) = show_int (sint n)"
| "JSON_stringify (JStr s) = quote_string s"
| "JSON_stringify (JArr xs) = ''['' @ join '','' (map JSON_stringify xs) @ '']''"
| "JSON_stringify (JObj kvs) =
     ''{'' @ join '',''
        (map (\<lambda>(k, v). quote_string k @ '':'' @ JSON_stringify v) (ownEntries kvs)) @ ''}''"
  by pat_completeness auto

termination JSON_stringify
  by (lexicographic_order simp: ownEntries_def)

text \<open>
  \<open>JSON.stringify\<close> on any value: \<open>undefined\<close> is mapped to
  \<open>undefined\<close> (\<open>None\<close>), a BigInt raises a TypeError.
\<close>

fun JSON_stringify_val :: "jsval \<Rightarrow> thrown + string option" where
  "JSON_stringify_val Undefined = Inr None"
| "JSON_stringify_val (Json j) = Inr (Some (JSON_stringify j))"
| "JSON_stringify_val (BigInt n) = Inl (ErrorObj ''Do not know how to serialize a BigInt'')"

text \<open>Truthiness of a value in a condition; \<open>None\<close> is \<open>undefined\<close>.\<close>

fun truthy :: "json \<Rightarrow> bool" where
  "truthy JNull = False"
| "truthy (JBool b) = b"
| "truthy (JNum n) = (n \<noteq> 0)"
| "truthy (JStr s) = (s \<noteq> [])"
| "truthy (JArr xs) = True"
| "truthy (JObj kvs) = True"

fun truthy_opt :: "json option \<Rightarrow> bool" where
  "truthy_opt None = False"
| "truthy_opt (Some j) = truthy j"

text \<open>\<open>typeof v === "object"\<close>.\<close>

fun typeof_object :: "json \<Rightarrow> bool" where
  "typeof_object JNull = True"
| "typeof_object (JArr xs) = True"
| "typeof_object (JObj kvs) = True"
| "typeof_object v = False"

text \<open>
  Reading one of the property names the plugin reads (\<open>properties\<close>,
  \<open>required\<close>, \<open>type\<close>, \<open>description\<close>, \<open>enum\<close>,
  \<open>items\<close>) from a value that is not null: an object gives its own property,
  every other value gives \<open>undefined\<close>.
\<close>

fun js_get :: "json \<Rightarrow> string \<Rightarrow> json option" where
  "js_get (JObj kvs) k = map_of kvs k"
| "js_get v k = None"

text \<open>
  \<open>Object.entries\<close> of a value that is not null: the own properties of an
  object in the order of enumeration, the elements of an array and the code units of a
  string under their indices, nothing for a number or a boolean. (On null
  \<open>Object.entries\<close> raises; the plugin calls it behind a test for truthiness.)
\<close>

fun Object_entries :: "json \<Rightarrow> (string \<times> json) list" where
  "Object_entries (JObj kvs) = ownEntries kvs"
| "Object_entries (JArr xs) = zip (map show_nat [0..<length xs]) xs"
| "Object_entries (JStr s) = zip (map show_nat [0..<length s]) (map (\<lambda>c. JStr [c]) s)"
| "Object_entries v = []"

section \<open>The data model (types.ts)\<close>

text \<open>
  The casts of generators.ts (\<open>param.type as string\<close> and the like) check
  nothing at run time, so the fields they fill hold whatever JSON the host sent.
\<close>

record PTCParameter =
  param_type :: json
  param_description :: "json option"
  param_required :: "bool option"
  param_enum :: "json list option"
  param_items :: "json option"
  param_properties :: "json option"

record PTCTool =
  tool_name :: string
  tool_description :: string
  tool_parameters :: "(string \<times> PTCParameter) list"

record PTCAgent =
  agent_name :: string
  agent_description :: "string option"
  agent_mode :: string

record PTCSkill =
  skill_name :: string
  skill_description :: string

record PTCToolCallRecord =
  rec_tool :: string
  rec_args :: jsval
  rec_result :: "string option"
  rec_error :: "string option"
  rec_duration :: int

record PTCExecutionResult =
  success :: bool
  result :: "jsval option"
  error :: "string option"
  logs :: "string list"
  toolCalls :: "PTCToolCallRecord list"

text \<open>
  Timeouts and ceilings are non-negative safe integers, the whole numbers below
  \<open>2^53\<close>: an unsigned word of 53 bits, read with \<open>unat\<close>.
\<close>

record PTCExecutorOptions =
  opt_timeout :: "53 word option"
  opt_maxToolCalls :: "53 word option"

section \<open>The host client (the SDK, at its interface)\<close>

record toolDef =
  def_id :: string
  def_description :: "string option"
  def_parameters :: "json option"

record list_query =
  lq_provider :: string
  lq_model :: string
  lq_directory :: "string option"

record list_response =
  lr_error :: "json option"
  lr_data :: "toolDef list option"

record raw_agent =
  raw_name :: string
  raw_description :: "string option"
  raw_mode :: string
  raw_other :: json

record agents_response =
  ar_error :: "json option"
  ar_data :: "raw_agent list option"

record exec_request =
  q_directory :: "string option"
  b_sessionID :: string
  b_messageID :: string
  b_providerID :: string
  b_modelID :: "string option"
  b_toolID :: string
  b_args :: jsval
  b_agent :: string

record exec_data =
  data_output :: "string option"

record exec_response =
  er_error :: "json option"
  er_data :: "exec_data option"

text \<open>
  The client answers a request: \<open>tool_execute\<close> is given the request and the
  time of the call, and says how the promise settles and after how many milliseconds.
  Host calls settle; one that takes longer than the deadline of the execution is still
  in flight when the result is reported.
\<close>

record OpencodeClient =
  tool_list :: "list_query \<Rightarrow> list_response settled"
  app_agents :: "agents_response settled"
  tool_execute :: "exec_request \<Rightarrow> int \<Rightarrow> exec_response settled \<times> nat"

text \<open>
  \<open>PTCContext\<close>. The interface declares \<open>modelID: string\<close>, but an object
  literal can leave a property out, and reading it then gives \<open>undefined\<close>
  (\<open>None\<close>); \<open>directory\<close> is optional in the declaration itself.
\<close>

record PTCContext =
  ctx_sessionID :: string
  ctx_messageID :: string
  ctx_providerID :: string
  ctx_modelID :: "string option"
  ctx_agent :: string
  ctx_directory :: "string option"
  ctx_client :: OpencodeClient

text \<open>
  What one execution mutates: the clock that \<open>Date.now()\<close> reads, and the two
  arrays \<open>logs\<close> and \<open>callRecords\<close> that \<open>execute\<close> creates and
  shares with the bindings.
\<close>

record state =
  st_now :: int
  st_logs :: "string list"
  st_callRecords :: "PTCToolCallRecord list"

text \<open>
  An asynchronous binding, from its invocation to the settlement of its promise:
  \<open>Inl\<close> is a rejection, \<open>Inr\<close> the value it resolves to.
\<close>

type_synonym PTCToolFunction = "jsval \<Rightarrow> state \<Rightarrow> (thrown + string) \<times> state"
type_synonym PTCAgentFunction = "string \<Rightarrow> string option option \<Rightarrow> state \<Rightarrow> (thrown + string) \<times> state"
type_synonym PTCSkillFunction = "state \<Rightarrow> (thrown + string) \<times> state"

section \<open>generators.ts\<close>

subsection \<open>fetchAvailableTools\<close>

text \<open>The object literal of lines 73-80, for one entry of \<open>schema.properties\<close>.\<close>

definition normalizeParam :: "json \<Rightarrow> string \<Rightarrow> json \<Rightarrow> thrown + PTCParameter" where
  "normalizeParam schema paramName paramDef =
     (case paramDef of
        JNull \<Rightarrow> Inl (ErrorObj ''Cannot read properties of null (reading 'type')'')
      | _ \<Rightarrow> Inr \<lparr>
          param_type =
            (case js_get paramDef ''type'' of
               None \<Rightarrow> JStr ''string''
             | Some JNull \<Rightarrow> JStr ''string''
             | Some t \<Rightarrow> t),
          param_description = js_get paramDef ''description'',
          param_required = Some
            (case js_get schema ''required'' of
               Some (JArr rs) \<Rightarrow> JStr paramName \<in> set rs
             | _ \<Rightarrow> False),
          param_enum =
            (case js_get paramDef ''enum'' of
               Some (JArr es) \<Rightarrow> Some es
             | _ \<Rightarrow> None),
          param_items = js_get paramDef ''items'',
          param_properties = js_get paramDef ''properties'' \<rparr>)"

text \<open>
  The inner loop, lines 71-81: \<open>parameters[paramName] = ...\<close> for each entry.
  The object literal is evaluated first, so a null property definition raises whatever
  the name is.
\<close>

fun paramLoop ::
  "json \<Rightarrow> (string \<times> json) list \<Rightarrow> (string \<times> PTCParameter) list
    \<Rightarrow> thrown + (string \<times> PTCParameter) list" where
  "paramLoop schema [] parameters = Inr parameters"
| "paramLoop schema ((paramName, paramDef) # rest) parameters =
     (case normalizeParam schema paramName paramDef of
        Inl e \<Rightarrow> Inl e
      | Inr p \<Rightarrow> paramLoop schema rest (setProperty paramName p parameters))"

text \<open>
  Lines 68-82: the parameter mapping of one tool definition. \<open>schema?.properties\<close>
  is \<open>undefined\<close> when the schema is \<open>undefined\<close> or null.
\<close>

definition normalizeParameters :: "json option \<Rightarrow> thrown + (string \<times> PTCParameter) list" where
  "normalizeParameters schema =
     (case schema of
        None \<Rightarrow> Inr []
      | Some sch \<Rightarrow>
          (case js_get sch ''properties'' of
             None \<Rightarrow> Inr []
           | Some props \<Rightarrow>
               if truthy props \<and> typeof_object props
               then paramLoop sch (Object_entries props) []
               else Inr []))"

text \<open>The body of the outer loop, lines 67-89.\<close>

definition normalizeTool :: "toolDef \<Rightarrow> thrown + PTCTool" where
  "normalizeTool d =
     (case normalizeParameters (def_parameters d) of
        Inl e \<Rightarrow> Inl e
      | Inr parameters \<Rightarrow> Inr \<lparr>
          tool_name = def_id d,
          tool_description = (case def_description d of None \<Rightarrow> '''' | Some s \<Rightarrow> s),
          tool_parameters = parameters \<rparr>)"

fun toolLoop :: "toolDef list \<Rightarrow> PTCTool list \<Rightarrow> thrown + PTCTool list" where
  "toolLoop [] tools = Inr tools"
| "toolLoop (d # rest) tools =
     (case normalizeTool d of
        Inl e \<Rightarrow> Inl e
      | Inr t \<Rightarrow> toolLoop rest (tools @ [t]))"

definition fetchAvailableTools ::
  "OpencodeClient \<Rightarrow> string \<Rightarrow> string \<Rightarrow> string option \<Rightarrow> thrown + PTCTool list" where
  "fetchAvailableTools client provider model directory =
     (case tool_list client \<lparr> lq_provider = provider, lq_model = model, lq_directory = directory \<rparr> of
        Rejected e \<Rightarrow> Inl e
      | Fulfilled response \<Rightarrow>
          if truthy_opt (lr_error response)
          then Inl (ErrorObj (''Failed to fetch tools: '' @
                 (case lr_error response of Some e \<Rightarrow> JSON_stringify e | None \<Rightarrow> [])))
          else toolLoop (case lr_data response of None \<Rightarrow> [] | Some l \<Rightarrow> l) [])"

subsection \<open>fetchAvailableAgents, fetchAvailableSkills\<close>

definition fetchAvailableAgents :: "OpencodeClient \<Rightarrow> thrown + PTCAgent list" where
  "fetchAvailableAgents client =
     (case app_agents client of
        Rejected e \<Rightarrow> Inl e
      | Fulfilled response \<Rightarrow>
          if truthy_opt (ar_error response)
          then Inl (ErrorObj (''Failed to fetch agents: '' @
                 (case ar_error response of Some e \<Rightarrow> JSON_stringify e | None \<Rightarrow> [])))
          else Inr (map (\<lambda>agent. \<lparr> agent_name = raw_name agent,
                                    agent_description = raw_description agent,
                                    agent_mode = raw_mode agent \<rparr>)
                     (filter (\<lambda>agent. raw_mode agent \<noteq> ''primary'')
                       (case ar_data response of None \<Rightarrow> [] | Some l \<Rightarrow> l))))"

definition fetchAvailableSkills :: "OpencodeClient \<Rightarrow> thrown + PTCSkill list" where
  "fetchAvailableSkills client = Inr []"

subsection \<open>The bindings\<close>

text \<open>
  \<open>createToolFunction\<close>, lines 113-154. The record is created with duration 0;
  the \<open>try\<close> block awaits the host, the \<open>catch\<close> block writes the error
  text and rethrows, and the \<open>finally\<close> block writes the duration and pushes the
  record, on every path. When \<open>String(err)\<close> itself raises inside the
  \<open>catch\<close> block, the TypeError replaces the error and the record keeps no
  error text; the \<open>finally\<close> block still runs.
\<close>

definition tool_catch :: "thrown \<Rightarrow> PTCToolCallRecord \<Rightarrow> (thrown + string) \<times> PTCToolCallRecord" where
  "tool_catch err record =
     (case errorText err of
        Inl e \<Rightarrow> (Inl e, record)
      | Inr msg \<Rightarrow> (Inl err, record\<lparr> rec_error := Some msg \<rparr>))"

definition tool_try :: "exec_response settled \<Rightarrow> PTCToolCallRecord \<Rightarrow> (thrown + string) \<times> PTCToolCallRecord" where
  "tool_try settlement record =
     (case settlement of
        Rejected err \<Rightarrow> tool_catch err record
      | Fulfilled response \<Rightarrow>
          if truthy_opt (er_error response)
          then tool_catch
                 (ErrorObj (''Tool execute failed: '' @
                    (case er_error response of Some e \<Rightarrow> JSON_stringify e | None \<Rightarrow> [])))
                 record
          else
            (let output =
               (case er_data response of
                  None \<Rightarrow> ''''
                | Some d \<Rightarrow> (case data_output d of None \<Rightarrow> '''' | Some s \<Rightarrow> s))
             in (Inr output, record\<lparr> rec_result := Some output \<rparr>)))"

text \<open>The argument of \<open>client.tool.execute\<close>, lines 128-139.\<close>

definition toolRequest :: "PTCTool \<Rightarrow> PTCContext \<Rightarrow> jsval \<Rightarrow> exec_request" where
  "toolRequest tool context args =
     \<lparr> q_directory = ctx_directory context,
       b_sessionID = ctx_sessionID context,
       b_messageID = ctx_messageID context,
       b_providerID = ctx_providerID context,
       b_modelID = ctx_modelID context,
       b_toolID = tool_name tool,
       b_args = args,
       b_agent = ctx_agent context \<rparr>"

definition createToolFunction :: "OpencodeClient \<Rightarrow> PTCTool \<Rightarrow> PTCContext \<Rightarrow> PTCToolFunction" where
  "createToolFunction client tool context args s =
     (let startTime = st_now s;
          record = \<lparr> rec_tool = tool_name tool, rec_args = args, rec_result = None,
                     rec_error = None, rec_duration = 0 \<rparr>;
          (settlement, latency) =
            tool_execute client (toolRequest tool context args) (st_now s);
          s1 = s\<lparr> st_now := st_now s + int latency \<rparr>;
          (outcome, record1) = tool_try settlement record;
          record2 = record1\<lparr> rec_duration := st_now s1 - startTime \<rparr>
      in (outcome, s1\<lparr> st_callRecords := st_callRecords s1 @ [record2] \<rparr>))"

text \<open>
  \<open>createAgentFunction\<close>, lines 156-178, and \<open>createSkillFunction\<close>, lines
  180-202: the \<open>try\<close> block writes the error text and throws; the
  \<open>finally\<close> block writes the duration and pushes the record. Nothing is awaited.
\<close>

definition createAgentFunction :: "OpencodeClient \<Rightarrow> PTCAgent \<Rightarrow> PTCContext \<Rightarrow> PTCAgentFunction" where
  "createAgentFunction client agent context prompt options s =
     (let startTime = st_now s;
          record = \<lparr> rec_tool = ''agent:'' @ agent_name agent,
                     rec_args = Json (JObj [(''prompt'', JStr prompt)]),
                     rec_result = None, rec_error = None, rec_duration = 0 \<rparr>;
          record1 = record\<lparr> rec_error :=
                      Some ''Agent calls are not yet supported in direct execution mode'' \<rparr>;
          record2 = record1\<lparr> rec_duration := st_now s - startTime \<rparr>
      in (Inl (ErrorObj
                ''Agent calls are not yet supported. Use the 'task' tool directly for agent invocation.''),
          s\<lparr> st_callRecords := st_callRecords s @ [record2] \<rparr>))"

definition createSkillFunction :: "OpencodeClient \<Rightarrow> PTCSkill \<Rightarrow> PTCContext \<Rightarrow> PTCSkillFunction" where
  "createSkillFunction client skill context s =
     (let startTime = st_now s;
          record = \<lparr> rec_tool = ''skill:'' @ skill_name skill,
                     rec_args = Json (JObj []),
                     rec_result = None, rec_error = None, rec_duration = 0 \<rparr>;
          record1 = record\<lparr> rec_error :=
                      Some ''Skill calls are not yet supported in direct execution mode'' \<rparr>;
          record2 = record1\<lparr> rec_duration := st_now s - startTime \<rparr>
      in (Inl (ErrorObj ''Skill calls are not yet supported. Use the 'skill' tool directly.''),
          s\<lparr> st_callRecords := st_callRecords s @ [record2] \<rparr>))"

subsection \<open>Signatures\<close>

text \<open>
  \<open>name.replace(/[^a-zA-Z0-9_]/g, "_")\<close>: generators.ts line 246 and, with the
  same body, the private method of runtime.ts line 160.
\<close>

definition isWordChar :: "char \<Rightarrow> bool" where
  "isWordChar c =
     ((CHR ''a'' \<le> c \<and> c \<le> CHR ''z'') \<or> (CHR ''A'' \<le> c \<and> c \<le> CHR ''Z'') \<or>
      (CHR ''0'' \<le> c \<and> c \<le> CHR ''9'') \<or> c = CHR ''_'')"

definition sanitizeName :: "string \<Rightarrow> string" where
  "sanitizeName name = map (\<lambda>c. if isWordChar c then c else CHR ''_'') name"

text \<open>The \<open>switch\<close> compares with \<open>===\<close>, so a type that is not a string falls to the default.\<close>

definition mapTypeToTS :: "json \<Rightarrow> string" where
  "mapTypeToTS t =
     (if t = JStr ''string'' then ''string''
      else if t = JStr ''number'' \<or> t = JStr ''integer'' then ''number''
      else if t = JStr ''boolean'' then ''boolean''
      else if t = JStr ''array'' then ''unknown[]''
      else if t = JStr ''object'' then ''Record<string, unknown>''
      else ''unknown'')"

definition renderParam :: "string \<times> PTCParameter \<Rightarrow> string" where
  "renderParam e =
     (case e of (name, param) \<Rightarrow>
        name @ (if param_required param = Some True then '''' else ''?'') @ '': '' @
        mapTypeToTS (param_type param))"

text \<open>Lines 214-216: \<open>Object.entries(tool.parameters).map(...).join(", ")\<close>.\<close>

definition toolLines :: "PTCTool \<Rightarrow> string list" where
  "toolLines tool =
     (let params = join '', '' (map renderParam (ownEntries (tool_parameters tool))) in
      [''// '' @ tool_description tool,
       ''async function '' @ sanitizeName (tool_name tool) @ ''(args: { '' @ params @
         '' }): Promise<string>'',
       ''''])"

definition agentLines :: "PTCAgent \<Rightarrow> string list" where
  "agentLines agent =
     [''// '' @ (case agent_description agent of None \<Rightarrow> ''No description'' | Some d \<Rightarrow> d),
      ''// agents.'' @ sanitizeName (agent_name agent) @ '' - not directly callable'',
      '''']"

definition skillLines :: "PTCSkill \<Rightarrow> string list" where
  "skillLines skill =
     [''// '' @ skill_description skill,
      ''// skills.'' @ sanitizeName (skill_name skill) @ '' - not directly callable'',
      '''']"

text \<open>The array \<open>lines\<close> of \<open>generateFunctionSignatures\<close>, before it is joined.\<close>

definition signatureLines :: "PTCTool list \<Rightarrow> PTCAgent list \<Rightarrow> PTCSkill list \<Rightarrow> string list" where
  "signatureLines tools agents skills =
     [''// Available Tools'', ''''] @
     concat (map toolLines tools) @
     [''// Available Agents (listing only - use 'task' tool for invocation)'', ''''] @
     concat (map agentLines agents) @
     (if length skills > 0
      then [''// Available Skills (listing only - use 'skill' tool for invocation)'', ''''] @
           concat (map skillLines skills)
      else [])"

definition generateFunctionSignatures :: "PTCTool list \<Rightarrow> PTCAgent list \<Rightarrow> PTCSkill list \<Rightarrow> string" where
  "generateFunctionSignatures tools agents skills =
     join [CHR 0x0A] (signatureLines tools agents skills)"

section \<open>runtime.ts\<close>

definition DEFAULT_TIMEOUT :: "53 word" where
  "DEFAULT_TIMEOUT = 300000"

definition DEFAULT_MAX_TOOL_CALLS :: "53 word" where
  "DEFAULT_MAX_TOOL_CALLS = 100"

record Required_PTCExecutorOptions =
  timeout :: "53 word"
  maxToolCalls :: "53 word"

record PTCExecutor =
  ex_client :: OpencodeClient
  ex_tools :: "PTCTool list"
  ex_agents :: "PTCAgent list"
  ex_skills :: "PTCSkill list"
  ex_options :: Required_PTCExecutorOptions

text \<open>
  The constructor, reached through \<open>createExecutor\<close>; an absent \<open>options\<close>
  argument is the empty object.
\<close>

definition createExecutor ::
  "OpencodeClient \<Rightarrow> PTCTool list \<Rightarrow> PTCAgent list \<Rightarrow> PTCSkill list
    \<Rightarrow> PTCExecutorOptions option \<Rightarrow> PTCExecutor" where
  "createExecutor client tools agents skills options =
     (let opts = (case options of
                    None \<Rightarrow> \<lparr> opt_timeout = None, opt_maxToolCalls = None \<rparr>
                  | Some opts \<Rightarrow> opts)
      in \<lparr> ex_client = client, ex_tools = tools, ex_agents = agents, ex_skills = skills,
           ex_options = \<lparr>
             timeout = (case opt_timeout opts of None \<Rightarrow> DEFAULT_TIMEOUT | Some t \<Rightarrow> t),
             maxToolCalls =
               (case opt_maxToolCalls opts of None \<Rightarrow> DEFAULT_MAX_TOOL_CALLS | Some n \<Rightarrow> n) \<rparr> \<rparr>)"

record PTCRuntime =
  rt_tools :: "string \<rightharpoonup> PTCToolFunction"
  rt_agents :: "string \<rightharpoonup> PTCAgentFunction"
  rt_skills :: "string \<rightharpoonup> PTCSkillFunction"
  rt_log :: "jsval list \<Rightarrow> state \<Rightarrow> (thrown + unit) \<times> state"
  rt_context :: PTCContext

subsection \<open>The namespaces and the logging function\<close>

text \<open>
  The three loops of \<open>execute\<close>, lines 57-88:
  \<open>toolFunctions[safeName] = ...\<close>, into an object that starts as \<open>{}\<close>.
  The map holds what the loop has put under each key.
\<close>

definition toolFunctions ::
  "OpencodeClient \<Rightarrow> PTCTool list \<Rightarrow> PTCContext \<Rightarrow> (string \<rightharpoonup> PTCToolFunction)" where
  "toolFunctions client tools context =
     fold (\<lambda>tool fs. fs(sanitizeName (tool_name tool) \<mapsto> createToolFunction client tool context))
       tools Map.empty"

definition agentFunctions ::
  "OpencodeClient \<Rightarrow> PTCAgent list \<Rightarrow> PTCContext \<Rightarrow> (string \<rightharpoonup> PTCAgentFunction)" where
  "agentFunctions client agents context =
     fold (\<lambda>agent fs. fs(sanitizeName (agent_name agent) \<mapsto> createAgentFunction client agent context))
       agents Map.empty"

definition skillFunctions ::
  "OpencodeClient \<Rightarrow> PTCSkill list \<Rightarrow> PTCContext \<Rightarrow> (string \<rightharpoonup> PTCSkillFunction)" where
  "skillFunctions client skills context =
     fold (\<lambda>skill fs. fs(sanitizeName (skill_name skill) \<mapsto> createSkillFunction client skill context))
       skills Map.empty"

text \<open>
  The logging function, lines 94-98. \<open>typeof arg === "string" ? arg : JSON.stringify(arg)\<close>
  is evaluated for each argument in turn and may raise; \<open>join\<close> writes an
  \<open>undefined\<close> element as the empty string.
\<close>

definition logArg :: "jsval \<Rightarrow> thrown + string option" where
  "logArg arg =
     (case arg of
        Json (JStr s) \<Rightarrow> Inr (Some s)
      | _ \<Rightarrow> JSON_stringify_val arg)"

fun mapArgs :: "('a \<Rightarrow> thrown + 'b) \<Rightarrow> 'a list \<Rightarrow> thrown + 'b list" where
  "mapArgs f [] = Inr []"
| "mapArgs f (x # xs) =
     (case f x of
        Inl e \<Rightarrow> Inl e
      | Inr y \<Rightarrow> (case mapArgs f xs of Inl e \<Rightarrow> Inl e | Inr ys \<Rightarrow> Inr (y # ys)))"

definition joinParts :: "string \<Rightarrow> string option list \<Rightarrow> string" where
  "joinParts sep parts = join sep (map (\<lambda>p. case p of None \<Rightarrow> '''' | Some s \<Rightarrow> s) parts)"

definition log_fn :: "jsval list \<Rightarrow> state \<Rightarrow> (thrown + unit) \<times> state" where
  "log_fn args s =
     (case mapArgs logArg args of
        Inl e \<Rightarrow> (Inl e, s)
      | Inr parts \<Rightarrow> (Inr (), s\<lparr> st_logs := st_logs s @ [joinParts '' '' parts] \<rparr>))"

definition mkRuntime :: "PTCExecutor \<Rightarrow> PTCContext \<Rightarrow> PTCRuntime" where
  "mkRuntime this context =
     \<lparr> rt_tools = toolFunctions (ex_client this) (ex_tools this) context,
       rt_agents = agentFunctions (ex_client this) (ex_agents this) context,
       rt_skills = skillFunctions (ex_client this) (ex_skills this) context,
       rt_log = log_fn,
       rt_context = context \<rparr>"

subsection \<open>The submitted code\<close>

text \<open>
  What the code gets when it calls a property of a namespace and awaits the call:
  the rejection of a binding, the string a binding resolved to, the TypeError of
  calling something that is not a function (the message is the engine's), or what a
  built-in method that the namespace inherits returned or raised. Such a method reads
  neither the clock nor the two arrays and calls no binding; what it gives is not
  modelled further, and what the code does next is up to the code unit.
\<close>

datatype answer = Raised thrown | Resolved string | NotCallable | Builtin

fun settledAnswer :: "thrown + string \<Rightarrow> answer" where
  "settledAnswer (Inl e) = Raised e"
| "settledAnswer (Inr out) = Resolved out"

text \<open>
  What a compiled code unit does with its five free variables, as a tree: it returns,
  throws, awaits something that never settles, awaits a timer of its own, keeps the
  thread busy for some milliseconds (a synchronous computation, during which nothing
  else runs), calls \<open>log\<close>, or awaits a call of \<open>tools[key]\<close>,
  \<open>agents[key]\<close> or \<open>skills[key]\<close> and goes on with what the call gave
  (a rejection it may catch or let escape). Synchronous work ends, and the code awaits
  one call at a time.
\<close>

datatype prog =
    Return jsval
  | Throw thrown
  | Pending
  | Sleep nat prog
  | Busy nat prog
  | Log "jsval list" "thrown + unit \<Rightarrow> prog"
  | CallTool string jsval "answer \<Rightarrow> prog"
  | CallAgent string string "string option option" "answer \<Rightarrow> prog"
  | CallSkill string "answer \<Rightarrow> prog"

text \<open>
  The JavaScript engine behind \<open>new AsyncFunction(..., wrappedCode)\<close>: a source
  text either fails to compile (the message of the SyntaxError) or is a code unit.
\<close>

type_synonym js_engine = "string \<Rightarrow> string + prog"

datatype outcome = Completed jsval | Failed thrown | TimerWon

text \<open>
  Reading a property of a namespace. The namespaces are plain objects, so a key that
  the loop did not write is looked up in \<open>Object.prototype\<close>, whose methods are
  callable. When a capability has the sanitized name \<open>__proto__\<close>, the
  assignment has made its binding the prototype of the namespace: reading
  \<open>__proto__\<close> gives the binding, as the map has it, and the methods of
  \<open>Function.prototype\<close> are inherited as well. Any other key gives
  \<open>undefined\<close> or a value that is not callable.
\<close>

definition objectPrototypeMethods :: "string list" where
  "objectPrototypeMethods =
     [''constructor'', ''hasOwnProperty'', ''isPrototypeOf'', ''propertyIsEnumerable'',
      ''toLocaleString'', ''toString'', ''valueOf'', ''__defineGetter__'', ''__defineSetter__'',
      ''__lookupGetter__'', ''__lookupSetter__'']"

definition functionPrototypeMethods :: "string list" where
  "functionPrototypeMethods = [''apply'', ''bind'', ''call'']"

datatype 'f property = Own 'f | Inherited | Missing

definition getProperty :: "(string \<rightharpoonup> 'f) \<Rightarrow> string \<Rightarrow> 'f property" where
  "getProperty ns key =
     (case ns key of
        Some f \<Rightarrow> Own f
      | None \<Rightarrow>
          if key \<in> set objectPrototypeMethods
             \<or> (ns ''__proto__'' \<noteq> None \<and> key \<in> set functionPrototypeMethods)
          then Inherited else Missing)"

text \<open>
  \<open>Promise.race([executionPromise, timeoutPromise])\<close>, lines 136-150, with the
  timer due at \<open>deadline\<close>. The callback of the timer can run only while the code
  is waiting for a timer of its own or for a host answer that is on its way. The timer
  was armed before the code started, so it runs before any such wait that is over at
  the same time or later. What is settled at once (a host answer that takes no time, the
  agent and skill placeholders, a missing binding, an inherited method) resumes the code
  in a microtask, before any timer callback, and synchronous work is not interrupted.
  When the timer wins, the state is the one at that moment: a call still in flight has
  pushed no record.
\<close>

primrec run :: "PTCRuntime \<Rightarrow> int \<Rightarrow> prog \<Rightarrow> state \<Rightarrow> outcome \<times> state" where
  "run rt deadline (Return v) s = (Completed v, s)"
| "run rt deadline (Throw e) s = (Failed e, s)"
| "run rt deadline Pending s = (TimerWon, s\<lparr> st_now := max deadline (st_now s) \<rparr>)"
| "run rt deadline (Sleep ms p) s =
     (if deadline \<le> st_now s + int ms
      then (TimerWon, s\<lparr> st_now := max deadline (st_now s) \<rparr>)
      else run rt deadline p (s\<lparr> st_now := st_now s + int ms \<rparr>))"
| "run rt deadline (Busy ms p) s = run rt deadline p (s\<lparr> st_now := st_now s + int ms \<rparr>)"
| "run rt deadline (Log args k) s =
     (case rt_log rt args s of (r, s') \<Rightarrow> run rt deadline (k r) s')"
| "run rt deadline (CallTool key args k) s =
     (case getProperty (rt_tools rt) key of
        Missing \<Rightarrow> run rt deadline (k NotCallable) s
      | Inherited \<Rightarrow> run rt deadline (k Builtin) s
      | Own f \<Rightarrow>
          (case f args s of (r, s') \<Rightarrow>
             if st_now s < st_now s' \<and> deadline \<le> st_now s'
             then (TimerWon, s\<lparr> st_now := max deadline (st_now s) \<rparr>)
             else run rt deadline (k (settledAnswer r)) s'))"
| "run rt deadline (CallAgent key prompt options k) s =
     (case getProperty (rt_agents rt) key of
        Missing \<Rightarrow> run rt deadline (k NotCallable) s
      | Inherited \<Rightarrow> run rt deadline (k Builtin) s
      | Own f \<Rightarrow>
          (case f prompt options s of (r, s') \<Rightarrow> run rt deadline (k (settledAnswer r)) s'))"
| "run rt deadline (CallSkill key k) s =
     (case getProperty (rt_skills rt) key of
        Missing \<Rightarrow> run rt deadline (k NotCallable) s
      | Inherited \<Rightarrow> run rt deadline (k Builtin) s
      | Own f \<Rightarrow> (case f s of (r, s') \<Rightarrow> run rt deadline (k (settledAnswer r)) s'))"

text \<open>
  The code unit left alone, with no timer armed: how it settles (\<open>Inl\<close> the
  value it throws, \<open>Inr\<close> the value it returns) and the state at that moment;
  \<open>None\<close> when it never settles.
\<close>

primrec leftAlone :: "PTCRuntime \<Rightarrow> prog \<Rightarrow> state \<Rightarrow> ((thrown + jsval) \<times> state) option" where
  "leftAlone rt (Return v) s = Some (Inr v, s)"
| "leftAlone rt (Throw e) s = Some (Inl e, s)"
| "leftAlone rt Pending s = None"
| "leftAlone rt (Sleep ms p) s = leftAlone rt p (s\<lparr> st_now := st_now s + int ms \<rparr>)"
| "leftAlone rt (Busy ms p) s = leftAlone rt p (s\<lparr> st_now := st_now s + int ms \<rparr>)"
| "leftAlone rt (Log args k) s =
     (case rt_log rt args s of (r, s') \<Rightarrow> leftAlone rt (k r) s')"
| "leftAlone rt (CallTool key args k) s =
     (case getProperty (rt_tools rt) key of
        Missing \<Rightarrow> leftAlone rt (k NotCallable) s
      | Inherited \<Rightarrow> leftAlone rt (k Builtin) s
      | Own f \<Rightarrow> (case f args s of (r, s') \<Rightarrow> leftAlone rt (k (settledAnswer r)) s'))"
| "leftAlone rt (CallAgent key prompt options k) s =
     (case getProperty (rt_agents rt) key of
        Missing \<Rightarrow> leftAlone rt (k NotCallable) s
      | Inherited \<Rightarrow> leftAlone rt (k Builtin) s
      | Own f \<Rightarrow>
          (case f prompt options s of (r, s') \<Rightarrow> leftAlone rt (k (settledAnswer r)) s'))"
| "leftAlone rt (CallSkill key k) s =
     (case getProperty (rt_skills rt) key of
        Missing \<Rightarrow> leftAlone rt (k NotCallable) s
      | Inherited \<Rightarrow> leftAlone rt (k Builtin) s
      | Own f \<Rightarrow> (case f s of (r, s') \<Rightarrow> leftAlone rt (k (settledAnswer r)) s'))"

text \<open>
  The waits of the code unit, left alone: for every await of a timer of its own, and
  of a host call that takes time, the reading of the clock when the wait is over;
  \<open>None\<close> for a wait that is never over.
\<close>

primrec awaits :: "PTCRuntime \<Rightarrow> prog \<Rightarrow> state \<Rightarrow> int option list" where
  "awaits rt (Return v) s = []"
| "awaits rt (Throw e) s = []"
| "awaits rt Pending s = [None]"
| "awaits rt (Sleep ms p) s =
     Some (st_now s + int ms) # awaits rt p (s\<lparr> st_now := st_now s + int ms \<rparr>)"
| "awaits rt (Busy ms p) s = awaits rt p (s\<lparr> st_now := st_now s + int ms \<rparr>)"
| "awaits rt (Log args k) s =
     (case rt_log rt args s of (r, s') \<Rightarrow> awaits rt (k r) s')"
| "awaits rt (CallTool key args k) s =
     (case getProperty (rt_tools rt) key of
        Missing \<Rightarrow> awaits rt (k NotCallable) s
      | Inherited \<Rightarrow> awaits rt (k Builtin) s
      | Own f \<Rightarrow>
          (case f args s of (r, s') \<Rightarrow>
             (if st_now s < st_now s' then [Some (st_now s')] else []) @
             awaits rt (k (settledAnswer r)) s'))"
| "awaits rt (CallAgent key prompt options k) s =
     (case getProperty (rt_agents rt) key of
        Missing \<Rightarrow> awaits rt (k NotCallable) s
      | Inherited \<Rightarrow> awaits rt (k Builtin) s
      | Own f \<Rightarrow>
          (case f prompt options s of (r, s') \<Rightarrow> awaits rt (k (settledAnswer r)) s'))"
| "awaits rt (CallSkill key k) s =
     (case getProperty (rt_skills rt) key of
        Missing \<Rightarrow> awaits rt (k NotCallable) s
      | Inherited \<Rightarrow> awaits rt (k Builtin) s
      | Own f \<Rightarrow> (case f s of (r, s') \<Rightarrow> awaits rt (k (settledAnswer r)) s'))"

subsection \<open>execute\<close>

definition wrapCode :: "string \<Rightarrow> string" where
  "wrapCode code =
     [CHR 0x0A] @ ''      '' @ [CHR 0x22] @ ''use strict'' @ [CHR 0x22] @ '';'' @
     [CHR 0x0A] @ ''      '' @ code @ [CHR 0x0A] @ ''    ''"

text \<open>
  The delay after which a timer armed with \<open>setTimeout(callback, ms)\<close> is due
  (Node.js and Bun): a delay below 1 or above \<open>2^31 - 1\<close> is taken as 1.
\<close>

definition timerDelay :: "nat \<Rightarrow> nat" where
  "timerDelay ms = (if ms < 1 \<or> 2147483647 < ms then 1 else ms)"

text \<open>
  \<open>executeWithTimeout\<close>, lines 120-151. It is an async function, so the
  SyntaxError of the constructor is a rejection of its promise. The message of the
  timeout prints the configured number, whatever the delay the timer took.
\<close>

definition executeWithTimeout ::
  "js_engine \<Rightarrow> PTCExecutor \<Rightarrow> string \<Rightarrow> PTCRuntime \<Rightarrow> state \<Rightarrow> (thrown + jsval) \<times> state" where
  "executeWithTimeout engine this code runtime s =
     (let wrappedCode = wrapCode code in
      case engine wrappedCode of
        Inl msg \<Rightarrow> (Inl (ErrorObj msg), s)
      | Inr fn \<Rightarrow>
          (case run runtime
                  (st_now s + int (timerDelay (unat (timeout (ex_options this))))) fn s of
             (Completed v, s') \<Rightarrow> (Inr v, s')
           | (Failed e, s') \<Rightarrow> (Inl e, s')
           | (TimerWon, s') \<Rightarrow>
               (Inl (ErrorObj (''Execution timed out after '' @
                       show_nat (unat (timeout (ex_options this))) @ ''ms'')), s')))"

text \<open>
  \<open>execute\<close>, lines 50-118, started when the clock reads \<open>now\<close>. \<open>Inl\<close> is
  a rejection of the promise \<open>execute\<close> returns: the \<open>catch\<close> block itself
  raises when \<open>String(err)\<close> does.
\<close>

definition execute ::
  "js_engine \<Rightarrow> PTCExecutor \<Rightarrow> string \<Rightarrow> PTCContext \<Rightarrow> int \<Rightarrow> thrown + PTCExecutionResult" where
  "execute engine this code context now =
     (let s0 = \<lparr> st_now = now, st_logs = [], st_callRecords = [] \<rparr>;
          runtime = mkRuntime this context
      in case executeWithTimeout engine this code runtime s0 of
           (Inr v, s) \<Rightarrow>
             Inr \<lparr> success = True, result = Some v, error = None,
                   logs = st_logs s, toolCalls = st_callRecords s \<rparr>
         | (Inl err, s) \<Rightarrow>
             (case errorText err of
                Inl e \<Rightarrow> Inl e
              | Inr msg \<Rightarrow>
                  Inr \<lparr> success = False, result = None, error = Some msg,
                        logs = st_logs s, toolCalls = st_callRecords s \<rparr>))"

section \<open>ptc-tool.ts\<close>

text \<open>The part of the host's tool context that \<open>ptc_execute\<close> reads.\<close>

record ToolContext =
  tc_sessionID :: string
  tc_messageID :: string
  tc_agent :: string

text \<open>
  The object literal \<open>ptcContext\<close>, lines 67-73, from the tool context and the pair
  \<open>{ providerID, modelID }\<close> that \<open>resolveDefaultModel\<close> returned. The literal
  has no \<open>modelID\<close> and no \<open>directory\<close> property.
\<close>

definition ptcContext :: "OpencodeClient \<Rightarrow> ToolContext \<Rightarrow> string \<Rightarrow> string \<Rightarrow> PTCContext" where
  "ptcContext client ctx providerID modelID =
     \<lparr> ctx_sessionID = tc_sessionID ctx,
       ctx_messageID = tc_messageID ctx,
       ctx_providerID = providerID,
       ctx_modelID = None,
       ctx_agent = tc_agent ctx,
       ctx_directory = None,
       ctx_client = client \<rparr>"

section \<open>Concrete inputs\<close>

text \<open>
  A host whose \<open>tool.execute\<close> answers after 5 ms with the model identifier it
  received as output, and whose registries are empty.
\<close>

definition echoClient :: OpencodeClient where
  "echoClient =
     \<lparr> tool_list = (\<lambda>q. Fulfilled \<lparr> lr_error = None, lr_data = Some [] \<rparr>),
       app_agents = Fulfilled \<lparr> ar_error = None, ar_data = Some [] \<rparr>,
       tool_execute = (\<lambda>request t.
         (Fulfilled \<lparr> er_error = None,
                      er_data = Some \<lparr> data_output = b_modelID request \<rparr> \<rparr>, 5)) \<rparr>"

definition hostContext :: ToolContext where
  "hostContext = \<lparr> tc_sessionID = ''ses_1'', tc_messageID = ''msg_1'', tc_agent = ''build'' \<rparr>"

definition someContext :: PTCContext where
  "someContext =
     \<lparr> ctx_sessionID = ''ses_1'', ctx_messageID = ''msg_1'', ctx_providerID = ''anthropic'',
       ctx_modelID = Some ''claude'', ctx_agent = ''build'', ctx_directory = None,
       ctx_client = echoClient \<rparr>"

definition emptyState :: state where
  "emptyState = \<lparr> st_now = 0, st_logs = [], st_callRecords = [] \<rparr>"

definition fileSlash :: PTCTool where
  "fileSlash = \<lparr> tool_name = ''file/read'', tool_description = ''first'', tool_parameters = [] \<rparr>"

definition fileColon :: PTCTool where
  "fileColon = \<lparr> tool_name = ''file:read'', tool_description = ''second'', tool_parameters = [] \<rparr>"

definition readTool :: PTCTool where
  "readTool = \<lparr> tool_name = ''read'', tool_description = ''Read a file'', tool_parameters = [] \<rparr>"

text \<open>A host with three agents, one of them the primary one.\<close>

definition agentsClient :: OpencodeClient where
  "agentsClient =
     \<lparr> tool_list = (\<lambda>q. Fulfilled \<lparr> lr_error = None, lr_data = Some [] \<rparr>),
       app_agents = Fulfilled \<lparr> ar_error = None, ar_data = Some
         [\<lparr> raw_name = ''build'', raw_description = None, raw_mode = ''primary'',
            raw_other = JObj [(''builtIn'', JBool True)] \<rparr>,
          \<lparr> raw_name = ''explore'', raw_description = Some ''Explores the code base'',
            raw_mode = ''subagent'', raw_other = JObj [(''builtIn'', JBool True)] \<rparr>,
          \<lparr> raw_name = ''review'', raw_description = None, raw_mode = ''all'',
            raw_other = JObj [(''builtIn'', JBool False)] \<rparr>] \<rparr>,
       tool_execute = (\<lambda>request t. (Rejected (ErrorObj ''offline''), 0)) \<rparr>"

text \<open>
  The required-name list of a schema, in the words of the specification: the array
  under \<open>required\<close>, and no name when the schema has no such array.
\<close>

definition required_names :: "json \<Rightarrow> json list" where
  "required_names schema = (case js_get schema ''required'' of Some (JArr rs) \<Rightarrow> rs | _ \<Rightarrow> [])"

text \<open>
  The properties of a schema, in the words of the specification: the entries of the
  object (or array) under \<open>properties\<close>, as JavaScript enumerates them, and none
  when the schema has no such object.
\<close>

definition schemaProperties :: "json \<Rightarrow> (string \<times> json) list" where
  "schemaProperties schema =
     (case js_get schema ''properties'' of
        Some (JObj kvs) \<Rightarrow> ownEntries kvs
      | Some (JArr xs) \<Rightarrow> zip (map show_nat [0..<length xs]) xs
      | _ \<Rightarrow> [])"

text \<open>
  Two tool definitions as a host sends them: one with a schema of two properties, of
  which the first is required and the second has no type, and one without a schema.
\<close>

definition readFileSchema :: json where
  "readFileSchema =
     JObj [(''type'', JStr ''object''),
           (''properties'', JObj
              [(''filePath'', JObj [(''type'', JStr ''string'')]),
               (''limit'', JObj [(''description'', JStr ''Max lines'')])]),
           (''required'', JArr [JStr ''filePath''])]"

definition readFileDef :: toolDef where
  "readFileDef =
     \<lparr> def_id = ''read-file'', def_description = Some ''Read a file'',
       def_parameters = Some readFileSchema \<rparr>"

definition bareDef :: toolDef where
  "bareDef = \<lparr> def_id = ''ping'', def_description = None, def_parameters = Some (JObj []) \<rparr>"

definition limitParam :: PTCParameter where
  "limitParam =
     \<lparr> param_type = JStr ''string'', param_description = Some (JStr ''Max lines''),
       param_required = Some False, param_enum = None, param_items = None,
       param_properties = None \<rparr>"

definition filePathParam :: PTCParameter where
  "filePathParam =
     \<lparr> param_type = JStr ''string'', param_description = None,
       param_required = Some True, param_enum = None, param_items = None,
       param_properties = None \<rparr>"

definition readFileTool :: PTCTool where
  "readFileTool =
     \<lparr> tool_name = ''read-file'', tool_description = ''Read a file'',
       tool_parameters = [(''filePath'', filePathParam), (''limit'', limitParam)] \<rparr>"

definition pingTool :: PTCTool where
  "pingTool = \<lparr> tool_name = ''ping'', tool_description = '''', tool_parameters = [] \<rparr>"

text \<open>
  A definition with three properties: a required string, an integer that is not
  required, and one whose name is an array index and whose type is not a type name.
\<close>

definition grepSchema :: json where
  "grepSchema =
     JObj [(''properties'', JObj
              [(''pattern'', JObj [(''type'', JStr ''string'')]),
               (''limit'', JObj [(''type'', JStr ''integer'')]),
               (''0'', JObj [(''type'', JArr [JStr ''string'', JStr ''null''])])]),
           (''required'', JArr [JStr ''pattern''])]"

definition grepDef :: toolDef where
  "grepDef = \<lparr> def_id = ''grep'', def_description = Some ''Search'',
               def_parameters = Some grepSchema \<rparr>"

definition grepTool :: PTCTool where
  "grepTool =
     \<lparr> tool_name = ''grep'', tool_description = ''Search'',
       tool_parameters =
         [(''0'', \<lparr> param_type = JArr [JStr ''string'', JStr ''null''], param_description = None,
                    param_required = Some False, param_enum = None, param_items = None,
                    param_properties = None \<rparr>),
          (''pattern'', \<lparr> param_type = JStr ''string'', param_description = None,
                    param_required = Some True, param_enum = None, param_items = None,
                    param_properties = None \<rparr>),
          (''limit'', \<lparr> param_type = JStr ''integer'', param_description = None,
                    param_required = Some False, param_enum = None, param_items = None,
                    param_properties = None \<rparr>)] \<rparr>"

text \<open>A definition whose schema has a property that is null, and a host that lists it.\<close>

definition nullDef :: toolDef where
  "nullDef =
     \<lparr> def_id = ''odd'', def_description = None,
       def_parameters = Some (JObj [(''properties'', JObj [(''x'', JNull)])]) \<rparr>"

definition nullClient :: OpencodeClient where
  "nullClient =
     \<lparr> tool_list = (\<lambda>q. Fulfilled \<lparr> lr_error = None, lr_data = Some [readFileDef, nullDef] \<rparr>),
       app_agents = Fulfilled \<lparr> ar_error = None, ar_data = None \<rparr>,
       tool_execute = (\<lambda>request t. (Rejected (ErrorObj ''offline''), 0)) \<rparr>"

text \<open>
  The display types, in the words of the specification: a table from the type names to
  the display types; anything else is displayed as \<open>unknown\<close>.
\<close>

definition displayTypes :: "(string \<times> string) list" where
  "displayTypes =
     [(''string'', ''string''), (''number'', ''number''), (''integer'', ''number''),
      (''boolean'', ''boolean''), (''array'', ''unknown[]''),
      (''object'', ''Record<string, unknown>'')]"

definition displayType :: "json \<Rightarrow> string" where
  "displayType t =
     (case t of
        JStr n \<Rightarrow> (case map_of displayTypes n of Some d \<Rightarrow> d | None \<Rightarrow> ''unknown'')
      | _ \<Rightarrow> ''unknown'')"

definition toolsClient :: OpencodeClient where
  "toolsClient =
     \<lparr> tool_list = (\<lambda>q. Fulfilled \<lparr> lr_error = None, lr_data = Some [readFileDef, bareDef] \<rparr>),
       app_agents = Fulfilled \<lparr> ar_error = None, ar_data = None \<rparr>,
       tool_execute = (\<lambda>request t. (Rejected (ErrorObj ''offline''), 0)) \<rparr>"

text \<open>
  A value that \<open>JSON.stringify\<close> accepts, and the text a logged argument
  contributes to its entry, in the words of the specification: a string as it is,
  any other value JSON-serialized (\<open>undefined\<close> has no serialization and
  contributes nothing).
\<close>

fun serializable :: "jsval \<Rightarrow> bool" where
  "serializable (BigInt n) = False"
| "serializable v = True"

fun logText :: "jsval \<Rightarrow> string" where
  "logText (Json (JStr s)) = s"
| "logText (Json j) = JSON_stringify j"
| "logText Undefined = ''''"
| "logText (BigInt n) = ''''"

text \<open>
  The code \<open>log(...a1); log(...a2); ...\<close> followed by \<open>rest\<close>, with no
  \<open>try\<close> around the calls.
\<close>

fun logAll :: "jsval list list \<Rightarrow> prog \<Rightarrow> prog" where
  "logAll [] rest = rest"
| "logAll (args # calls) rest =
     Log args (\<lambda>r. case r of Inl e \<Rightarrow> Throw e | Inr u \<Rightarrow> logAll calls rest)"

text \<open>
  The code unit settles within \<open>T\<close> milliseconds of its start: left alone, it
  returns or throws when the clock has advanced by at most \<open>T\<close>.
\<close>

definition settlesWithin :: "PTCRuntime \<Rightarrow> nat \<Rightarrow> prog \<Rightarrow> state \<Rightarrow> bool" where
  "settlesWithin rt T fn s =
     (case leftAlone rt fn s of
        None \<Rightarrow> False
      | Some (out, s') \<Rightarrow> st_now s' \<le> st_now s + int T)"

text \<open>
  The code unit is waiting when \<open>T\<close> milliseconds have passed since its start:
  left alone, it has a wait that is over no earlier than that, or never.
\<close>

definition waitingAfter :: "PTCRuntime \<Rightarrow> nat \<Rightarrow> prog \<Rightarrow> state \<Rightarrow> bool" where
  "waitingAfter rt T fn s =
     list_ex (\<lambda>w. case w of None \<Rightarrow> True | Some t \<Rightarrow> st_now s + int T \<le> t) (awaits rt fn s)"

text \<open>
  The milliseconds for which the code unit, left alone, keeps the thread busy on its
  way.
\<close>

primrec busyWork :: "PTCRuntime \<Rightarrow> prog \<Rightarrow> state \<Rightarrow> nat" where
  "busyWork rt (Return v) s = 0"
| "busyWork rt (Throw e) s = 0"
| "busyWork rt Pending s = 0"
| "busyWork rt (Sleep ms p) s = busyWork rt p (s\<lparr> st_now := st_now s + int ms \<rparr>)"
| "busyWork rt (Busy ms p) s = ms + busyWork rt p (s\<lparr> st_now := st_now s + int ms \<rparr>)"
| "busyWork rt (Log args k) s =
     (case rt_log rt args s of (r, s') \<Rightarrow> busyWork rt (k r) s')"
| "busyWork rt (CallTool key args k) s =
     (case getProperty (rt_tools rt) key of
        Missing \<Rightarrow> busyWork rt (k NotCallable) s
      | Inherited \<Rightarrow> busyWork rt (k Builtin) s
      | Own f \<Rightarrow> (case f args s of (r, s') \<Rightarrow> busyWork rt (k (settledAnswer r)) s'))"
| "busyWork rt (CallAgent key prompt options k) s =
     (case getProperty (rt_agents rt) key of
        Missing \<Rightarrow> busyWork rt (k NotCallable) s
      | Inherited \<Rightarrow> busyWork rt (k Builtin) s
      | Own f \<Rightarrow>
          (case f prompt options s of (r, s') \<Rightarrow> busyWork rt (k (settledAnswer r)) s'))"
| "busyWork rt (CallSkill key k) s =
     (case getProperty (rt_skills rt) key of
        Missing \<Rightarrow> busyWork rt (k NotCallable) s
      | Inherited \<Rightarrow> busyWork rt (k Builtin) s
      | Own f \<Rightarrow> (case f s of (r, s') \<Rightarrow> busyWork rt (k (settledAnswer r)) s'))"

text \<open>
  Code that lets the error of an awaited call escape and goes on with the string the
  binding resolved to: \<open>const out = await ns.key(...); ...\<close> with no
  \<open>try\<close> around it, for a key that is not the name of an inherited method (so
  that the last case does not occur). \<open>what\<close> is the callee as the TypeError
  of the engine names it.
\<close>

fun uncaught :: "string \<Rightarrow> (string \<Rightarrow> prog) \<Rightarrow> answer \<Rightarrow> prog" where
  "uncaught what k (Raised e) = Throw e"
| "uncaught what k (Resolved out) = k out"
| "uncaught what k NotCallable = Throw (ErrorObj (what @ '' is not a function''))"
| "uncaught what k Builtin = Pending"

text \<open>
  An engine that knows six source texts: a code unit that throws an object without
  string conversion, one that returns a number, one that awaits a promise nobody
  resolves, one that logs, reads a file through the host and then sleeps for two
  seconds, one that logs twice and calls an agent, and one that spins for two seconds
  and returns; every other text is a syntax error.
\<close>

definition busyCode :: string where
  "busyCode = ''const t = Date.now(); while (Date.now() - t < 2000) {} return 1;''"

definition slowCode :: string where
  "slowCode = ''log('start', 1); await tools.read({}); await new Promise(r => setTimeout(r, 2000)); return 1;''"

definition agentCode :: string where
  "agentCode = ''log('a'); log({n: 1}, undefined, 'b'); await agents.explore('find');''"

definition sampleEngine :: js_engine where
  "sampleEngine src =
     (if src = wrapCode ''throw Object.create(null)'' then Inr (Throw Uncoercible)
      else if src = wrapCode ''return 1 + 1;'' then Inr (Return (Json (JNum 2)))
      else if src = wrapCode ''await new Promise(() => {})'' then Inr Pending
      else if src = wrapCode slowCode then
        Inr (Log [Json (JStr ''start''), Json (JNum 1)] (\<lambda>r. case r of
               Inl e \<Rightarrow> Throw e
             | Inr u \<Rightarrow> CallTool ''read'' (Json (JObj []))
                 (uncaught ''tools.read'' (\<lambda>out. Sleep 2000 (Return (Json (JNum 1)))))))
      else if src = wrapCode agentCode then
        Inr (logAll [[Json (JStr ''a'')],
                     [Json (JObj [(''n'', JNum 1)]), Undefined, Json (JStr ''b'')]]
               (CallAgent ''explore'' ''find'' None
                  (uncaught ''agents.explore'' (\<lambda>out. Return Undefined))))
      else if src = wrapCode busyCode then Inr (Busy 2000 (Return (Json (JNum 1))))
      else Inl ''Unexpected token'')"

text \<open>
  Two agents whose names have the same sanitized form, of which one is its own
  sanitized form, and a skill.
\<close>

definition dashAgent :: PTCAgent where
  "dashAgent = \<lparr> agent_name = ''a-b'', agent_description = None, agent_mode = ''subagent'' \<rparr>"

definition underscoreAgent :: PTCAgent where
  "underscoreAgent = \<lparr> agent_name = ''a_b'', agent_description = None, agent_mode = ''subagent'' \<rparr>"

definition deploySkill :: PTCSkill where
  "deploySkill = \<lparr> skill_name = ''deploy'', skill_description = ''Deploys'' \<rparr>"

text \<open>
  The code \<open>await agents['a-b']('find')\<close> and the code
  \<open>await agents.a_b('find')\<close>.
\<close>

definition dashCall :: prog where
  "dashCall = CallAgent ''a-b'' ''find'' None (uncaught ''agents.a-b'' (\<lambda>out. Return Undefined))"

definition underscoreCall :: prog where
  "underscoreCall =
     CallAgent ''a_b'' ''find'' None (uncaught ''agents.a_b'' (\<lambda>out. Return Undefined))"

definition exploreAgent :: PTCAgent where
  "exploreAgent = \<lparr> agent_name = ''explore'', agent_description = None, agent_mode = ''subagent'' \<rparr>"

definition sampleExecutor :: "53 word option \<Rightarrow> PTCExecutor" where
  "sampleExecutor T =
     createExecutor echoClient [readTool] [exploreAgent] []
       (Some \<lparr> opt_timeout = T, opt_maxToolCalls = None \<rparr>)"

section \<open>Name sanitization and the namespaces\<close>

lemma isWordChar_underscore: "isWordChar (CHR ''_'')"
  by (simp add: isWordChar_def)

lemma sanitizeName_idem: "sanitizeName (sanitizeName name) = sanitizeName name"
  by (simp add: sanitizeName_def isWordChar_underscore)

lemma fold_upd_other:
  "\<forall>u \<in> set xs. key u \<noteq> k \<Longrightarrow> fold (\<lambda>u fs. fs(key u \<mapsto> b u)) xs m k = m k"
  by (induction xs arbitrary: m) auto

lemma fold_upd_last:
  "\<forall>u \<in> set later. key u \<noteq> key t \<Longrightarrow>
   fold (\<lambda>u fs. fs(key u \<mapsto> b u)) (earlier @ [t] @ later) m (key t) = Some (b t)"
  by (simp add: fold_upd_other)

lemma fold_upd_Some:
  "fold (\<lambda>u fs. fs(key u \<mapsto> b u)) xs m k = Some f \<Longrightarrow>
   m k = Some f \<or> (\<exists>u \<in> set xs. key u = k \<and> f = b u)"
proof (induction xs arbitrary: m)
  case Nil
  then show ?case by simp
next
  case (Cons a xs)
  from Cons.prems have "fold (\<lambda>u fs. fs(key u \<mapsto> b u)) xs (m(key a \<mapsto> b a)) k = Some f"
    by (simp only: fold_simps comp_apply)
  from Cons.IH [OF this]
  have "(m(key a \<mapsto> b a)) k = Some f \<or> (\<exists>u \<in> set xs. key u = k \<and> f = b u)" .
  then show ?case by (auto split: if_splits)
qed

lemma toolFunctions_last:
  "\<forall>u \<in> set later. sanitizeName (tool_name u) \<noteq> sanitizeName (tool_name t) \<Longrightarrow>
   toolFunctions client (earlier @ [t] @ later) context (sanitizeName (tool_name t))
     = Some (createToolFunction client t context)"
  unfolding toolFunctions_def
  by (rule fold_upd_last [where key = "\<lambda>u. sanitizeName (tool_name u)"
        and b = "\<lambda>u. createToolFunction client u context"])

lemma agentFunctions_last:
  "\<forall>u \<in> set later. sanitizeName (agent_name u) \<noteq> sanitizeName (agent_name a) \<Longrightarrow>
   agentFunctions client (earlier @ [a] @ later) context (sanitizeName (agent_name a))
     = Some (createAgentFunction client a context)"
  unfolding agentFunctions_def
  by (rule fold_upd_last [where key = "\<lambda>u. sanitizeName (agent_name u)"
        and b = "\<lambda>u. createAgentFunction client u context"])

lemma skillFunctions_last:
  "\<forall>u \<in> set later. sanitizeName (skill_name u) \<noteq> sanitizeName (skill_name k) \<Longrightarrow>
   skillFunctions client (earlier @ [k] @ later) context (sanitizeName (skill_name k))
     = Some (createSkillFunction client k context)"
  unfolding skillFunctions_def
  by (rule fold_upd_last [where key = "\<lambda>u. sanitizeName (skill_name u)"
        and b = "\<lambda>u. createSkillFunction client u context"])

lemma agentFunctions_Some:
  "agentFunctions client agents context key = Some f \<Longrightarrow>
   \<exists>agent \<in> set agents. sanitizeName (agent_name agent) = key
      \<and> f = createAgentFunction client agent context"
  unfolding agentFunctions_def
  by (drule fold_upd_Some) auto

lemma skillFunctions_Some:
  "skillFunctions client skills context key = Some f \<Longrightarrow>
   \<exists>skill \<in> set skills. sanitizeName (skill_name skill) = key
      \<and> f = createSkillFunction client skill context"
  unfolding skillFunctions_def
  by (drule fold_upd_Some) auto

text \<open>
  C5. \<open>sanitizeName\<close> keeps the length of a name, keeps every character of
  \<open>[A-Za-z0-9_]\<close> and writes an underscore for every other one; sanitizing a
  sanitized name changes nothing; and in each of the three namespaces the key of a
  capability holds the binding of the last capability processed with that key, whatever
  was stored under it before: a later capability with the same sanitized name
  overwrites an earlier one, and nothing is raised.
\<close>

theorem sanitizeName_last_write_wins:
  "length (sanitizeName name) = length name
   \<and> (\<forall>i. i < length name \<longrightarrow>
          sanitizeName name ! i = (if isWordChar (name ! i) then name ! i else CHR ''_''))
   \<and> (\<forall>c. isWordChar c \<longleftrightarrow>
          (CHR ''A'' \<le> c \<and> c \<le> CHR ''Z'') \<or> (CHR ''a'' \<le> c \<and> c \<le> CHR ''z'') \<or>
          (CHR ''0'' \<le> c \<and> c \<le> CHR ''9'') \<or> c = CHR ''_'')
   \<and> sanitizeName (sanitizeName name) = sanitizeName name
   \<and> ((\<forall>u \<in> set later. sanitizeName (tool_name u) \<noteq> sanitizeName (tool_name t)) \<longrightarrow>
        toolFunctions client (earlier @ [t] @ later) ctx (sanitizeName (tool_name t))
          = Some (createToolFunction client t ctx))
   \<and> ((\<forall>u \<in> set laterA. sanitizeName (agent_name u) \<noteq> sanitizeName (agent_name a)) \<longrightarrow>
        agentFunctions client (earlierA @ [a] @ laterA) ctx (sanitizeName (agent_name a))
          = Some (createAgentFunction client a ctx))
   \<and> ((\<forall>u \<in> set laterS. sanitizeName (skill_name u) \<noteq> sanitizeName (skill_name k)) \<longrightarrow>
        skillFunctions client (earlierS @ [k] @ laterS) ctx (sanitizeName (skill_name k))
          = Some (createSkillFunction client k ctx))"
proof (intro conjI)
  show "length (sanitizeName name) = length name"
    by (simp add: sanitizeName_def)
  show "\<forall>i. i < length name \<longrightarrow>
          sanitizeName name ! i = (if isWordChar (name ! i) then name ! i else CHR ''_'')"
    by (simp add: sanitizeName_def)
  show "\<forall>c. isWordChar c \<longleftrightarrow>
          (CHR ''A'' \<le> c \<and> c \<le> CHR ''Z'') \<or> (CHR ''a'' \<le> c \<and> c \<le> CHR ''z'') \<or>
          (CHR ''0'' \<le> c \<and> c \<le> CHR ''9'') \<or> c = CHR ''_''"
    unfolding isWordChar_def by blast
  show "sanitizeName (sanitizeName name) = sanitizeName name"
    by (rule sanitizeName_idem)
  show "(\<forall>u \<in> set later. sanitizeName (tool_name u) \<noteq> sanitizeName (tool_name t)) \<longrightarrow>
        toolFunctions client (earlier @ [t] @ later) ctx (sanitizeName (tool_name t))
          = Some (createToolFunction client t ctx)"
    using toolFunctions_last by blast
  show "(\<forall>u \<in> set laterA. sanitizeName (agent_name u) \<noteq> sanitizeName (agent_name a)) \<longrightarrow>
        agentFunctions client (earlierA @ [a] @ laterA) ctx (sanitizeName (agent_name a))
          = Some (createAgentFunction client a ctx)"
    using agentFunctions_last by blast
  show "(\<forall>u \<in> set laterS. sanitizeName (skill_name u) \<noteq> sanitizeName (skill_name k)) \<longrightarrow>
        skillFunctions client (earlierS @ [k] @ laterS) ctx (sanitizeName (skill_name k))
          = Some (createSkillFunction client k ctx)"
    using skillFunctions_last by blast
qed

text \<open>
  The scenario of the specification: \<open>file/read\<close> and \<open>file:read\<close> both
  sanitize to \<open>file_read\<close>, and the namespace built from the two, in this order,
  holds the binding of \<open>file:read\<close>.
\<close>

theorem sanitizeName_last_write_wins_witness:
  "sanitizeName ''file/read'' = ''file_read''
   \<and> sanitizeName ''file:read'' = ''file_read''
   \<and> sanitizeName ''file_read'' = ''file_read''
   \<and> toolFunctions echoClient [fileSlash, fileColon] someContext ''file_read''
       = Some (createToolFunction echoClient fileColon someContext)"
proof -
  have s1: "sanitizeName ''file/read'' = ''file_read''"
    by (simp add: sanitizeName_def isWordChar_def)
  have s2: "sanitizeName ''file:read'' = ''file_read''"
    by (simp add: sanitizeName_def isWordChar_def)
  have s3: "sanitizeName ''file_read'' = ''file_read''"
    using sanitizeName_last_write_wins [where name = "''file/read''"] s1 by simp
  have "toolFunctions echoClient ([fileSlash] @ [fileColon] @ []) someContext
          (sanitizeName (tool_name fileColon))
        = Some (createToolFunction echoClient fileColon someContext)"
    using sanitizeName_last_write_wins
      [where later = "[]" and t = fileColon and earlier = "[fileSlash]"
         and client = echoClient and ctx = someContext]
    by simp
  then have "toolFunctions echoClient [fileSlash, fileColon] someContext ''file_read''
        = Some (createToolFunction echoClient fileColon someContext)"
    using s2 by (simp add: fileColon_def)
  with s1 s2 s3 show ?thesis by simp
qed

section \<open>The bindings and the call records\<close>

lemma tool_try_record:
  "tool_try settlement r = (out, r') \<Longrightarrow>
   rec_tool r' = rec_tool r \<and> rec_args r' = rec_args r"
  by (auto simp: tool_try_def tool_catch_def Let_def split: settled.splits if_splits sum.splits)

lemma tool_try_outcome:
  "tool_try settlement
     \<lparr> rec_tool = n, rec_args = a, rec_result = None, rec_error = None, rec_duration = 0 \<rparr>
     = (out, r') \<Longrightarrow>
   (case out of
      Inr v \<Rightarrow> rec_result r' = Some v \<and> rec_error r' = None
    | Inl e \<Rightarrow> rec_result r' = None)"
  by (auto simp: tool_try_def tool_catch_def Let_def split: settled.splits if_splits sum.splits)

lemma createToolFunction_now:
  "st_now (snd (createToolFunction client tool context args s))
     = st_now s + int (snd (tool_execute client (toolRequest tool context args) (st_now s)))"
  by (simp add: createToolFunction_def Let_def split: prod.splits)

lemma createToolFunction_logs:
  "st_logs (snd (createToolFunction client tool context args s)) = st_logs s"
  by (simp add: createToolFunction_def Let_def split: prod.splits)

lemma createToolFunction_push:
  "\<exists>r. st_callRecords (snd (createToolFunction client tool context args s))
           = st_callRecords s @ [r]
       \<and> rec_tool r = tool_name tool \<and> rec_args r = args
       \<and> rec_duration r = st_now (snd (createToolFunction client tool context args s)) - st_now s
       \<and> (case fst (createToolFunction client tool context args s) of
             Inr v \<Rightarrow> rec_result r = Some v \<and> rec_error r = None
           | Inl e \<Rightarrow> rec_result r = None)"
proof -
  obtain settlement latency where ex:
    "tool_execute client (toolRequest tool context args) (st_now s) = (settlement, latency)"
    by (cases "tool_execute client (toolRequest tool context args) (st_now s)")
  obtain out r' where tr:
    "tool_try settlement
       \<lparr> rec_tool = tool_name tool, rec_args = args, rec_result = None, rec_error = None,
         rec_duration = 0 \<rparr> = (out, r')"
    by (cases "tool_try settlement
       \<lparr> rec_tool = tool_name tool, rec_args = args, rec_result = None, rec_error = None,
         rec_duration = 0 \<rparr>")
  have call: "createToolFunction client tool context args s
      = (out, s\<lparr> st_now := st_now s + int latency,
                 st_callRecords := st_callRecords s @ [r'\<lparr> rec_duration := int latency \<rparr>] \<rparr>)"
    by (simp add: createToolFunction_def Let_def ex tr)
  from tool_try_record [OF tr] tool_try_outcome [OF tr]
  show ?thesis
    by (simp add: call split: sum.splits)
qed

lemma createAgentFunction_eq:
  "createAgentFunction client agent context prompt options s =
     (Inl (ErrorObj
        ''Agent calls are not yet supported. Use the 'task' tool directly for agent invocation.''),
      s\<lparr> st_callRecords := st_callRecords s @
           [\<lparr> rec_tool = ''agent:'' @ agent_name agent,
              rec_args = Json (JObj [(''prompt'', JStr prompt)]),
              rec_result = None,
              rec_error = Some ''Agent calls are not yet supported in direct execution mode'',
              rec_duration = 0 \<rparr>] \<rparr>)"
  by (simp add: createAgentFunction_def)

lemma createSkillFunction_eq:
  "createSkillFunction client skill context s =
     (Inl (ErrorObj ''Skill calls are not yet supported. Use the 'skill' tool directly.''),
      s\<lparr> st_callRecords := st_callRecords s @
           [\<lparr> rec_tool = ''skill:'' @ skill_name skill,
              rec_args = Json (JObj []),
              rec_result = None,
              rec_error = Some ''Skill calls are not yet supported in direct execution mode'',
              rec_duration = 0 \<rparr>] \<rparr>)"
  by (simp add: createSkillFunction_def)

text \<open>
  C2. Every invocation of a tool, agent or skill binding leaves the records pushed
  before it untouched and appends exactly one record, whether it resolved (\<open>Inr\<close>)
  or rejected (\<open>Inl\<close>); the duration of that record is the time that passed on the
  clock between the start of the invocation and the push.
\<close>

theorem callRecord_pushed_exactly_once:
  "(\<exists>r. st_callRecords (snd (createToolFunction client tool ctx args s))
            = st_callRecords s @ [r]
        \<and> rec_tool r = tool_name tool \<and> rec_args r = args
        \<and> rec_duration r = st_now (snd (createToolFunction client tool ctx args s)) - st_now s
        \<and> (case fst (createToolFunction client tool ctx args s) of
              Inr v \<Rightarrow> rec_result r = Some v \<and> rec_error r = None
            | Inl e \<Rightarrow> rec_result r = None))
   \<and> (\<exists>r. st_callRecords (snd (createAgentFunction client agent ctx prompt options s))
            = st_callRecords s @ [r]
        \<and> rec_duration r
            = st_now (snd (createAgentFunction client agent ctx prompt options s)) - st_now s)
   \<and> (\<exists>r. st_callRecords (snd (createSkillFunction client skill ctx s))
            = st_callRecords s @ [r]
        \<and> rec_duration r = st_now (snd (createSkillFunction client skill ctx s)) - st_now s)"
proof (intro conjI)
  show "\<exists>r. st_callRecords (snd (createToolFunction client tool ctx args s))
            = st_callRecords s @ [r]
        \<and> rec_tool r = tool_name tool \<and> rec_args r = args
        \<and> rec_duration r = st_now (snd (createToolFunction client tool ctx args s)) - st_now s
        \<and> (case fst (createToolFunction client tool ctx args s) of
              Inr v \<Rightarrow> rec_result r = Some v \<and> rec_error r = None
            | Inl e \<Rightarrow> rec_result r = None)"
    by (rule createToolFunction_push)
  show "\<exists>r. st_callRecords (snd (createAgentFunction client agent ctx prompt options s))
            = st_callRecords s @ [r]
        \<and> rec_duration r
            = st_now (snd (createAgentFunction client agent ctx prompt options s)) - st_now s"
    by (simp add: createAgentFunction_eq)
  show "\<exists>r. st_callRecords (snd (createSkillFunction client skill ctx s))
            = st_callRecords s @ [r]
        \<and> rec_duration r = st_now (snd (createSkillFunction client skill ctx s)) - st_now s"
    by (simp add: createSkillFunction_eq)
qed

theorem callRecord_pushed_exactly_once_witness:
  "(\<exists>r. st_callRecords
          (snd (createToolFunction echoClient readTool someContext (Json (JObj [])) emptyState))
        = [r]
      \<and> rec_tool r = ''read'' \<and> rec_duration r = 5 \<and> rec_result r = Some ''claude'')
   \<and> (\<exists>r. st_callRecords
          (snd (createToolFunction agentsClient readTool someContext (Json (JObj [])) emptyState))
        = [r]
      \<and> rec_tool r = ''read'' \<and> rec_duration r = 0 \<and> rec_result r = None)
   \<and> (\<exists>r. st_callRecords
          (snd (createSkillFunction echoClient
                  \<lparr> skill_name = ''deploy'', skill_description = ''Deploys'' \<rparr>
                  someContext emptyState))
        = [r] \<and> rec_duration r = 0)"
proof -
  have ok: "fst (createToolFunction echoClient readTool someContext (Json (JObj [])) emptyState)
              = Inr ''claude''
            \<and> st_now (snd (createToolFunction echoClient readTool someContext (Json (JObj []))
                  emptyState)) = 5"
    by (simp add: createToolFunction_def toolRequest_def tool_try_def echoClient_def
          someContext_def emptyState_def Let_def)
  have bad: "fst (createToolFunction agentsClient readTool someContext (Json (JObj [])) emptyState)
              = Inl (ErrorObj ''offline'')
            \<and> st_now (snd (createToolFunction agentsClient readTool someContext (Json (JObj []))
                  emptyState)) = 0"
    by (simp add: createToolFunction_def toolRequest_def tool_try_def tool_catch_def
          agentsClient_def emptyState_def Let_def)
  have a: "\<exists>r. st_callRecords
          (snd (createToolFunction echoClient readTool someContext (Json (JObj [])) emptyState))
        = [r]
      \<and> rec_tool r = ''read'' \<and> rec_duration r = 5 \<and> rec_result r = Some ''claude''"
    using callRecord_pushed_exactly_once
      [where client = echoClient and tool = readTool and ctx = someContext
         and args = "Json (JObj [])" and s = emptyState, THEN conjunct1] ok
    by (auto simp: emptyState_def readTool_def)
  have b: "\<exists>r. st_callRecords
          (snd (createToolFunction agentsClient readTool someContext (Json (JObj [])) emptyState))
        = [r]
      \<and> rec_tool r = ''read'' \<and> rec_duration r = 0 \<and> rec_result r = None"
    using callRecord_pushed_exactly_once
      [where client = agentsClient and tool = readTool and ctx = someContext
         and args = "Json (JObj [])" and s = emptyState, THEN conjunct1] bad
    by (auto simp: emptyState_def readTool_def)
  have c: "\<exists>r. st_callRecords
          (snd (createSkillFunction echoClient
                  \<lparr> skill_name = ''deploy'', skill_description = ''Deploys'' \<rparr>
                  someContext emptyState))
        = [r] \<and> rec_duration r = 0"
    using callRecord_pushed_exactly_once
      [where client = echoClient
         and skill = "\<lparr> skill_name = ''deploy'', skill_description = ''Deploys'' \<rparr>"
         and ctx = someContext and s = emptyState, THEN conjunct2, THEN conjunct2]
    by (auto simp: emptyState_def createSkillFunction_eq)
  from a b c show ?thesis by blast
qed

lemma getProperty_Own: "ns key = Some f \<Longrightarrow> getProperty ns key = Own f"
  by (simp add: getProperty_def)

lemma getProperty_Own_iff: "getProperty ns key = Own f \<longleftrightarrow> ns key = Some f"
  by (simp add: getProperty_def split: option.splits)

lemma getProperty_Missing:
  "ns key = None \<Longrightarrow> ns ''__proto__'' = None \<Longrightarrow> key \<notin> set objectPrototypeMethods \<Longrightarrow>
   getProperty ns key = Missing"
  by (simp add: getProperty_def)

lemma agentFunctions_None:
  "\<forall>u \<in> set agents. sanitizeName (agent_name u) \<noteq> key \<Longrightarrow>
   agentFunctions client agents context key = None"
  unfolding agentFunctions_def
  using fold_upd_other [where key = "\<lambda>u. sanitizeName (agent_name u)"
      and b = "\<lambda>u. createAgentFunction client u context" and xs = agents and k = key
      and m = Map.empty]
  by simp

lemma skillFunctions_None:
  "\<forall>u \<in> set skills. sanitizeName (skill_name u) \<noteq> key \<Longrightarrow>
   skillFunctions client skills context key = None"
  unfolding skillFunctions_def
  using fold_upd_other [where key = "\<lambda>u. sanitizeName (skill_name u)"
      and b = "\<lambda>u. createSkillFunction client u context" and xs = skills and k = key
      and m = Map.empty]
  by simp

lemma run_agent_placeholder:
  assumes "ex_agents this = earlier @ [a] @ later
      \<and> (\<forall>u \<in> set later. sanitizeName (agent_name u) \<noteq> sanitizeName (agent_name a))"
  shows "run (mkRuntime this ctx) deadline
           (CallAgent (sanitizeName (agent_name a)) prompt options k) s
     = run (mkRuntime this ctx) deadline
         (k (Raised (ErrorObj
            ''Agent calls are not yet supported. Use the 'task' tool directly for agent invocation.'')))
         (s\<lparr> st_callRecords := st_callRecords s @
              [\<lparr> rec_tool = ''agent:'' @ agent_name a,
                 rec_args = Json (JObj [(''prompt'', JStr prompt)]),
                 rec_result = None,
                 rec_error = Some ''Agent calls are not yet supported in direct execution mode'',
                 rec_duration = 0 \<rparr>] \<rparr>)"
proof -
  from assms have "rt_agents (mkRuntime this ctx) (sanitizeName (agent_name a))
      = Some (createAgentFunction (ex_client this) a ctx)"
    using agentFunctions_last [of later a "ex_client this" earlier ctx]
    by (simp add: mkRuntime_def)
  then have "getProperty (rt_agents (mkRuntime this ctx)) (sanitizeName (agent_name a))
      = Own (createAgentFunction (ex_client this) a ctx)"
    by (rule getProperty_Own)
  then show ?thesis
    by (simp add: createAgentFunction_eq)
qed

lemma run_skill_placeholder:
  assumes "ex_skills this = earlier @ [b] @ later
      \<and> (\<forall>u \<in> set later. sanitizeName (skill_name u) \<noteq> sanitizeName (skill_name b))"
  shows "run (mkRuntime this ctx) deadline (CallSkill (sanitizeName (skill_name b)) k) s
     = run (mkRuntime this ctx) deadline
         (k (Raised (ErrorObj
            ''Skill calls are not yet supported. Use the 'skill' tool directly.'')))
         (s\<lparr> st_callRecords := st_callRecords s @
              [\<lparr> rec_tool = ''skill:'' @ skill_name b,
                 rec_args = Json (JObj []),
                 rec_result = None,
                 rec_error = Some ''Skill calls are not yet supported in direct execution mode'',
                 rec_duration = 0 \<rparr>] \<rparr>)"
proof -
  from assms have "rt_skills (mkRuntime this ctx) (sanitizeName (skill_name b))
      = Some (createSkillFunction (ex_client this) b ctx)"
    using skillFunctions_last [of later b "ex_client this" earlier ctx]
    by (simp add: mkRuntime_def)
  then have "getProperty (rt_skills (mkRuntime this ctx)) (sanitizeName (skill_name b))
      = Own (createSkillFunction (ex_client this) b ctx)"
    by (rule getProperty_Own)
  then show ?thesis
    by (simp add: createSkillFunction_eq)
qed

lemma run_agent_missing:
  assumes "(\<forall>u \<in> set (ex_agents this).
        sanitizeName (agent_name u) \<noteq> key \<and> sanitizeName (agent_name u) \<noteq> ''__proto__'')
      \<and> key \<notin> set objectPrototypeMethods"
  shows "run (mkRuntime this ctx) deadline (CallAgent key prompt options k) s
     = run (mkRuntime this ctx) deadline (k NotCallable) s"
proof -
  from assms have "rt_agents (mkRuntime this ctx) key = None"
    and "rt_agents (mkRuntime this ctx) ''__proto__'' = None"
    by (simp_all add: mkRuntime_def agentFunctions_None)
  with assms have "getProperty (rt_agents (mkRuntime this ctx)) key = Missing"
    by (simp add: getProperty_Missing)
  then show ?thesis by simp
qed

lemma run_skill_missing:
  assumes "(\<forall>u \<in> set (ex_skills this).
        sanitizeName (skill_name u) \<noteq> key \<and> sanitizeName (skill_name u) \<noteq> ''__proto__'')
      \<and> key \<notin> set objectPrototypeMethods"
  shows "run (mkRuntime this ctx) deadline (CallSkill key k) s
     = run (mkRuntime this ctx) deadline (k NotCallable) s"
proof -
  from assms have "rt_skills (mkRuntime this ctx) key = None"
    and "rt_skills (mkRuntime this ctx) ''__proto__'' = None"
    by (simp_all add: mkRuntime_def skillFunctions_None)
  with assms have "getProperty (rt_skills (mkRuntime this ctx)) key = Missing"
    by (simp add: getProperty_Missing)
  then show ?thesis by simp
qed

lemma sanitized_key: "sanitizeName x = key \<Longrightarrow> sanitizeName key = key"
  using sanitizeName_idem [of x] by simp

lemma prototype_names_sanitized:
  "key \<in> set objectPrototypeMethods \<union> set functionPrototypeMethods \<Longrightarrow> sanitizeName key = key"
  by (auto simp: objectPrototypeMethods_def functionPrototypeMethods_def sanitizeName_def
        isWordChar_def)

lemma getProperty_unsanitized:
  assumes "sanitizeName key \<noteq> key" and "ns key = None"
  shows "getProperty ns key = Missing"
proof -
  from assms(1) prototype_names_sanitized [of key]
  have "key \<notin> set objectPrototypeMethods" and "key \<notin> set functionPrototypeMethods"
    by auto
  with assms(2) show ?thesis by (simp add: getProperty_def)
qed

lemma run_agent_unsanitized:
  assumes "sanitizeName key \<noteq> key"
  shows "run (mkRuntime this ctx) deadline (CallAgent key prompt options k) s
     = run (mkRuntime this ctx) deadline (k NotCallable) s"
proof -
  from assms have "\<forall>u \<in> set (ex_agents this). sanitizeName (agent_name u) \<noteq> key"
    using sanitized_key by blast
  then have "rt_agents (mkRuntime this ctx) key = None"
    by (simp add: mkRuntime_def agentFunctions_None)
  with assms have "getProperty (rt_agents (mkRuntime this ctx)) key = Missing"
    by (rule getProperty_unsanitized)
  then show ?thesis by simp
qed

lemma run_skill_unsanitized:
  assumes "sanitizeName key \<noteq> key"
  shows "run (mkRuntime this ctx) deadline (CallSkill key k) s
     = run (mkRuntime this ctx) deadline (k NotCallable) s"
proof -
  from assms have "\<forall>u \<in> set (ex_skills this). sanitizeName (skill_name u) \<noteq> key"
    using sanitized_key by blast
  then have "rt_skills (mkRuntime this ctx) key = None"
    by (simp add: mkRuntime_def skillFunctions_None)
  with assms have "getProperty (rt_skills (mkRuntime this ctx)) key = Missing"
    by (rule getProperty_unsanitized)
  then show ?thesis by simp
qed

lemma agent_binding_raises:
  "\<exists>e r m. fst (createAgentFunction client agent ctx prompt options s) = Inl e
        \<and> st_callRecords (snd (createAgentFunction client agent ctx prompt options s))
            = st_callRecords s @ [r]
        \<and> rec_tool r = ''agent:'' @ agent_name agent
        \<and> rec_error r = Some m"
  by (simp add: createAgentFunction_eq)

lemma skill_binding_raises:
  "\<exists>e r m. fst (createSkillFunction client skill ctx s) = Inl e
        \<and> st_callRecords (snd (createSkillFunction client skill ctx s))
            = st_callRecords s @ [r]
        \<and> rec_tool r = ''skill:'' @ skill_name skill
        \<and> rec_error r = Some m"
  by (simp add: createSkillFunction_eq)

text \<open>
  C6, as the code has it. The binding generated for an agent, and the one generated
  for a skill, rejects on every invocation and appends exactly one record, whose
  \<open>tool\<close> field is \<open>agent:\<close> (respectively \<open>skill:\<close>) followed by the
  original name and whose \<open>error\<close> field is set. The binding is stored under the
  sanitized name: for an agent \<open>a\<close> of the catalog after which no agent with the
  same sanitized name is processed, code that awaits a call of
  \<open>agents[sanitizeName a]\<close> gets the rejection, and the one record
  \<open>agent:a\<close> has been appended; likewise for a skill. A key that is the sanitized
  name of no agent (respectively skill), and not the name of an inherited method, is
  not callable: the call raises a TypeError in the code and appends no record. So it is
  for the name of an agent or skill that is not its own sanitized form, whatever the
  catalog.
\<close>

theorem placeholder_bindings_always_raise:
  "(\<exists>e r m. fst (createAgentFunction client agent ctx prompt options s) = Inl e
        \<and> st_callRecords (snd (createAgentFunction client agent ctx prompt options s))
            = st_callRecords s @ [r]
        \<and> rec_tool r = ''agent:'' @ agent_name agent
        \<and> rec_error r = Some m)
   \<and> (\<exists>e r m. fst (createSkillFunction client skill ctx s) = Inl e
        \<and> st_callRecords (snd (createSkillFunction client skill ctx s))
            = st_callRecords s @ [r]
        \<and> rec_tool r = ''skill:'' @ skill_name skill
        \<and> rec_error r = Some m)
   \<and> (ex_agents this = earlierA @ [a] @ laterA
        \<and> (\<forall>u \<in> set laterA. sanitizeName (agent_name u) \<noteq> sanitizeName (agent_name a)) \<longrightarrow>
      run (mkRuntime this ctx) deadline
          (CallAgent (sanitizeName (agent_name a)) prompt options kA) s
        = run (mkRuntime this ctx) deadline
            (kA (Raised (ErrorObj
               ''Agent calls are not yet supported. Use the 'task' tool directly for agent invocation.'')))
            (s\<lparr> st_callRecords := st_callRecords s @
                 [\<lparr> rec_tool = ''agent:'' @ agent_name a,
                    rec_args = Json (JObj [(''prompt'', JStr prompt)]),
                    rec_result = None,
                    rec_error = Some ''Agent calls are not yet supported in direct execution mode'',
                    rec_duration = 0 \<rparr>] \<rparr>))
   \<and> (ex_skills this = earlierS @ [b] @ laterS
        \<and> (\<forall>u \<in> set laterS. sanitizeName (skill_name u) \<noteq> sanitizeName (skill_name b)) \<longrightarrow>
      run (mkRuntime this ctx) deadline (CallSkill (sanitizeName (skill_name b)) kS) s
        = run (mkRuntime this ctx) deadline
            (kS (Raised (ErrorObj
               ''Skill calls are not yet supported. Use the 'skill' tool directly.'')))
            (s\<lparr> st_callRecords := st_callRecords s @
                 [\<lparr> rec_tool = ''skill:'' @ skill_name b,
                    rec_args = Json (JObj []),
                    rec_result = None,
                    rec_error = Some ''Skill calls are not yet supported in direct execution mode'',
                    rec_duration = 0 \<rparr>] \<rparr>))
   \<and> ((\<forall>u \<in> set (ex_agents this).
          sanitizeName (agent_name u) \<noteq> key \<and> sanitizeName (agent_name u) \<noteq> ''__proto__'')
        \<and> key \<notin> set objectPrototypeMethods \<longrightarrow>
      run (mkRuntime this ctx) deadline (CallAgent key prompt options kA) s
        = run (mkRuntime this ctx) deadline (kA NotCallable) s)
   \<and> ((\<forall>u \<in> set (ex_skills this).
          sanitizeName (skill_name u) \<noteq> key \<and> sanitizeName (skill_name u) \<noteq> ''__proto__'')
        \<and> key \<notin> set objectPrototypeMethods \<longrightarrow>
      run (mkRuntime this ctx) deadline (CallSkill key kS) s
        = run (mkRuntime this ctx) deadline (kS NotCallable) s)
   \<and> (sanitizeName (agent_name a) \<noteq> agent_name a \<longrightarrow>
      run (mkRuntime this ctx) deadline (CallAgent (agent_name a) prompt options kA) s
        = run (mkRuntime this ctx) deadline (kA NotCallable) s)
   \<and> (sanitizeName (skill_name b) \<noteq> skill_name b \<longrightarrow>
      run (mkRuntime this ctx) deadline (CallSkill (skill_name b) kS) s
        = run (mkRuntime this ctx) deadline (kS NotCallable) s)"
  by (intro conjI impI;
      (rule agent_binding_raises | rule skill_binding_raises | erule run_agent_placeholder
       | erule run_skill_placeholder | erule run_agent_missing | erule run_skill_missing
       | erule run_agent_unsanitized | erule run_skill_unsanitized))

theorem placeholder_bindings_always_raise_witness:
  "run (mkRuntime (sampleExecutor None) someContext) 1000
      (CallAgent ''explore'' ''find'' None (uncaught ''agents.explore'' (\<lambda>out. Return Undefined)))
      emptyState
     = (Failed (ErrorObj
          ''Agent calls are not yet supported. Use the 'task' tool directly for agent invocation.''),
        emptyState\<lparr> st_callRecords :=
          [\<lparr> rec_tool = ''agent:explore'',
             rec_args = Json (JObj [(''prompt'', JStr ''find'')]),
             rec_result = None,
             rec_error = Some ''Agent calls are not yet supported in direct execution mode'',
             rec_duration = 0 \<rparr>] \<rparr>)
   \<and> run (mkRuntime (createExecutor echoClient [] [] [deploySkill] None) someContext) 1000
      (CallSkill ''deploy'' (uncaught ''skills.deploy'' (\<lambda>out. Return Undefined))) emptyState
     = (Failed (ErrorObj ''Skill calls are not yet supported. Use the 'skill' tool directly.''),
        emptyState\<lparr> st_callRecords :=
          [\<lparr> rec_tool = ''skill:deploy'',
             rec_args = Json (JObj []),
             rec_result = None,
             rec_error = Some ''Skill calls are not yet supported in direct execution mode'',
             rec_duration = 0 \<rparr>] \<rparr>)
   \<and> run (mkRuntime (sampleExecutor None) someContext) 1000
      (CallAgent ''review'' ''find'' None (uncaught ''agents.review'' (\<lambda>out. Return Undefined)))
      emptyState
     = (Failed (ErrorObj ''agents.review is not a function''), emptyState)
   \<and> (\<exists>r. st_callRecords
          (snd (createSkillFunction echoClient deploySkill someContext emptyState)) = [r]
        \<and> rec_tool r = ''skill:deploy'')
   \<and> run (mkRuntime (createExecutor echoClient [] [underscoreAgent, dashAgent] [] None)
          someContext) 1000
      (CallAgent ''a-b'' ''find'' None (uncaught ''agents.a-b'' (\<lambda>out. Return Undefined)))
      emptyState
     = (Failed (ErrorObj ''agents.a-b is not a function''), emptyState)
   \<and> run (mkRuntime (sampleExecutor None) someContext) 1000
      (CallSkill ''deploy'' (uncaught ''skills.deploy'' (\<lambda>out. Return Undefined))) emptyState
     = (Failed (ErrorObj ''skills.deploy is not a function''), emptyState)
   \<and> run (mkRuntime (createExecutor echoClient [] []
             [\<lparr> skill_name = ''my skill'', skill_description = ''Mine'' \<rparr>] None) someContext) 1000
      (CallSkill ''my skill'' (uncaught ''skills.my skill'' (\<lambda>out. Return Undefined)))
      emptyState
     = (Failed (ErrorObj ''skills.my skill is not a function''), emptyState)"
proof -
  have hf: "(\<forall>u \<in> set (ex_skills (sampleExecutor None)).
          sanitizeName (skill_name u) \<noteq> ''deploy'' \<and> sanitizeName (skill_name u) \<noteq> ''__proto__'')
        \<and> ''deploy'' \<notin> set objectPrototypeMethods"
    by (simp add: sampleExecutor_def createExecutor_def objectPrototypeMethods_def)
  have f: "run (mkRuntime (sampleExecutor None) someContext) 1000
      (CallSkill ''deploy'' (uncaught ''skills.deploy'' (\<lambda>out. Return Undefined))) emptyState
     = (Failed (ErrorObj ''skills.deploy is not a function''), emptyState)"
    using placeholder_bindings_always_raise
      [where this = "sampleExecutor None" and key = "''deploy''" and ctx = someContext
         and deadline = 1000 and s = emptyState
         and kS = "uncaught ''skills.deploy'' (\<lambda>out. Return Undefined)",
         THEN conjunct2, THEN conjunct2, THEN conjunct2, THEN conjunct2, THEN conjunct2,
         THEN conjunct1, THEN mp, OF hf]
    by (simp del: run.simps(9))
  have hg: "sanitizeName (skill_name \<lparr> skill_name = ''my skill'', skill_description = ''Mine'' \<rparr>)
      \<noteq> skill_name \<lparr> skill_name = ''my skill'', skill_description = ''Mine'' \<rparr>"
    by (simp add: sanitizeName_def isWordChar_def)
  have g: "run (mkRuntime (createExecutor echoClient [] []
             [\<lparr> skill_name = ''my skill'', skill_description = ''Mine'' \<rparr>] None) someContext) 1000
      (CallSkill ''my skill'' (uncaught ''skills.my skill'' (\<lambda>out. Return Undefined)))
      emptyState
     = (Failed (ErrorObj ''skills.my skill is not a function''), emptyState)"
    using placeholder_bindings_always_raise
      [where this = "createExecutor echoClient [] []
             [\<lparr> skill_name = ''my skill'', skill_description = ''Mine'' \<rparr>] None"
         and b = "\<lparr> skill_name = ''my skill'', skill_description = ''Mine'' \<rparr>"
         and ctx = someContext and deadline = 1000 and s = emptyState
         and kS = "uncaught ''skills.my skill'' (\<lambda>out. Return Undefined)",
         THEN conjunct2, THEN conjunct2, THEN conjunct2, THEN conjunct2, THEN conjunct2,
         THEN conjunct2, THEN conjunct2, THEN mp, OF hg]
    by (simp del: run.simps(9))
  have he: "sanitizeName (agent_name dashAgent) \<noteq> agent_name dashAgent"
    by (simp add: dashAgent_def sanitizeName_def isWordChar_def)
  have e: "run (mkRuntime (createExecutor echoClient [] [underscoreAgent, dashAgent] [] None)
          someContext) 1000
      (CallAgent ''a-b'' ''find'' None (uncaught ''agents.a-b'' (\<lambda>out. Return Undefined)))
      emptyState
     = (Failed (ErrorObj ''agents.a-b is not a function''), emptyState)"
    using placeholder_bindings_always_raise
      [where this = "createExecutor echoClient [] [underscoreAgent, dashAgent] [] None"
         and a = dashAgent and ctx = someContext
         and deadline = 1000 and prompt = "''find''" and options = None and s = emptyState
         and kA = "uncaught ''agents.a-b'' (\<lambda>out. Return Undefined)",
         THEN conjunct2, THEN conjunct2, THEN conjunct2, THEN conjunct2, THEN conjunct2,
         THEN conjunct2, THEN conjunct1, THEN mp, OF he]
    by (simp add: dashAgent_def del: run.simps(8))
  have ha: "ex_agents (sampleExecutor None) = [] @ [exploreAgent] @ []
      \<and> (\<forall>u \<in> set []. sanitizeName (agent_name u) \<noteq> sanitizeName (agent_name exploreAgent))"
    by (simp add: sampleExecutor_def createExecutor_def)
  have sa: "sanitizeName (agent_name exploreAgent) = ''explore''"
    by (simp add: exploreAgent_def sanitizeName_def isWordChar_def)
  have a: "run (mkRuntime (sampleExecutor None) someContext) 1000
      (CallAgent ''explore'' ''find'' None (uncaught ''agents.explore'' (\<lambda>out. Return Undefined)))
      emptyState
     = (Failed (ErrorObj
          ''Agent calls are not yet supported. Use the 'task' tool directly for agent invocation.''),
        emptyState\<lparr> st_callRecords :=
          [\<lparr> rec_tool = ''agent:explore'',
             rec_args = Json (JObj [(''prompt'', JStr ''find'')]),
             rec_result = None,
             rec_error = Some ''Agent calls are not yet supported in direct execution mode'',
             rec_duration = 0 \<rparr>] \<rparr>)"
    using placeholder_bindings_always_raise
      [where this = "sampleExecutor None" and a = exploreAgent and earlierA = "[]"
         and laterA = "[]" and ctx = someContext and deadline = 1000 and prompt = "''find''"
         and options = None and s = emptyState
         and kA = "uncaught ''agents.explore'' (\<lambda>out. Return Undefined)",
         THEN conjunct2, THEN conjunct2, THEN conjunct1, THEN mp, OF ha, unfolded sa]
    by (simp add: emptyState_def exploreAgent_def del: run.simps(8))
  have hb: "ex_skills (createExecutor echoClient [] [] [deploySkill] None)
        = [] @ [deploySkill] @ []
      \<and> (\<forall>u \<in> set []. sanitizeName (skill_name u) \<noteq> sanitizeName (skill_name deploySkill))"
    by (simp add: createExecutor_def)
  have sb: "sanitizeName (skill_name deploySkill) = ''deploy''"
    by (simp add: deploySkill_def sanitizeName_def isWordChar_def)
  have b: "run (mkRuntime (createExecutor echoClient [] [] [deploySkill] None) someContext) 1000
      (CallSkill ''deploy'' (uncaught ''skills.deploy'' (\<lambda>out. Return Undefined))) emptyState
     = (Failed (ErrorObj ''Skill calls are not yet supported. Use the 'skill' tool directly.''),
        emptyState\<lparr> st_callRecords :=
          [\<lparr> rec_tool = ''skill:deploy'',
             rec_args = Json (JObj []),
             rec_result = None,
             rec_error = Some ''Skill calls are not yet supported in direct execution mode'',
             rec_duration = 0 \<rparr>] \<rparr>)"
    using placeholder_bindings_always_raise
      [where this = "createExecutor echoClient [] [] [deploySkill] None" and b = deploySkill
         and earlierS = "[]" and laterS = "[]" and ctx = someContext and deadline = 1000
         and s = emptyState and kS = "uncaught ''skills.deploy'' (\<lambda>out. Return Undefined)",
         THEN conjunct2, THEN conjunct2, THEN conjunct2, THEN conjunct1, THEN mp, OF hb,
         unfolded sb]
    by (simp add: emptyState_def deploySkill_def del: run.simps(9))
  have hc: "(\<forall>u \<in> set (ex_agents (sampleExecutor None)).
          sanitizeName (agent_name u) \<noteq> ''review'' \<and> sanitizeName (agent_name u) \<noteq> ''__proto__'')
        \<and> ''review'' \<notin> set objectPrototypeMethods"
    by (simp add: sampleExecutor_def createExecutor_def sa objectPrototypeMethods_def)
  have c: "run (mkRuntime (sampleExecutor None) someContext) 1000
      (CallAgent ''review'' ''find'' None (uncaught ''agents.review'' (\<lambda>out. Return Undefined)))
      emptyState
     = (Failed (ErrorObj ''agents.review is not a function''), emptyState)"
    using placeholder_bindings_always_raise
      [where this = "sampleExecutor None" and key = "''review''" and ctx = someContext
         and deadline = 1000 and prompt = "''find''" and options = None and s = emptyState
         and kA = "uncaught ''agents.review'' (\<lambda>out. Return Undefined)",
         THEN conjunct2, THEN conjunct2, THEN conjunct2, THEN conjunct2, THEN conjunct1,
         THEN mp, OF hc]
    by (simp del: run.simps(8))
  have d: "\<exists>r. st_callRecords
          (snd (createSkillFunction echoClient deploySkill someContext emptyState)) = [r]
        \<and> rec_tool r = ''skill:deploy''"
    using placeholder_bindings_always_raise
      [where client = echoClient and skill = deploySkill and ctx = someContext
         and s = emptyState, THEN conjunct2, THEN conjunct1]
    by (auto simp: emptyState_def deploySkill_def)
  from a b c d e f g show ?thesis by blast
qed

text \<open>
  The claim as it was stated fails for an agent whose name is not its own sanitized
  form. With the one agent \<open>a-b\<close> in the catalog, the namespace has no key
  \<open>a-b\<close>: the call \<open>agents['a-b']('find')\<close> raises the TypeError of
  calling \<open>undefined\<close>, and no record is appended. With the agents \<open>a_b\<close>
  and \<open>a-b\<close>, in this order, the call \<open>agents.a_b('find')\<close> appends the
  record \<open>agent:a-b\<close>.
\<close>

theorem unsanitized_agent_name_counterexample:
  "agentFunctions echoClient [dashAgent] someContext ''a-b'' = None
   \<and> run (mkRuntime (createExecutor echoClient [] [dashAgent] [] None) someContext) 1000
        dashCall emptyState
       = (Failed (ErrorObj ''agents.a-b is not a function''), emptyState)
   \<and> st_callRecords (snd
        (run (mkRuntime (createExecutor echoClient [] [dashAgent] [] None) someContext) 1000
           dashCall emptyState)) = []
   \<and> map rec_tool (st_callRecords (snd
        (run (mkRuntime (createExecutor echoClient [] [underscoreAgent, dashAgent] [] None)
           someContext) 1000 underscoreCall emptyState))) = [''agent:a-b'']"
  by (simp add: agentFunctions_def dashAgent_def underscoreAgent_def sanitizeName_def
        isWordChar_def mkRuntime_def createExecutor_def getProperty_def
        objectPrototypeMethods_def functionPrototypeMethods_def dashCall_def underscoreCall_def
        createAgentFunction_eq emptyState_def)

lemma toolRequest_carries_context:
  "b_sessionID (toolRequest tool context args) = ctx_sessionID context
   \<and> b_messageID (toolRequest tool context args) = ctx_messageID context
   \<and> b_providerID (toolRequest tool context args) = ctx_providerID context
   \<and> b_modelID (toolRequest tool context args) = ctx_modelID context
   \<and> b_agent (toolRequest tool context args) = ctx_agent context
   \<and> b_toolID (toolRequest tool context args) = tool_name tool
   \<and> b_args (toolRequest tool context args) = args"
  by (simp add: toolRequest_def)

text \<open>
  C3. Evaluated for an execute-code request in session \<open>ses_1\<close>, for which
  \<open>resolveDefaultModel\<close> gave provider \<open>anthropic\<close> and model \<open>claude\<close>:
  the execution context that \<open>ptc_execute\<close> builds has no model identifier, the
  request a tool binding sends with it carries none, and a host that echoes the model
  identifier it received answers with the empty output; with a context that does carry
  the identifier the same binding passes it on.
\<close>

theorem ptcContext_omits_modelID:
  "ctx_modelID (ptcContext echoClient hostContext ''anthropic'' ''claude'') = None
   \<and> b_modelID (toolRequest readTool (ptcContext echoClient hostContext ''anthropic'' ''claude'')
        (Json (JObj []))) = None
   \<and> fst (createToolFunction echoClient readTool
        (ptcContext echoClient hostContext ''anthropic'' ''claude'') (Json (JObj [])) emptyState)
       = Inr ''''
   \<and> fst (createToolFunction echoClient readTool someContext (Json (JObj [])) emptyState)
       = Inr ''claude''"
  by (simp add: ptcContext_def toolRequest_def createToolFunction_def tool_try_def echoClient_def
        someContext_def Let_def)

section \<open>The catalog\<close>

text \<open>
  C8. When the host answers the agent query without an error, the catalog has no agent
  of mode \<open>primary\<close>, and its descriptors are, in order, the name, description and
  mode of the host's agents of any other mode; a descriptor has no further field.
\<close>

theorem fetchAvailableAgents_excludes_primary:
  "app_agents client = Fulfilled response \<and> \<not> truthy_opt (ar_error response)
     \<and> ar_data response = Some raws \<longrightarrow>
   (\<exists>agents. fetchAvailableAgents client = Inr agents
      \<and> (\<forall>a \<in> set agents. agent_mode a \<noteq> ''primary'')
      \<and> map (\<lambda>a. (agent_name a, agent_description a, agent_mode a)) agents
          = map (\<lambda>r. (raw_name r, raw_description r, raw_mode r))
              (filter (\<lambda>r. raw_mode r \<noteq> ''primary'') raws)
      \<and> agents = map (\<lambda>r. \<lparr> agent_name = raw_name r, agent_description = raw_description r,
                              agent_mode = raw_mode r \<rparr>)
                    (filter (\<lambda>r. raw_mode r \<noteq> ''primary'') raws))"
  by (auto simp: fetchAvailableAgents_def comp_def)

theorem fetchAvailableAgents_excludes_primary_witness:
  "fetchAvailableAgents agentsClient =
     Inr [\<lparr> agent_name = ''explore'', agent_description = Some ''Explores the code base'',
            agent_mode = ''subagent'' \<rparr>,
          \<lparr> agent_name = ''review'', agent_description = None, agent_mode = ''all'' \<rparr>]"
  using fetchAvailableAgents_excludes_primary
    [where client = agentsClient
       and response = "\<lparr> ar_error = None, ar_data = Some
         [\<lparr> raw_name = ''build'', raw_description = None, raw_mode = ''primary'',
            raw_other = JObj [(''builtIn'', JBool True)] \<rparr>,
          \<lparr> raw_name = ''explore'', raw_description = Some ''Explores the code base'',
            raw_mode = ''subagent'', raw_other = JObj [(''builtIn'', JBool True)] \<rparr>,
          \<lparr> raw_name = ''review'', raw_description = None, raw_mode = ''all'',
            raw_other = JObj [(''builtIn'', JBool False)] \<rparr>] \<rparr>"
       and raws = "[\<lparr> raw_name = ''build'', raw_description = None, raw_mode = ''primary'',
            raw_other = JObj [(''builtIn'', JBool True)] \<rparr>,
          \<lparr> raw_name = ''explore'', raw_description = Some ''Explores the code base'',
            raw_mode = ''subagent'', raw_other = JObj [(''builtIn'', JBool True)] \<rparr>,
          \<lparr> raw_name = ''review'', raw_description = None, raw_mode = ''all'',
            raw_other = JObj [(''builtIn'', JBool False)] \<rparr>]"]
  by (simp add: agentsClient_def)

lemma required_names_iff:
  "(case js_get schema ''required'' of Some (JArr rs) \<Rightarrow> JStr n \<in> set rs | _ \<Rightarrow> False)
     = (JStr n \<in> set (required_names schema))"
  unfolding required_names_def by (simp split: option.split json.split)

lemma normalizeParam_null:
  "normalizeParam schema n JNull = Inl (ErrorObj ''Cannot read properties of null (reading 'type')'')"
  by (simp add: normalizeParam_def)

lemma normalizeParam_eq:
  "pd \<noteq> JNull \<Longrightarrow> normalizeParam schema n pd = Inr \<lparr>
          param_type =
            (case js_get pd ''type'' of
               None \<Rightarrow> JStr ''string''
             | Some JNull \<Rightarrow> JStr ''string''
             | Some t \<Rightarrow> t),
          param_description = js_get pd ''description'',
          param_required = Some (JStr n \<in> set (required_names schema)),
          param_enum =
            (case js_get pd ''enum'' of
               Some (JArr es) \<Rightarrow> Some es
             | _ \<Rightarrow> None),
          param_items = js_get pd ''items'',
          param_properties = js_get pd ''properties'' \<rparr>"
  by (cases pd) (simp_all only: normalizeParam_def json.case required_names_iff, simp_all)

lemma normalizeParam_props:
  assumes "pd \<noteq> JNull"
  shows "\<exists>p. normalizeParam schema n pd = Inr p
     \<and> param_required p = Some (JStr n \<in> set (required_names schema))
     \<and> (js_get pd ''type'' = None \<or> js_get pd ''type'' = Some JNull
           \<longrightarrow> param_type p = JStr ''string'')
     \<and> (\<forall>ty. js_get pd ''type'' = Some ty \<and> ty \<noteq> JNull \<longrightarrow> param_type p = ty)
     \<and> param_description p = js_get pd ''description''
     \<and> param_enum p = (case js_get pd ''enum'' of Some (JArr es) \<Rightarrow> Some es | _ \<Rightarrow> None)
     \<and> param_items p = js_get pd ''items''
     \<and> param_properties p = js_get pd ''properties''"
proof -
  have ty: "\<forall>ty. js_get pd ''type'' = Some ty \<and> ty \<noteq> JNull \<longrightarrow>
      (case js_get pd ''type'' of None \<Rightarrow> JStr ''string'' | Some JNull \<Rightarrow> JStr ''string''
       | Some t \<Rightarrow> t) = ty"
    by (auto split: json.splits)
  have nt: "js_get pd ''type'' = None \<or> js_get pd ''type'' = Some JNull \<longrightarrow>
      (case js_get pd ''type'' of None \<Rightarrow> JStr ''string'' | Some JNull \<Rightarrow> JStr ''string''
       | Some t \<Rightarrow> t) = JStr ''string''"
    by auto
  show ?thesis
    unfolding normalizeParam_eq [OF assms] using ty nt by simp
qed

lemma update_fresh: "k \<notin> fst ` set al \<Longrightarrow> AList.update k v al = al @ [(k, v)]"
  by (induction al) auto

lemma paramLoop_total:
  "distinct (map fst entries) \<Longrightarrow> JNull \<notin> snd ` set entries \<Longrightarrow>
   fst ` set acc \<inter> fst ` set entries = {} \<Longrightarrow>
   paramLoop schema entries acc =
     Inr (acc @ map (\<lambda>(n, pd). (n, projr (normalizeParam schema n pd)))
                  (filter (\<lambda>(n, pd). n \<noteq> ''__proto__'') entries))"
proof (induction entries arbitrary: acc)
  case Nil
  then show ?case by simp
next
  case (Cons e entries)
  obtain k pd where e: "e = (k, pd)" by (cases e)
  from Cons.prems(2) e have "pd \<noteq> JNull" by force
  from normalizeParam_props [OF this, of schema k] obtain p where
    p: "normalizeParam schema k pd = Inr p" by blast
  from Cons.prems(1) e have d: "distinct (map fst entries)" and k: "k \<notin> fst ` set entries"
    by auto
  from Cons.prems(2) have n: "JNull \<notin> snd ` set entries" by auto
  from Cons.prems(3) e have kacc: "k \<notin> fst ` set acc"
    and dis: "fst ` set acc \<inter> fst ` set entries = {}" by auto
  show ?case
  proof (cases "k = ''__proto__''")
    case True
    with Cons.IH [OF d n dis] e p show ?thesis by (simp add: setProperty_def)
  next
    case False
    have upd: "setProperty k p acc = acc @ [(k, p)]"
      using False kacc by (simp add: setProperty_def update_fresh)
    have "fst ` set (acc @ [(k, p)]) \<inter> fst ` set entries = {}"
      using dis k by auto
    from Cons.IH [OF d n this] e p upd False show ?thesis by simp
  qed
qed

lemma paramLoop_null:
  "JNull \<in> snd ` set entries \<Longrightarrow> \<exists>e. paramLoop schema entries acc = Inl e"
proof (induction entries arbitrary: acc)
  case Nil
  then show ?case by simp
next
  case (Cons e entries)
  obtain k pd where e: "e = (k, pd)" by (cases e)
  show ?case
  proof (cases "pd = JNull")
    case True
    with e show ?thesis by (simp add: normalizeParam_null)
  next
    case False
    with Cons.prems e have "JNull \<in> snd ` set entries" by auto
    from Cons.IH [OF this] e show ?thesis by (auto split: sum.splits)
  qed
qed

lemma normalizeParameters_eq:
  "normalizeParameters (Some schema) = paramLoop schema (schemaProperties schema) []"
proof (cases "js_get schema ''properties''")
  case None
  then show ?thesis by (simp add: normalizeParameters_def schemaProperties_def)
next
  case (Some props)
  then show ?thesis
    by (cases props) (simp_all add: normalizeParameters_def schemaProperties_def)
qed

lemma normalizeTool_total:
  assumes "def_parameters d = Some schema"
    and "distinct (map fst (schemaProperties schema))"
    and "JNull \<notin> snd ` set (schemaProperties schema)"
  shows "\<exists>t. normalizeTool d = Inr t \<and> tool_name t = def_id d
     \<and> tool_description t = (case def_description d of None \<Rightarrow> '''' | Some s \<Rightarrow> s)
     \<and> list_all2
          (\<lambda>(n, pd) (m, p). m = n
             \<and> param_required p = Some (JStr n \<in> set (required_names schema))
             \<and> (js_get pd ''type'' = None \<or> js_get pd ''type'' = Some JNull
                   \<longrightarrow> param_type p = JStr ''string'')
             \<and> (\<forall>ty. js_get pd ''type'' = Some ty \<and> ty \<noteq> JNull \<longrightarrow> param_type p = ty)
             \<and> param_description p = js_get pd ''description''
             \<and> param_enum p = (case js_get pd ''enum'' of Some (JArr es) \<Rightarrow> Some es | _ \<Rightarrow> None)
             \<and> param_items p = js_get pd ''items''
             \<and> param_properties p = js_get pd ''properties'')
          (filter (\<lambda>(n, pd). n \<noteq> ''__proto__'') (schemaProperties schema))
          (tool_parameters t)"
proof -
  let ?kept = "filter (\<lambda>(n, pd). n \<noteq> ''__proto__'') (schemaProperties schema)"
  let ?f = "\<lambda>(n, pd). (n, projr (normalizeParam schema n pd))"
  have loop: "normalizeParameters (def_parameters d) = Inr (map ?f ?kept)"
    using paramLoop_total [OF assms(2,3), of "[]" schema] assms(1)
    by (simp add: normalizeParameters_eq)
  have each: "\<forall>x \<in> set ?kept.
      (case x of (n, pd) \<Rightarrow> \<lambda>(m, p). m = n
             \<and> param_required p = Some (JStr n \<in> set (required_names schema))
             \<and> (js_get pd ''type'' = None \<or> js_get pd ''type'' = Some JNull
                   \<longrightarrow> param_type p = JStr ''string'')
             \<and> (\<forall>ty. js_get pd ''type'' = Some ty \<and> ty \<noteq> JNull \<longrightarrow> param_type p = ty)
             \<and> param_description p = js_get pd ''description''
             \<and> param_enum p = (case js_get pd ''enum'' of Some (JArr es) \<Rightarrow> Some es | _ \<Rightarrow> None)
             \<and> param_items p = js_get pd ''items''
             \<and> param_properties p = js_get pd ''properties'')
        (?f x)"
  proof
    fix x assume x: "x \<in> set ?kept"
    obtain n pd where xe: "x = (n, pd)" by (cases x)
    with x assms(3) have "pd \<noteq> JNull" by force
    from normalizeParam_props [OF this, of schema n] obtain p where
      "normalizeParam schema n pd = Inr p"
      "param_required p = Some (JStr n \<in> set (required_names schema))"
      "js_get pd ''type'' = None \<or> js_get pd ''type'' = Some JNull
         \<longrightarrow> param_type p = JStr ''string''"
      "\<forall>ty. js_get pd ''type'' = Some ty \<and> ty \<noteq> JNull \<longrightarrow> param_type p = ty"
      "param_description p = js_get pd ''description''"
      "param_enum p = (case js_get pd ''enum'' of Some (JArr es) \<Rightarrow> Some es | _ \<Rightarrow> None)"
      "param_items p = js_get pd ''items''"
      "param_properties p = js_get pd ''properties''"
      by blast
    with xe show "(case x of (n, pd) \<Rightarrow> \<lambda>(m, p). m = n
             \<and> param_required p = Some (JStr n \<in> set (required_names schema))
             \<and> (js_get pd ''type'' = None \<or> js_get pd ''type'' = Some JNull
                   \<longrightarrow> param_type p = JStr ''string'')
             \<and> (\<forall>ty. js_get pd ''type'' = Some ty \<and> ty \<noteq> JNull \<longrightarrow> param_type p = ty)
             \<and> param_description p = js_get pd ''description''
             \<and> param_enum p = (case js_get pd ''enum'' of Some (JArr es) \<Rightarrow> Some es | _ \<Rightarrow> None)
             \<and> param_items p = js_get pd ''items''
             \<and> param_properties p = js_get pd ''properties'')
        (?f x)"
      by simp
  qed
  have all2: "list_all2
          (\<lambda>(n, pd) (m, p). m = n
             \<and> param_required p = Some (JStr n \<in> set (required_names schema))
             \<and> (js_get pd ''type'' = None \<or> js_get pd ''type'' = Some JNull
                   \<longrightarrow> param_type p = JStr ''string'')
             \<and> (\<forall>ty. js_get pd ''type'' = Some ty \<and> ty \<noteq> JNull \<longrightarrow> param_type p = ty)
             \<and> param_description p = js_get pd ''description''
             \<and> param_enum p = (case js_get pd ''enum'' of Some (JArr es) \<Rightarrow> Some es | _ \<Rightarrow> None)
             \<and> param_items p = js_get pd ''items''
             \<and> param_properties p = js_get pd ''properties'')
          ?kept (map ?f ?kept)"
    unfolding list_all2_map2 list_all2_same using each by blast
  from loop all2 show ?thesis
    by (simp add: normalizeTool_def)
qed

lemma normalizeTool_null:
  "def_parameters d = Some schema \<and> JNull \<in> snd ` set (schemaProperties schema) \<Longrightarrow>
   \<exists>e. normalizeTool d = Inl e"
  using paramLoop_null [of "schemaProperties schema" schema "[]"]
  by (auto simp: normalizeTool_def normalizeParameters_eq)

lemma toolLoop_all2:
  "toolLoop ds acc = Inr ts \<Longrightarrow>
   \<exists>new. ts = acc @ new \<and> list_all2 (\<lambda>d t. normalizeTool d = Inr t) ds new"
proof (induction ds arbitrary: acc)
  case Nil
  then show ?case by simp
next
  case (Cons d ds)
  from Cons.prems obtain t where
    t: "normalizeTool d = Inr t" and rest: "toolLoop ds (acc @ [t]) = Inr ts"
    by (auto split: sum.splits)
  from Cons.IH [OF rest] obtain new where
    "ts = (acc @ [t]) @ new" and "list_all2 (\<lambda>d t. normalizeTool d = Inr t) ds new"
    by blast
  then have "ts = acc @ (t # new) \<and> list_all2 (\<lambda>d t. normalizeTool d = Inr t) (d # ds) (t # new)"
    using t by simp
  then show ?case by blast
qed

lemma toolLoop_complete:
  "list_all2 (\<lambda>d t. normalizeTool d = Inr t) ds new \<Longrightarrow> toolLoop ds acc = Inr (acc @ new)"
proof (induction ds arbitrary: acc new)
  case Nil
  then show ?case by simp
next
  case (Cons d ds)
  from Cons.prems obtain t rest where new: "new = t # rest" and t: "normalizeTool d = Inr t"
    and r: "list_all2 (\<lambda>d t. normalizeTool d = Inr t) ds rest"
    by (auto simp: list_all2_Cons1)
  from Cons.IH [OF r, of "acc @ [t]"] new t show ?case by simp
qed

lemma toolLoop_Inl:
  "toolLoop ds acc = Inl e \<Longrightarrow> \<exists>d \<in> set ds. normalizeTool d = Inl e"
proof (induction ds arbitrary: acc)
  case Nil
  then show ?case by simp
next
  case (Cons d ds)
  show ?case
  proof (cases "normalizeTool d")
    case (Inl e')
    with Cons.prems show ?thesis by simp
  next
    case (Inr t)
    with Cons.prems have "toolLoop ds (acc @ [t]) = Inl e" by simp
    from Cons.IH [OF this] show ?thesis by auto
  qed
qed

lemma toolLoop_fails:
  "d \<in> set ds \<Longrightarrow> normalizeTool d = Inl e \<Longrightarrow> \<exists>e'. toolLoop ds acc = Inl e'"
proof (induction ds arbitrary: acc)
  case Nil
  then show ?case by simp
next
  case (Cons a ds)
  show ?case
  proof (cases "normalizeTool a")
    case (Inl e')
    then show ?thesis by simp
  next
    case (Inr t)
    with Cons.prems have "d \<in> set ds" by auto
    from Cons.IH [OF this Cons.prems(2), of "acc @ [t]"] Inr show ?thesis by simp
  qed
qed

lemma fetchAvailableTools_eq:
  "tool_list client \<lparr> lq_provider = provider, lq_model = model, lq_directory = directory \<rparr>
      = Fulfilled response \<Longrightarrow> \<not> truthy_opt (lr_error response) \<Longrightarrow>
   fetchAvailableTools client provider model directory
     = toolLoop (case lr_data response of None \<Rightarrow> [] | Some l \<Rightarrow> l) []"
  by (simp add: fetchAvailableTools_def)

lemma fetchAvailableTools_catalog:
  assumes "tool_list client \<lparr> lq_provider = provider, lq_model = model, lq_directory = directory \<rparr>
      = Fulfilled response \<and> \<not> truthy_opt (lr_error response)
      \<and> (case lr_data response of None \<Rightarrow> [] | Some l \<Rightarrow> l) = ds"
  shows "(fetchAvailableTools client provider model directory = Inr tools
           \<longleftrightarrow> list_all2 (\<lambda>d t. normalizeTool d = Inr t) ds tools)
     \<and> ((\<exists>e. fetchAvailableTools client provider model directory = Inl e)
           \<longleftrightarrow> (\<exists>d \<in> set ds. \<exists>e. normalizeTool d = Inl e))"
proof -
  from assms have eq: "fetchAvailableTools client provider model directory = toolLoop ds []"
    using fetchAvailableTools_eq [of client provider model directory response] by simp
  have a: "toolLoop ds [] = Inr tools \<longleftrightarrow> list_all2 (\<lambda>d t. normalizeTool d = Inr t) ds tools"
    using toolLoop_all2 [of ds "[]" tools] toolLoop_complete [of ds tools "[]"] by auto
  have b: "(\<exists>e. toolLoop ds [] = Inl e) \<longleftrightarrow> (\<exists>d \<in> set ds. \<exists>e. normalizeTool d = Inl e)"
    using toolLoop_Inl [of ds "[]"] toolLoop_fails [of _ ds _ "[]"] by blast
  from eq a b show ?thesis by simp
qed

lemma normalizeTool_no_properties:
  "def_parameters d = None
     \<or> (\<exists>schema. def_parameters d = Some schema \<and> js_get schema ''properties'' = None) \<Longrightarrow>
   normalizeTool d =
     Inr \<lparr> tool_name = def_id d,
           tool_description = (case def_description d of None \<Rightarrow> '''' | Some s \<Rightarrow> s),
           tool_parameters = [] \<rparr>"
  by (auto simp: normalizeTool_def normalizeParameters_def)

lemma fetchAvailableTools_all2:
  "fetchAvailableTools client provider model directory = Inr tools \<Longrightarrow>
   \<exists>response.
      tool_list client \<lparr> lq_provider = provider, lq_model = model, lq_directory = directory \<rparr>
        = Fulfilled response
      \<and> list_all2 (\<lambda>d t. normalizeTool d = Inr t)
           (case lr_data response of None \<Rightarrow> [] | Some l \<Rightarrow> l) tools"
  by (auto simp: fetchAvailableTools_def split: settled.splits if_splits dest!: toolLoop_all2)

lemma normalizeTool_total_imp:
  "def_parameters d = Some schema
      \<and> distinct (map fst (schemaProperties schema))
      \<and> JNull \<notin> snd ` set (schemaProperties schema) \<Longrightarrow>
   \<exists>t. normalizeTool d = Inr t \<and> tool_name t = def_id d
     \<and> tool_description t = (case def_description d of None \<Rightarrow> '''' | Some s \<Rightarrow> s)
     \<and> list_all2
          (\<lambda>(n, pd) (m, p). m = n
             \<and> param_required p = Some (JStr n \<in> set (required_names schema))
             \<and> (js_get pd ''type'' = None \<or> js_get pd ''type'' = Some JNull
                   \<longrightarrow> param_type p = JStr ''string'')
             \<and> (\<forall>ty. js_get pd ''type'' = Some ty \<and> ty \<noteq> JNull \<longrightarrow> param_type p = ty)
             \<and> param_description p = js_get pd ''description''
             \<and> param_enum p = (case js_get pd ''enum'' of Some (JArr es) \<Rightarrow> Some es | _ \<Rightarrow> None)
             \<and> param_items p = js_get pd ''items''
             \<and> param_properties p = js_get pd ''properties'')
          (filter (\<lambda>(n, pd). n \<noteq> ''__proto__'') (schemaProperties schema))
          (tool_parameters t)"
  using normalizeTool_total [of d schema] by blast

text \<open>
  C7, as the code has it. The properties of a schema are the entries of the object
  under \<open>properties\<close>, each name once. When no property definition is null, the
  definition is normalized to a tool with the same name whose parameters are, in the
  order of enumeration, the properties of the schema other than \<open>__proto__\<close>,
  under their names: each is required exactly when its name is in the schema's
  required-name list, has the type \<open>string\<close> when the property has no type (or
  the type null) and the declared type otherwise, and has the description, the
  enumeration (when it is an array), the items and the properties of the property
  definition. The description of the tool is the one of the definition, or empty. When
  a property definition is null, the normalization raises. A definition without a
  schema, or whose schema has no \<open>properties\<close>, is normalized to a tool with
  the empty parameter mapping. When the host answers the tool query without an error,
  the catalog is the list of the normalized definitions, in order, and there is no
  catalog exactly when the normalization of one definition raises.
\<close>

theorem normalizeTool_parameters:
  "(def_parameters d = Some schema
      \<and> distinct (map fst (schemaProperties schema))
      \<and> JNull \<notin> snd ` set (schemaProperties schema)
    \<longrightarrow> (\<exists>t. normalizeTool d = Inr t \<and> tool_name t = def_id d
          \<and> tool_description t = (case def_description d of None \<Rightarrow> '''' | Some s \<Rightarrow> s)
          \<and> list_all2
              (\<lambda>(n, pd) (m, p). m = n
                 \<and> param_required p = Some (JStr n \<in> set (required_names schema))
                 \<and> (js_get pd ''type'' = None \<or> js_get pd ''type'' = Some JNull
                       \<longrightarrow> param_type p = JStr ''string'')
                 \<and> (\<forall>ty. js_get pd ''type'' = Some ty \<and> ty \<noteq> JNull \<longrightarrow> param_type p = ty)
                 \<and> param_description p = js_get pd ''description''
                 \<and> param_enum p = (case js_get pd ''enum'' of Some (JArr es) \<Rightarrow> Some es | _ \<Rightarrow> None)
                 \<and> param_items p = js_get pd ''items''
                 \<and> param_properties p = js_get pd ''properties'')
              (filter (\<lambda>(n, pd). n \<noteq> ''__proto__'') (schemaProperties schema))
              (tool_parameters t)))
   \<and> (def_parameters d = Some schema \<and> JNull \<in> snd ` set (schemaProperties schema)
        \<longrightarrow> (\<exists>e. normalizeTool d = Inl e))
   \<and> (def_parameters d = None
        \<or> (\<exists>schema. def_parameters d = Some schema \<and> js_get schema ''properties'' = None) \<longrightarrow>
      normalizeTool d =
        Inr \<lparr> tool_name = def_id d,
              tool_description = (case def_description d of None \<Rightarrow> '''' | Some s \<Rightarrow> s),
              tool_parameters = [] \<rparr>)
   \<and> (tool_list client \<lparr> lq_provider = provider, lq_model = model, lq_directory = directory \<rparr>
          = Fulfilled response \<and> \<not> truthy_opt (lr_error response)
          \<and> (case lr_data response of None \<Rightarrow> [] | Some l \<Rightarrow> l) = ds
        \<longrightarrow> (fetchAvailableTools client provider model directory = Inr tools
               \<longleftrightarrow> list_all2 (\<lambda>d t. normalizeTool d = Inr t) ds tools)
            \<and> ((\<exists>e. fetchAvailableTools client provider model directory = Inl e)
               \<longleftrightarrow> (\<exists>d \<in> set ds. \<exists>e. normalizeTool d = Inl e)))
   \<and> (fetchAvailableTools client provider model directory = Inr tools \<longrightarrow>
        (\<exists>response.
           tool_list client \<lparr> lq_provider = provider, lq_model = model, lq_directory = directory \<rparr>
             = Fulfilled response
           \<and> list_all2 (\<lambda>d t. normalizeTool d = Inr t)
                (case lr_data response of None \<Rightarrow> [] | Some l \<Rightarrow> l) tools))"
  by (intro conjI impI;
      (erule normalizeTool_total_imp | erule normalizeTool_null
       | erule normalizeTool_no_properties | erule fetchAvailableTools_catalog [THEN conjunct1]
       | erule fetchAvailableTools_catalog [THEN conjunct2] | erule fetchAvailableTools_all2))

lemma schemaProperties_readFileSchema:
  "schemaProperties readFileSchema =
     [(''filePath'', JObj [(''type'', JStr ''string'')]),
      (''limit'', JObj [(''description'', JStr ''Max lines'')])]"
  by (simp add: schemaProperties_def readFileSchema_def ownEntries_def isArrayIndex_def)

lemma schemaProperties_grepSchema:
  "schemaProperties grepSchema =
     [(''0'', JObj [(''type'', JArr [JStr ''string'', JStr ''null''])]),
      (''pattern'', JObj [(''type'', JStr ''string'')]),
      (''limit'', JObj [(''type'', JStr ''integer'')])]"
  by (simp add: schemaProperties_def grepSchema_def ownEntries_def isArrayIndex_def
        digitsValue_def)

lemma required_names_readFileSchema: "required_names readFileSchema = [JStr ''filePath'']"
  by (simp add: required_names_def readFileSchema_def)

lemma required_names_grepSchema: "required_names grepSchema = [JStr ''pattern'']"
  by (simp add: required_names_def grepSchema_def)

lemma normalizeTool_readFileDef: "normalizeTool readFileDef = Inr readFileTool"
  by (simp add: normalizeTool_def normalizeParameters_def normalizeParam_def readFileDef_def
        readFileSchema_def readFileTool_def filePathParam_def limitParam_def
        ownEntries_def isArrayIndex_def setProperty_def)

lemma normalizeTool_grepDef: "normalizeTool grepDef = Inr grepTool"
  by (simp add: normalizeTool_def normalizeParameters_def normalizeParam_def grepDef_def
        grepSchema_def grepTool_def ownEntries_def isArrayIndex_def digitsValue_def
        setProperty_def)

lemma normalizeTool_bareDef: "normalizeTool bareDef = Inr pingTool"
  by (simp add: normalizeTool_def normalizeParameters_def bareDef_def pingTool_def)

theorem normalizeTool_parameters_witness:
  "(\<exists>t. normalizeTool readFileDef = Inr t \<and> tool_name t = ''read-file''
        \<and> map (\<lambda>(n, p). (n, param_required p, param_type p)) (tool_parameters t)
            = [(''filePath'', Some True, JStr ''string''), (''limit'', Some False, JStr ''string'')])
   \<and> (\<exists>t. normalizeTool grepDef = Inr t \<and> tool_name t = ''grep''
        \<and> map (\<lambda>(n, p). (n, param_required p, param_type p)) (tool_parameters t)
            = [(''0'', Some False, JArr [JStr ''string'', JStr ''null'']),
               (''pattern'', Some True, JStr ''string''),
               (''limit'', Some False, JStr ''integer'')])
   \<and> (\<exists>e. normalizeTool nullDef = Inl e)
   \<and> normalizeTool bareDef
       = Inr \<lparr> tool_name = ''ping'', tool_description = '''', tool_parameters = [] \<rparr>
   \<and> fetchAvailableTools toolsClient ''anthropic'' ''claude'' None = Inr [readFileTool, pingTool]
   \<and> (\<exists>e. fetchAvailableTools nullClient ''anthropic'' ''claude'' None = Inl e)"
proof -
  have ha: "def_parameters readFileDef = Some readFileSchema
      \<and> distinct (map fst (schemaProperties readFileSchema))
      \<and> JNull \<notin> snd ` set (schemaProperties readFileSchema)"
    by (simp add: readFileDef_def schemaProperties_readFileSchema)
  from normalizeTool_parameters
      [where d = readFileDef and schema = readFileSchema, THEN conjunct1, THEN mp, OF ha]
  obtain t where t: "normalizeTool readFileDef = Inr t" "tool_name t = def_id readFileDef"
    "list_all2
       (\<lambda>(n, pd) (m, p). m = n
          \<and> param_required p = Some (JStr n \<in> set (required_names readFileSchema))
          \<and> (js_get pd ''type'' = None \<or> js_get pd ''type'' = Some JNull
                \<longrightarrow> param_type p = JStr ''string'')
          \<and> (\<forall>ty. js_get pd ''type'' = Some ty \<and> ty \<noteq> JNull \<longrightarrow> param_type p = ty)
          \<and> param_description p = js_get pd ''description''
          \<and> param_enum p = (case js_get pd ''enum'' of Some (JArr es) \<Rightarrow> Some es | _ \<Rightarrow> None)
          \<and> param_items p = js_get pd ''items''
          \<and> param_properties p = js_get pd ''properties'')
       (filter (\<lambda>(n, pd). n \<noteq> ''__proto__'') (schemaProperties readFileSchema))
       (tool_parameters t)"
    by blast
  from t(3) have "map (\<lambda>(n, p). (n, param_required p, param_type p)) (tool_parameters t)
            = [(''filePath'', Some True, JStr ''string''), (''limit'', Some False, JStr ''string'')]"
    by (auto simp: schemaProperties_readFileSchema required_names_readFileSchema
          list_all2_Cons1)
  with t(1,2)
  have a: "\<exists>t. normalizeTool readFileDef = Inr t \<and> tool_name t = ''read-file''
        \<and> map (\<lambda>(n, p). (n, param_required p, param_type p)) (tool_parameters t)
            = [(''filePath'', Some True, JStr ''string''), (''limit'', Some False, JStr ''string'')]"
    by (simp add: readFileDef_def)
  have hb: "def_parameters grepDef = Some grepSchema
      \<and> distinct (map fst (schemaProperties grepSchema))
      \<and> JNull \<notin> snd ` set (schemaProperties grepSchema)"
    by (simp add: grepDef_def schemaProperties_grepSchema)
  from normalizeTool_parameters
      [where d = grepDef and schema = grepSchema, THEN conjunct1, THEN mp, OF hb]
  obtain u where u: "normalizeTool grepDef = Inr u" "tool_name u = def_id grepDef"
    "list_all2
       (\<lambda>(n, pd) (m, p). m = n
          \<and> param_required p = Some (JStr n \<in> set (required_names grepSchema))
          \<and> (js_get pd ''type'' = None \<or> js_get pd ''type'' = Some JNull
                \<longrightarrow> param_type p = JStr ''string'')
          \<and> (\<forall>ty. js_get pd ''type'' = Some ty \<and> ty \<noteq> JNull \<longrightarrow> param_type p = ty)
          \<and> param_description p = js_get pd ''description''
          \<and> param_enum p = (case js_get pd ''enum'' of Some (JArr es) \<Rightarrow> Some es | _ \<Rightarrow> None)
          \<and> param_items p = js_get pd ''items''
          \<and> param_properties p = js_get pd ''properties'')
       (filter (\<lambda>(n, pd). n \<noteq> ''__proto__'') (schemaProperties grepSchema))
       (tool_parameters u)"
    by blast
  from u(3) have "map (\<lambda>(n, p). (n, param_required p, param_type p)) (tool_parameters u)
            = [(''0'', Some False, JArr [JStr ''string'', JStr ''null'']),
               (''pattern'', Some True, JStr ''string''),
               (''limit'', Some False, JStr ''integer'')]"
    by (auto simp: schemaProperties_grepSchema required_names_grepSchema list_all2_Cons1)
  with u(1,2)
  have b: "\<exists>t. normalizeTool grepDef = Inr t \<and> tool_name t = ''grep''
        \<and> map (\<lambda>(n, p). (n, param_required p, param_type p)) (tool_parameters t)
            = [(''0'', Some False, JArr [JStr ''string'', JStr ''null'']),
               (''pattern'', Some True, JStr ''string''),
               (''limit'', Some False, JStr ''integer'')]"
    by (simp add: grepDef_def)
  have c: "\<exists>e. normalizeTool nullDef = Inl e"
    using normalizeTool_parameters
      [where d = nullDef and schema = "JObj [(''properties'', JObj [(''x'', JNull)])]",
         THEN conjunct2, THEN conjunct1]
    by (simp add: nullDef_def schemaProperties_def ownEntries_def isArrayIndex_def)
  have d: "normalizeTool bareDef
       = Inr \<lparr> tool_name = ''ping'', tool_description = '''', tool_parameters = [] \<rparr>"
    using normalizeTool_parameters [where d = bareDef, THEN conjunct2, THEN conjunct2,
        THEN conjunct1]
    by (simp add: bareDef_def)
  have e: "fetchAvailableTools toolsClient ''anthropic'' ''claude'' None
             = Inr [readFileTool, pingTool]"
    using normalizeTool_parameters
      [where client = toolsClient and provider = "''anthropic''" and model = "''claude''"
         and directory = None
         and response = "\<lparr> lr_error = None, lr_data = Some [readFileDef, bareDef] \<rparr>"
         and ds = "[readFileDef, bareDef]" and tools = "[readFileTool, pingTool]",
         THEN conjunct2, THEN conjunct2, THEN conjunct2, THEN conjunct1]
      normalizeTool_readFileDef normalizeTool_bareDef
    by (simp add: toolsClient_def)
  have f: "\<exists>e. fetchAvailableTools nullClient ''anthropic'' ''claude'' None = Inl e"
    using normalizeTool_parameters
      [where client = nullClient and provider = "''anthropic''" and model = "''claude''"
         and directory = None
         and response = "\<lparr> lr_error = None, lr_data = Some [readFileDef, nullDef] \<rparr>"
         and ds = "[readFileDef, nullDef]",
         THEN conjunct2, THEN conjunct2, THEN conjunct2, THEN conjunct1]
      c
    by (simp add: nullClient_def)
  from a b c d e f show ?thesis by blast
qed

text \<open>
  The claim as it was stated fails for a schema with a property that is null: the
  property has no type, and instead of a parameter of type \<open>string\<close> the
  normalization raises the TypeError of reading \<open>type\<close> from null; the query of
  the catalog raises with it, although the other definition of the host is well formed.
\<close>

theorem null_property_counterexample:
  "normalizeTool nullDef = Inl (ErrorObj ''Cannot read properties of null (reading 'type')'')
   \<and> normalizeTool readFileDef = Inr readFileTool
   \<and> fetchAvailableTools nullClient ''anthropic'' ''claude'' None
       = Inl (ErrorObj ''Cannot read properties of null (reading 'type')'')"
  by (simp add: fetchAvailableTools_def nullClient_def normalizeTool_readFileDef)
    (simp add: normalizeTool_def normalizeParameters_def normalizeParam_def nullDef_def
      ownEntries_def isArrayIndex_def)

section \<open>The signature listing\<close>

lemma mapTypeToTS_other:
  "t \<notin> {JStr ''string'', JStr ''number'', JStr ''integer'', JStr ''boolean'', JStr ''array'',
         JStr ''object''} \<Longrightarrow> mapTypeToTS t = ''unknown''"
  by (simp add: mapTypeToTS_def)

lemma mapTypeToTS_displayType: "mapTypeToTS t = displayType t"
  by (cases t) (auto simp: mapTypeToTS_def displayType_def displayTypes_def)

lemma renderParam_required:
  "param_required q = Some True \<Longrightarrow>
   renderParam (n, q) = n @ '': '' @ mapTypeToTS (param_type q)"
  by (simp add: renderParam_def)

lemma renderParam_optional:
  "param_required q \<noteq> Some True \<Longrightarrow>
   renderParam (n, q) = n @ ''?: '' @ mapTypeToTS (param_type q)"
  by (simp add: renderParam_def)

lemma renderParam_fun:
  "renderParam =
     (\<lambda>(n, q). n @ (if param_required q = Some True then '''' else ''?'') @ '': '' @
                displayType (param_type q))"
  by (rule ext) (simp add: renderParam_def mapTypeToTS_displayType split: prod.splits)

lemma toolLines_eq:
  "toolLines tool =
     [''// '' @ tool_description tool,
      ''async function '' @ sanitizeName (tool_name tool) @ ''(args: { '' @
        join '', ''
          (map (\<lambda>(n, q). n @ (if param_required q = Some True then '''' else ''?'') @ '': '' @
                  displayType (param_type q))
             (ownEntries (tool_parameters tool))) @
        '' }): Promise<string>'',
      '''']"
  by (simp add: toolLines_def renderParam_fun)

lemma signatureLines_eq:
  "signatureLines tools agents skills =
     [''// Available Tools'', ''''] @
     concat (map (\<lambda>tool.
        [''// '' @ tool_description tool,
         ''async function '' @ sanitizeName (tool_name tool) @ ''(args: { '' @
           join '', ''
             (map (\<lambda>(n, q). n @ (if param_required q = Some True then '''' else ''?'') @ '': '' @
                     displayType (param_type q))
                (ownEntries (tool_parameters tool))) @
           '' }): Promise<string>'',
         '''']) tools) @
     [''// Available Agents (listing only - use 'task' tool for invocation)'', ''''] @
     concat (map (\<lambda>agent.
        [''// '' @ (case agent_description agent of None \<Rightarrow> ''No description'' | Some d \<Rightarrow> d),
         ''// agents.'' @ sanitizeName (agent_name agent) @ '' - not directly callable'',
         '''']) agents) @
     (if skills = [] then []
      else [''// Available Skills (listing only - use 'skill' tool for invocation)'', ''''] @
           concat (map (\<lambda>skill.
              [''// '' @ skill_description skill,
               ''// skills.'' @ sanitizeName (skill_name skill) @ '' - not directly callable'',
               '''']) skills))"
proof -
  have t: "toolLines = (\<lambda>tool.
        [''// '' @ tool_description tool,
         ''async function '' @ sanitizeName (tool_name tool) @ ''(args: { '' @
           join '', ''
             (map (\<lambda>(n, q). n @ (if param_required q = Some True then '''' else ''?'') @ '': '' @
                     displayType (param_type q))
                (ownEntries (tool_parameters tool))) @
           '' }): Promise<string>'',
         ''''])"
    by (rule ext) (rule toolLines_eq)
  have a: "agentLines = (\<lambda>agent.
        [''// '' @ (case agent_description agent of None \<Rightarrow> ''No description'' | Some d \<Rightarrow> d),
         ''// agents.'' @ sanitizeName (agent_name agent) @ '' - not directly callable'',
         ''''])"
    by (rule ext) (simp add: agentLines_def)
  have k: "skillLines = (\<lambda>skill.
              [''// '' @ skill_description skill,
               ''// skills.'' @ sanitizeName (skill_name skill) @ '' - not directly callable'',
               ''''])"
    by (rule ext) (simp add: skillLines_def)
  show ?thesis
    unfolding signatureLines_def t a k by simp
qed

lemma generateFunctionSignatures_eq:
  "generateFunctionSignatures tools agents skills
     = join [CHR 0x0A] (signatureLines tools agents skills)"
  by (simp add: generateFunctionSignatures_def)

lemma read_file_lines:
  "signatureLines
     [\<lparr> tool_name = ''read-file'', tool_description = d,
        tool_parameters = [(''filePath'', p\<lparr> param_type := JStr ''string'', param_required := Some True \<rparr>)] \<rparr>]
     agents skills
   = [''// Available Tools'', '''',
      ''// '' @ d,
      ''async function read_file(args: { filePath: string }): Promise<string>'',
      '''',
      ''// Available Agents (listing only - use 'task' tool for invocation)'', ''''] @
     concat (map agentLines agents) @
     (if skills = [] then []
      else [''// Available Skills (listing only - use 'skill' tool for invocation)'', ''''] @
           concat (map skillLines skills))"
  by (simp add: signatureLines_def toolLines_def renderParam_def mapTypeToTS_def sanitizeName_def
        isWordChar_def ownEntries_def isArrayIndex_def)

lemma read_file_listing:
  "generateFunctionSignatures
     [\<lparr> tool_name = ''read-file'', tool_description = d,
        tool_parameters = [(''filePath'', p\<lparr> param_type := JStr ''string'', param_required := Some True \<rparr>)] \<rparr>]
     [] []
   = ''// Available Tools'' @ [CHR 0x0A] @ [CHR 0x0A] @
     ''// '' @ d @ [CHR 0x0A] @
     ''async function read_file(args: { filePath: string }): Promise<string>'' @ [CHR 0x0A] @
     [CHR 0x0A] @
     ''// Available Agents (listing only - use 'task' tool for invocation)'' @ [CHR 0x0A]"
  unfolding generateFunctionSignatures_def read_file_lines by simp

text \<open>
  C9. For a catalog with the one tool \<open>read-file\<close>, whose only parameter
  \<open>filePath\<close> is a required string, the lines of the listing begin with the
  heading \<open>// Available Tools\<close>, an empty line, the description, and the line
  \<open>async function read_file(args: { filePath: string }): Promise<string>\<close>,
  before the heading of the agents; with no agents and no skills the listing is these
  lines joined by newlines. For every catalog, the listing is the lines joined by
  newlines, and the lines are: the heading of the tools and an empty line; for each
  tool, in order, its description, its signature and an empty line; the heading of the
  agents and an empty line; the agents; and, when there is a skill, the heading of the
  skills and the skills. The signature of a tool is \<open>async function\<close>, the
  sanitized name, and the parameters of the tool as JavaScript enumerates them,
  separated by a comma and a space, each as its name, \<open>?\<close> unless it is
  required, a colon and its display type. The display type is \<open>string\<close> for
  string, \<open>number\<close> for number and integer, \<open>boolean\<close> for boolean,
  \<open>unknown[]\<close> for array, \<open>Record<string, unknown>\<close> for object and
  \<open>unknown\<close> for anything else.
\<close>

theorem read_file_signature:
  "signatureLines
     [\<lparr> tool_name = ''read-file'', tool_description = d,
        tool_parameters = [(''filePath'', p\<lparr> param_type := JStr ''string'', param_required := Some True \<rparr>)] \<rparr>]
     agents skills
   = [''// Available Tools'', '''',
      ''// '' @ d,
      ''async function read_file(args: { filePath: string }): Promise<string>'',
      '''',
      ''// Available Agents (listing only - use 'task' tool for invocation)'', ''''] @
     concat (map agentLines agents) @
     (if skills = [] then []
      else [''// Available Skills (listing only - use 'skill' tool for invocation)'', ''''] @
           concat (map skillLines skills))
   \<and> generateFunctionSignatures
     [\<lparr> tool_name = ''read-file'', tool_description = d,
        tool_parameters = [(''filePath'', p\<lparr> param_type := JStr ''string'', param_required := Some True \<rparr>)] \<rparr>]
     [] []
   = ''// Available Tools'' @ [CHR 0x0A] @ [CHR 0x0A] @
     ''// '' @ d @ [CHR 0x0A] @
     ''async function read_file(args: { filePath: string }): Promise<string>'' @ [CHR 0x0A] @
     [CHR 0x0A] @
     ''// Available Agents (listing only - use 'task' tool for invocation)'' @ [CHR 0x0A]
   \<and> generateFunctionSignatures tools agents skills
       = join [CHR 0x0A] (signatureLines tools agents skills)
   \<and> signatureLines tools agents skills =
       [''// Available Tools'', ''''] @
       concat (map (\<lambda>tool.
          [''// '' @ tool_description tool,
           ''async function '' @ sanitizeName (tool_name tool) @ ''(args: { '' @
             join '', ''
               (map (\<lambda>(n, q). n @ (if param_required q = Some True then '''' else ''?'') @ '': '' @
                       displayType (param_type q))
                  (ownEntries (tool_parameters tool))) @
             '' }): Promise<string>'',
           '''']) tools) @
       [''// Available Agents (listing only - use 'task' tool for invocation)'', ''''] @
       concat (map (\<lambda>agent.
          [''// '' @ (case agent_description agent of None \<Rightarrow> ''No description'' | Some d \<Rightarrow> d),
           ''// agents.'' @ sanitizeName (agent_name agent) @ '' - not directly callable'',
           '''']) agents) @
       (if skills = [] then []
        else [''// Available Skills (listing only - use 'skill' tool for invocation)'', ''''] @
             concat (map (\<lambda>skill.
                [''// '' @ skill_description skill,
                 ''// skills.'' @ sanitizeName (skill_name skill) @ '' - not directly callable'',
                 '''']) skills))
   \<and> mapTypeToTS t = displayType t
   \<and> mapTypeToTS (JStr ''string'') = ''string''
   \<and> mapTypeToTS (JStr ''number'') = ''number''
   \<and> mapTypeToTS (JStr ''integer'') = ''number''
   \<and> mapTypeToTS (JStr ''boolean'') = ''boolean''
   \<and> mapTypeToTS (JStr ''array'') = ''unknown[]''
   \<and> mapTypeToTS (JStr ''object'') = ''Record<string, unknown>''
   \<and> (t \<notin> {JStr ''string'', JStr ''number'', JStr ''integer'', JStr ''boolean'', JStr ''array'',
             JStr ''object''} \<longrightarrow> mapTypeToTS t = ''unknown'')
   \<and> (param_required q = Some True \<longrightarrow>
        renderParam (n, q) = n @ '': '' @ mapTypeToTS (param_type q))
   \<and> (param_required q \<noteq> Some True \<longrightarrow>
        renderParam (n, q) = n @ ''?: '' @ mapTypeToTS (param_type q))"
  by (intro conjI impI;
      (rule read_file_lines | rule read_file_listing | rule generateFunctionSignatures_eq
       | rule signatureLines_eq | rule mapTypeToTS_displayType | erule mapTypeToTS_other
       | erule renderParam_required | erule renderParam_optional | simp add: mapTypeToTS_def))

theorem read_file_signature_witness:
  "mapTypeToTS (JStr ''date'') = ''unknown''
   \<and> mapTypeToTS (JArr [JStr ''string'', JStr ''null'']) = ''unknown''
   \<and> renderParam (''filePath'', filePathParam) = ''filePath: string''
   \<and> renderParam (''limit'', limitParam\<lparr> param_type := JStr ''integer'' \<rparr>) = ''limit?: number''
   \<and> generateFunctionSignatures
        [\<lparr> tool_name = ''read-file'', tool_description = ''Read a file'',
           tool_parameters = [(''filePath'', filePathParam)] \<rparr>] [] []
      = ''// Available Tools'' @ [CHR 0x0A] @ [CHR 0x0A] @
        ''// Read a file'' @ [CHR 0x0A] @
        ''async function read_file(args: { filePath: string }): Promise<string>'' @ [CHR 0x0A] @
        [CHR 0x0A] @
        ''// Available Agents (listing only - use 'task' tool for invocation)'' @ [CHR 0x0A]
   \<and> signatureLines [readFileTool, grepTool\<lparr> tool_parameters := rev (tool_parameters grepTool) \<rparr>]
        [exploreAgent] [deploySkill]
      = [''// Available Tools'', '''',
         ''// Read a file'',
         ''async function read_file(args: { filePath: string, limit?: string }): Promise<string>'',
         '''',
         ''// Search'',
         ''async function grep(args: { 0?: unknown, limit?: number, pattern: string }): Promise<string>'',
         '''',
         ''// Available Agents (listing only - use 'task' tool for invocation)'', '''',
         ''// No description'',
         ''// agents.explore - not directly callable'',
         '''',
         ''// Available Skills (listing only - use 'skill' tool for invocation)'', '''',
         ''// Deploys'',
         ''// skills.deploy - not directly callable'',
         '''']"
proof -
  have a: "mapTypeToTS (JStr ''date'') = ''unknown''"
    using read_file_signature [where t = "JStr ''date''"]
    by (simp add: displayType_def displayTypes_def)
  have b: "mapTypeToTS (JArr [JStr ''string'', JStr ''null'']) = ''unknown''"
    using read_file_signature [where t = "JArr [JStr ''string'', JStr ''null'']"]
    by (simp add: displayType_def displayTypes_def)
  have c: "renderParam (''filePath'', filePathParam) = ''filePath: string''"
    using read_file_signature [where q = filePathParam and n = "''filePath''"]
    by (simp add: filePathParam_def displayType_def displayTypes_def)
  have d: "renderParam (''limit'', limitParam\<lparr> param_type := JStr ''integer'' \<rparr>) = ''limit?: number''"
    using read_file_signature
      [where q = "limitParam\<lparr> param_type := JStr ''integer'' \<rparr>" and n = "''limit''"]
    by (simp add: limitParam_def displayType_def displayTypes_def)
  have e: "generateFunctionSignatures
        [\<lparr> tool_name = ''read-file'', tool_description = ''Read a file'',
           tool_parameters = [(''filePath'', filePathParam)] \<rparr>] [] []
      = ''// Available Tools'' @ [CHR 0x0A] @ [CHR 0x0A] @
        ''// Read a file'' @ [CHR 0x0A] @
        ''async function read_file(args: { filePath: string }): Promise<string>'' @ [CHR 0x0A] @
        [CHR 0x0A] @
        ''// Available Agents (listing only - use 'task' tool for invocation)'' @ [CHR 0x0A]"
    using read_file_signature
      [where d = "''Read a file''" and p = filePathParam, THEN conjunct2, THEN conjunct1]
    by (simp add: filePathParam_def)
  have f: "signatureLines [readFileTool, grepTool\<lparr> tool_parameters := rev (tool_parameters grepTool) \<rparr>]
        [exploreAgent] [deploySkill]
      = [''// Available Tools'', '''',
         ''// Read a file'',
         ''async function read_file(args: { filePath: string, limit?: string }): Promise<string>'',
         '''',
         ''// Search'',
         ''async function grep(args: { 0?: unknown, limit?: number, pattern: string }): Promise<string>'',
         '''',
         ''// Available Agents (listing only - use 'task' tool for invocation)'', '''',
         ''// No description'',
         ''// agents.explore - not directly callable'',
         '''',
         ''// Available Skills (listing only - use 'skill' tool for invocation)'', '''',
         ''// Deploys'',
         ''// skills.deploy - not directly callable'',
         '''']"
    using read_file_signature
      [where tools = "[readFileTool, grepTool\<lparr> tool_parameters := rev (tool_parameters grepTool) \<rparr>]"
         and agents = "[exploreAgent]"
         and skills = "[deploySkill]", THEN conjunct2, THEN conjunct2, THEN conjunct2,
         THEN conjunct1]
    by (simp add: readFileTool_def grepTool_def exploreAgent_def deploySkill_def
          filePathParam_def limitParam_def sanitizeName_def isWordChar_def
          ownEntries_def isArrayIndex_def digitsValue_def displayType_def displayTypes_def)
  from a b c d e f show ?thesis by simp
qed

section \<open>The logging function\<close>

lemma logArg_serializable:
  "serializable a \<Longrightarrow>
   \<exists>part. logArg a = Inr part \<and> (case part of None \<Rightarrow> '''' | Some s \<Rightarrow> s) = logText a"
proof (cases a)
  case Undefined
  then show ?thesis by (simp add: logArg_def)
next
  case (Json j)
  then show ?thesis by (cases j) (simp_all add: logArg_def)
next
  case (BigInt n)
  assume "serializable a"
  with BigInt show ?thesis by simp
qed

lemma mapArgs_serializable:
  "list_all serializable args \<Longrightarrow>
   \<exists>parts. mapArgs logArg args = Inr parts
      \<and> map (\<lambda>p. case p of None \<Rightarrow> '''' | Some s \<Rightarrow> s) parts = map logText args"
proof (induction args)
  case Nil
  then show ?case by simp
next
  case (Cons a args)
  then obtain part where a: "logArg a = Inr part"
      "(case part of None \<Rightarrow> '''' | Some s \<Rightarrow> s) = logText a"
    using logArg_serializable [of a] by auto
  from Cons obtain parts where parts: "mapArgs logArg args = Inr parts"
      "map (\<lambda>p. case p of None \<Rightarrow> '''' | Some s \<Rightarrow> s) parts = map logText args"
    by auto
  from a parts show ?case by simp
qed

lemma mapArgs_unserializable:
  "\<not> list_all serializable args \<Longrightarrow> \<exists>e. mapArgs logArg args = Inl e"
proof (induction args)
  case Nil
  then show ?case by simp
next
  case (Cons a args)
  show ?case
  proof (cases "serializable a")
    case True
    with Cons obtain e where "mapArgs logArg args = Inl e" by auto
    then show ?thesis by (simp split: sum.splits)
  next
    case False
    then obtain n where "a = BigInt n" by (cases a) simp_all
    then show ?thesis by (simp add: logArg_def)
  qed
qed

lemma log_fn_serializable:
  "list_all serializable args \<Longrightarrow>
   log_fn args s = (Inr (), s\<lparr> st_logs := st_logs s @ [join '' '' (map logText args)] \<rparr>)"
  using mapArgs_serializable [of args] by (auto simp: log_fn_def joinParts_def)

lemma log_fn_unserializable:
  "\<not> list_all serializable args \<Longrightarrow> \<exists>e. log_fn args s = (Inl e, s)"
  using mapArgs_unserializable [of args] by (auto simp: log_fn_def)

lemma log_fn_now: "st_now (snd (log_fn args s)) = st_now s"
  by (simp add: log_fn_def split: sum.splits)

lemma run_logAll:
  "list_all (list_all serializable) calls \<Longrightarrow>
   run (mkRuntime this ctx) deadline (logAll calls rest) s
     = run (mkRuntime this ctx) deadline rest
         (s\<lparr> st_logs := st_logs s @ map (\<lambda>args. join '' '' (map logText args)) calls \<rparr>)"
proof (induction calls arbitrary: s)
  case Nil
  then show ?case by simp
next
  case (Cons args calls)
  from Cons.prems have args: "list_all serializable args"
    and calls: "list_all (list_all serializable) calls" by simp_all
  have "run (mkRuntime this ctx) deadline (logAll (args # calls) rest) s
        = run (mkRuntime this ctx) deadline (logAll calls rest)
            (s\<lparr> st_logs := st_logs s @ [join '' '' (map logText args)] \<rparr>)"
    by (simp add: mkRuntime_def log_fn_serializable [OF args])
  also have "\<dots> = run (mkRuntime this ctx) deadline rest
         (s\<lparr> st_logs := st_logs s @ map (\<lambda>args. join '' '' (map logText args)) (args # calls) \<rparr>)"
    by (simp add: Cons.IH [OF calls])
  finally show ?case .
qed

text \<open>
  C10, as the code has it. A call of the logging function whose arguments
  \<open>JSON.stringify\<close> accepts raises nothing and appends exactly one entry to the
  logs, the texts of its arguments joined by single spaces, where a string is kept as
  it is and any other argument is JSON-serialized; a call with an argument that
  \<open>JSON.stringify\<close> rejects raises and appends nothing. Calls made one after the
  other leave their entries in the order of the calls.
\<close>

theorem log_appends_one_entry:
  "(list_all serializable args \<longrightarrow>
      log_fn args s = (Inr (), s\<lparr> st_logs := st_logs s @ [join '' '' (map logText args)] \<rparr>))
   \<and> (\<not> list_all serializable args \<longrightarrow> (\<exists>e. log_fn args s = (Inl e, s)))
   \<and> (list_all (list_all serializable) calls \<longrightarrow>
      run (mkRuntime this ctx) deadline (logAll calls rest) s
        = run (mkRuntime this ctx) deadline rest
            (s\<lparr> st_logs := st_logs s @ map (\<lambda>args. join '' '' (map logText args)) calls \<rparr>))
   \<and> logText (Json (JStr str)) = str
   \<and> (\<forall>j. (\<forall>str. j \<noteq> JStr str) \<longrightarrow> logText (Json j) = JSON_stringify j)"
proof (intro conjI impI allI)
  assume "list_all serializable args"
  then show "log_fn args s
      = (Inr (), s\<lparr> st_logs := st_logs s @ [join '' '' (map logText args)] \<rparr>)"
    by (rule log_fn_serializable)
next
  assume "\<not> list_all serializable args"
  then show "\<exists>e. log_fn args s = (Inl e, s)"
    by (rule log_fn_unserializable)
next
  assume "list_all (list_all serializable) calls"
  then show "run (mkRuntime this ctx) deadline (logAll calls rest) s
        = run (mkRuntime this ctx) deadline rest
            (s\<lparr> st_logs := st_logs s @ map (\<lambda>args. join '' '' (map logText args)) calls \<rparr>)"
    by (rule run_logAll)
next
  show "logText (Json (JStr str)) = str" by simp
next
  fix j assume "\<forall>str. j \<noteq> JStr str"
  then show "logText (Json j) = JSON_stringify j" by (cases j) simp_all
qed

theorem log_appends_one_entry_witness:
  "log_fn [Json (JObj [(''n'', JNum 1)]), Undefined, Json (JStr ''b'')] emptyState
     = (Inr (), emptyState\<lparr> st_logs := [''{'' @ [CHR 0x22] @ ''n'' @ [CHR 0x22] @ '':1}  b''] \<rparr>)
   \<and> (\<exists>e. log_fn [Json (JStr ''a''), BigInt 10] emptyState = (Inl e, emptyState))
   \<and> run (mkRuntime (sampleExecutor None) someContext) 1000
        (logAll [[Json (JStr ''a'')], [Json (JBool True), Json JNull], [Json (JStr ''c'')]]
           (Return Undefined)) emptyState
       = (Completed Undefined, emptyState\<lparr> st_logs := [''a'', ''true null'', ''c''] \<rparr>)
   \<and> logText (Json (JArr [JNum (- 12), JStr ''x''])) = ''[-12,'' @ [CHR 0x22] @ ''x'' @ [CHR 0x22] @ '']''"
proof -
  have a: "log_fn [Json (JObj [(''n'', JNum 1)]), Undefined, Json (JStr ''b'')] emptyState
     = (Inr (), emptyState\<lparr> st_logs := [''{'' @ [CHR 0x22] @ ''n'' @ [CHR 0x22] @ '':1}  b''] \<rparr>)"
    using log_appends_one_entry
      [where args = "[Json (JObj [(''n'', JNum 1)]), Undefined, Json (JStr ''b'')]"
         and s = emptyState]
    by (simp add: emptyState_def quote_string_def quote_char_def show_int_def show_nat.simps
          ownEntries_def isArrayIndex_def)
  have b: "\<exists>e. log_fn [Json (JStr ''a''), BigInt 10] emptyState = (Inl e, emptyState)"
    using log_appends_one_entry [where args = "[Json (JStr ''a''), BigInt 10]" and s = emptyState]
    by simp
  have c: "run (mkRuntime (sampleExecutor None) someContext) 1000
        (logAll [[Json (JStr ''a'')], [Json (JBool True), Json JNull], [Json (JStr ''c'')]]
           (Return Undefined)) emptyState
       = (Completed Undefined, emptyState\<lparr> st_logs := [''a'', ''true null'', ''c''] \<rparr>)"
    using log_appends_one_entry
      [where calls = "[[Json (JStr ''a'')], [Json (JBool True), Json JNull], [Json (JStr ''c'')]]"
         and s = emptyState and this = "sampleExecutor None" and ctx = someContext
         and deadline = 1000 and rest = "Return Undefined"]
    by (simp add: emptyState_def)
  have d: "logText (Json (JArr [JNum (- 12), JStr ''x''])) = ''[-12,'' @ [CHR 0x22] @ ''x'' @ [CHR 0x22] @ '']''"
    using log_appends_one_entry
    by (simp add: quote_string_def quote_char_def show_int_def show_nat.simps)
  from a b c d show ?thesis by simp
qed

text \<open>
  The claim as it was stated fails for a BigInt argument: the call raises the
  TypeError of \<open>JSON.stringify\<close> and the logs are as before.
\<close>

theorem log_bigint_counterexample:
  "log_fn [Json (JStr ''total''), BigInt 10] emptyState
     = (Inl (ErrorObj ''Do not know how to serialize a BigInt''), emptyState)
   \<and> st_logs (snd (log_fn [Json (JStr ''total''), BigInt 10] emptyState)) = []"
  by (simp add: log_fn_def logArg_def emptyState_def)

section \<open>The deadline\<close>

lemma createAgentFunction_now:
  "st_now (snd (createAgentFunction client agent context prompt options s)) = st_now s"
  by (simp add: createAgentFunction_eq)

lemma createSkillFunction_now:
  "st_now (snd (createSkillFunction client skill context s)) = st_now s"
  by (simp add: createSkillFunction_eq)

lemma rt_agents_now:
  "getProperty (rt_agents (mkRuntime this ctx)) key = Own f \<Longrightarrow>
   st_now (snd (f prompt options s)) = st_now s"
  by (auto simp: getProperty_Own_iff mkRuntime_def createAgentFunction_now
      dest!: agentFunctions_Some)

lemma rt_skills_now:
  "getProperty (rt_skills (mkRuntime this ctx)) key = Own f \<Longrightarrow>
   st_now (snd (f s)) = st_now s"
  by (auto simp: getProperty_Own_iff mkRuntime_def createSkillFunction_now
      dest!: skillFunctions_Some)

lemma rt_log_now:
  "st_now (snd (rt_log (mkRuntime this ctx) args s)) = st_now s"
  by (simp add: mkRuntime_def log_fn_now)

text \<open>
  The timer wins the race exactly when the code unit, left alone, has a wait that is
  over no earlier than the deadline, or never.
\<close>

lemma run_timer_iff:
  "fst (run rt deadline p s) = TimerWon \<longleftrightarrow>
   list_ex (\<lambda>w. case w of None \<Rightarrow> True | Some t \<Rightarrow> deadline \<le> t) (awaits rt p s)"
proof (induction p arbitrary: s)
  case (Log args k)
  obtain r s' where l: "rt_log rt args s = (r, s')" by (cases "rt_log rt args s")
  with Log.IH [of "k r" s'] show ?case by simp
next
  case (CallTool key args k)
  show ?case
  proof (cases "getProperty (rt_tools rt) key")
    case Missing
    with CallTool.IH [of "k NotCallable" s] show ?thesis by simp
  next
    case Inherited
    with CallTool.IH [of "k Builtin" s] show ?thesis by simp
  next
    case (Own f)
    obtain r s' where f: "f args s = (r, s')" by (cases "f args s")
    with Own CallTool.IH [of "k (settledAnswer r)" s'] show ?thesis by simp
  qed
next
  case (CallAgent key prompt options k)
  show ?case
  proof (cases "getProperty (rt_agents rt) key")
    case Missing
    with CallAgent.IH [of "k NotCallable" s] show ?thesis by simp
  next
    case Inherited
    with CallAgent.IH [of "k Builtin" s] show ?thesis by simp
  next
    case (Own f)
    obtain r s' where f: "f prompt options s = (r, s')" by (cases "f prompt options s")
    with Own CallAgent.IH [of "k (settledAnswer r)" s'] show ?thesis by simp
  qed
next
  case (CallSkill key k)
  show ?case
  proof (cases "getProperty (rt_skills rt) key")
    case Missing
    with CallSkill.IH [of "k NotCallable" s] show ?thesis by simp
  next
    case Inherited
    with CallSkill.IH [of "k Builtin" s] show ?thesis by simp
  next
    case (Own f)
    obtain r s' where f: "f s = (r, s')" by (cases "f s")
    with Own CallSkill.IH [of "k (settledAnswer r)" s'] show ?thesis by simp
  qed
qed simp_all

text \<open>
  When the code unit, left alone, has no wait that is over at the deadline or later,
  it settles, and the race ends with its own outcome in the state it left.
\<close>

lemma run_leftAlone:
  "\<not> list_ex (\<lambda>w. case w of None \<Rightarrow> True | Some t \<Rightarrow> deadline \<le> t) (awaits rt p s) \<Longrightarrow>
   \<exists>out s'. leftAlone rt p s = Some (out, s')
      \<and> run rt deadline p s = ((case out of Inl e \<Rightarrow> Failed e | Inr v \<Rightarrow> Completed v), s')"
proof (induction p arbitrary: s)
  case (Return v)
  then show ?case by simp
next
  case (Throw e)
  then show ?case by simp
next
  case Pending
  then show ?case by simp
next
  case (Sleep ms p)
  from Sleep.prems Sleep.IH [of "s\<lparr> st_now := st_now s + int ms \<rparr>"]
  show ?case by simp
next
  case (Busy ms p)
  from Busy.prems Busy.IH [of "s\<lparr> st_now := st_now s + int ms \<rparr>"]
  show ?case by simp
next
  case (Log args k)
  obtain r s' where l: "rt_log rt args s = (r, s')" by (cases "rt_log rt args s")
  with Log.prems Log.IH [of "k r" s'] show ?case by simp
next
  case (CallTool key args k)
  show ?case
  proof (cases "getProperty (rt_tools rt) key")
    case Missing
    with CallTool.prems CallTool.IH [of "k NotCallable" s] show ?thesis by simp
  next
    case Inherited
    with CallTool.prems CallTool.IH [of "k Builtin" s] show ?thesis by simp
  next
    case (Own f)
    obtain r s' where f: "f args s = (r, s')" by (cases "f args s")
    with Own CallTool.prems CallTool.IH [of "k (settledAnswer r)" s']
    show ?thesis by (simp split: if_splits)
  qed
next
  case (CallAgent key prompt options k)
  show ?case
  proof (cases "getProperty (rt_agents rt) key")
    case Missing
    with CallAgent.prems CallAgent.IH [of "k NotCallable" s] show ?thesis by simp
  next
    case Inherited
    with CallAgent.prems CallAgent.IH [of "k Builtin" s] show ?thesis by simp
  next
    case (Own f)
    obtain r s' where f: "f prompt options s = (r, s')" by (cases "f prompt options s")
    with Own CallAgent.prems CallAgent.IH [of "k (settledAnswer r)" s'] show ?thesis by simp
  qed
next
  case (CallSkill key k)
  show ?case
  proof (cases "getProperty (rt_skills rt) key")
    case Missing
    with CallSkill.prems CallSkill.IH [of "k NotCallable" s] show ?thesis by simp
  next
    case Inherited
    with CallSkill.prems CallSkill.IH [of "k Builtin" s] show ?thesis by simp
  next
    case (Own f)
    obtain r s' where f: "f s = (r, s')" by (cases "f s")
    with Own CallSkill.prems CallSkill.IH [of "k (settledAnswer r)" s'] show ?thesis by simp
  qed
qed

text \<open>
  A code unit that never keeps the thread busy and, left alone, would settle only
  after the deadline or never, is waiting when the deadline comes.
\<close>

lemma idle_code_waits:
  "st_now s \<le> deadline \<Longrightarrow> busyWork (mkRuntime this ctx) p s = 0 \<Longrightarrow>
   (case leftAlone (mkRuntime this ctx) p s of
      None \<Rightarrow> True | Some (out, s') \<Rightarrow> deadline < st_now s') \<Longrightarrow>
   list_ex (\<lambda>w. case w of None \<Rightarrow> True | Some t \<Rightarrow> deadline \<le> t)
     (awaits (mkRuntime this ctx) p s)"
proof (induction p arbitrary: s)
  case (Return v)
  then show ?case by simp
next
  case (Throw e)
  then show ?case by simp
next
  case Pending
  then show ?case by simp
next
  case (Sleep ms p)
  show ?case
  proof (cases "deadline \<le> st_now s + int ms")
    case True
    then show ?thesis by simp
  next
    case False
    with Sleep.prems Sleep.IH [of "s\<lparr> st_now := st_now s + int ms \<rparr>"]
    show ?thesis by simp
  qed
next
  case (Busy ms p)
  from Busy.prems(2) have "ms = 0" by simp
  with Busy.prems Busy.IH [of "s\<lparr> st_now := st_now s + int ms \<rparr>"]
  show ?case by simp
next
  case (Log args k)
  obtain r s' where l: "rt_log (mkRuntime this ctx) args s = (r, s')"
    by (cases "rt_log (mkRuntime this ctx) args s")
  with rt_log_now [of this ctx args s] have now: "st_now s' = st_now s" by simp
  with Log.IH [of "k r" s'] Log.prems l show ?case by simp
next
  case (CallTool key args k)
  show ?case
  proof (cases "getProperty (rt_tools (mkRuntime this ctx)) key")
    case Missing
    with CallTool.IH [of "k NotCallable" s] CallTool.prems show ?thesis by simp
  next
    case Inherited
    with CallTool.IH [of "k Builtin" s] CallTool.prems show ?thesis by simp
  next
    case (Own f)
    obtain r s' where f: "f args s = (r, s')" by (cases "f args s")
    show ?thesis
    proof (cases "st_now s < st_now s' \<and> deadline \<le> st_now s'")
      case True
      with Own f show ?thesis by simp
    next
      case False
      with CallTool.prems(1) have "st_now s' \<le> deadline" by auto
      with CallTool.IH [of "k (settledAnswer r)" s'] CallTool.prems Own f
      show ?thesis by simp
    qed
  qed
next
  case (CallAgent key prompt options k)
  show ?case
  proof (cases "getProperty (rt_agents (mkRuntime this ctx)) key")
    case Missing
    with CallAgent.IH [of "k NotCallable" s] CallAgent.prems show ?thesis by simp
  next
    case Inherited
    with CallAgent.IH [of "k Builtin" s] CallAgent.prems show ?thesis by simp
  next
    case (Own f)
    obtain r s' where f: "f prompt options s = (r, s')" by (cases "f prompt options s")
    with rt_agents_now [OF Own, of prompt options s] have "st_now s' = st_now s" by simp
    with CallAgent.IH [of "k (settledAnswer r)" s'] CallAgent.prems Own f
    show ?thesis by simp
  qed
next
  case (CallSkill key k)
  show ?case
  proof (cases "getProperty (rt_skills (mkRuntime this ctx)) key")
    case Missing
    with CallSkill.IH [of "k NotCallable" s] CallSkill.prems show ?thesis by simp
  next
    case Inherited
    with CallSkill.IH [of "k Builtin" s] CallSkill.prems show ?thesis by simp
  next
    case (Own f)
    obtain r s' where f: "f s = (r, s')" by (cases "f s")
    with rt_skills_now [OF Own, of s] have "st_now s' = st_now s" by simp
    with CallSkill.IH [of "k (settledAnswer r)" s'] CallSkill.prems Own f
    show ?thesis by simp
  qed
qed

lemma idle_unsettled_waiting:
  assumes "busyWork (mkRuntime this ctx) fn s = 0"
    and "\<not> settlesWithin (mkRuntime this ctx) T fn s"
  shows "waitingAfter (mkRuntime this ctx) T fn s"
proof -
  from assms(2)
  have "case leftAlone (mkRuntime this ctx) fn s of None \<Rightarrow> True
        | Some (out, s') \<Rightarrow> st_now s + int T < st_now s'"
    by (auto simp: settlesWithin_def split: option.splits)
  with idle_code_waits [of s "st_now s + int T" this ctx fn] assms(1)
  show ?thesis by (simp add: waitingAfter_def)
qed

lemma executeWithTimeout_timer:
  assumes "engine (wrapCode code) = Inr fn"
    and "waitingAfter rt (timerDelay (unat (timeout (ex_options this)))) fn s"
  shows "fst (executeWithTimeout engine this code rt s)
     = Inl (ErrorObj (''Execution timed out after '' @
              show_nat (unat (timeout (ex_options this))) @ ''ms''))"
proof -
  let ?d = "st_now s + int (timerDelay (unat (timeout (ex_options this))))"
  from assms(2) have "fst (run rt ?d fn s) = TimerWon"
    by (simp add: run_timer_iff waitingAfter_def)
  then obtain s' where "run rt ?d fn s = (TimerWon, s')"
    by (cases "run rt ?d fn s") simp
  with assms(1) show ?thesis
    by (simp add: executeWithTimeout_def)
qed

lemma executeWithTimeout_own:
  assumes "engine (wrapCode code) = Inr fn"
    and "\<not> waitingAfter rt (timerDelay (unat (timeout (ex_options this)))) fn s"
  shows "\<exists>out s'. leftAlone rt fn s = Some (out, s')
     \<and> executeWithTimeout engine this code rt s = (out, s')"
proof -
  let ?d = "st_now s + int (timerDelay (unat (timeout (ex_options this))))"
  from assms(2)
  have "\<not> list_ex (\<lambda>w. case w of None \<Rightarrow> True | Some t \<Rightarrow> ?d \<le> t) (awaits rt fn s)"
    by (simp add: waitingAfter_def)
  from run_leftAlone [OF this] obtain out s' where
    l: "leftAlone rt fn s = Some (out, s')" and
    r: "run rt ?d fn s = ((case out of Inl e \<Rightarrow> Failed e | Inr v \<Rightarrow> Completed v), s')"
    by blast
  from assms(1) r have "executeWithTimeout engine this code rt s = (out, s')"
    by (cases out) (simp_all add: executeWithTimeout_def)
  with l show ?thesis by blast
qed

lemma execute_timeout:
  assumes "engine (wrapCode code) = Inr fn"
    and "waitingAfter (mkRuntime this ctx) (timerDelay (unat (timeout (ex_options this)))) fn
             \<lparr> st_now = now, st_logs = [], st_callRecords = [] \<rparr>"
  shows "\<exists>r. execute engine this code ctx now = Inr r \<and> \<not> success r \<and> result r = None
     \<and> error r = Some (''Execution timed out after '' @
                        show_nat (unat (timeout (ex_options this))) @ ''ms'')"
proof -
  let ?s0 = "\<lparr> st_now = now, st_logs = [], st_callRecords = [] \<rparr>"
  obtain out s where ex: "executeWithTimeout engine this code (mkRuntime this ctx) ?s0 = (out, s)"
    by (cases "executeWithTimeout engine this code (mkRuntime this ctx) ?s0")
  with executeWithTimeout_timer [where engine = engine and code = code and fn = fn
      and this = this and rt = "mkRuntime this ctx" and s = ?s0, OF assms]
  have "out = Inl (ErrorObj (''Execution timed out after '' @
                     show_nat (unat (timeout (ex_options this))) @ ''ms''))"
    by simp
  with ex show ?thesis by (simp add: execute_def)
qed

lemma execute_own_outcome:
  assumes "engine (wrapCode code) = Inr fn
      \<and> \<not> waitingAfter (mkRuntime this ctx) (timerDelay (unat (timeout (ex_options this)))) fn
             \<lparr> st_now = now, st_logs = [], st_callRecords = [] \<rparr>"
  shows "\<exists>out s. leftAlone (mkRuntime this ctx) fn
                    \<lparr> st_now = now, st_logs = [], st_callRecords = [] \<rparr> = Some (out, s)
     \<and> execute engine this code ctx now =
         (case out of
            Inr v \<Rightarrow> Inr \<lparr> success = True, result = Some v, error = None,
                           logs = st_logs s, toolCalls = st_callRecords s \<rparr>
          | Inl e \<Rightarrow>
              (case errorText e of
                 Inl e' \<Rightarrow> Inl e'
               | Inr msg \<Rightarrow> Inr \<lparr> success = False, result = None, error = Some msg,
                                  logs = st_logs s, toolCalls = st_callRecords s \<rparr>))"
proof -
  let ?s0 = "\<lparr> st_now = now, st_logs = [], st_callRecords = [] \<rparr>"
  from assms executeWithTimeout_own [of engine code fn "mkRuntime this ctx" this ?s0]
  obtain out s where l: "leftAlone (mkRuntime this ctx) fn ?s0 = Some (out, s)"
    and e: "executeWithTimeout engine this code (mkRuntime this ctx) ?s0 = (out, s)"
    by blast
  from e have "execute engine this code ctx now =
         (case out of
            Inr v \<Rightarrow> Inr \<lparr> success = True, result = Some v, error = None,
                           logs = st_logs s, toolCalls = st_callRecords s \<rparr>
          | Inl e \<Rightarrow>
              (case errorText e of
                 Inl e' \<Rightarrow> Inl e'
               | Inr msg \<Rightarrow> Inr \<lparr> success = False, result = None, error = Some msg,
                                  logs = st_logs s, toolCalls = st_callRecords s \<rparr>))"
    by (cases out) (simp_all add: execute_def)
  with l show ?thesis by blast
qed

lemma createExecutor_timeout:
  "timeout (ex_options (createExecutor client tools agents skills None)) = 300000
   \<and> timeout (ex_options (createExecutor client tools agents skills
        (Some \<lparr> opt_timeout = None, opt_maxToolCalls = m \<rparr>))) = 300000
   \<and> timeout (ex_options (createExecutor client tools agents skills
        (Some \<lparr> opt_timeout = Some T, opt_maxToolCalls = m \<rparr>))) = T"
  by (simp add: createExecutor_def DEFAULT_TIMEOUT_def)

lemma timerDelay_range:
  "timerDelay n = (if 1 \<le> n \<and> n \<le> 2147483647 then n else 1)"
  by (auto simp: timerDelay_def)

lemma sampleEngine_pending:
  "sampleEngine (wrapCode ''await new Promise(() => {})'') = Inr Pending"
  by (simp add: sampleEngine_def wrapCode_def)

lemma sampleEngine_slow:
  "sampleEngine (wrapCode slowCode) =
     Inr (Log [Json (JStr ''start''), Json (JNum 1)] (\<lambda>r. case r of
            Inl e \<Rightarrow> Throw e
          | Inr u \<Rightarrow> CallTool ''read'' (Json (JObj []))
              (uncaught ''tools.read'' (\<lambda>out. Sleep 2000 (Return (Json (JNum 1)))))))"
  by (simp add: sampleEngine_def wrapCode_def slowCode_def)

lemma sampleEngine_busy:
  "sampleEngine (wrapCode busyCode) = Inr (Busy 2000 (Return (Json (JNum 1))))"
  by (simp add: sampleEngine_def wrapCode_def slowCode_def agentCode_def busyCode_def)

lemma sampleExecutor_timeout:
  "timeout (ex_options (sampleExecutor None)) = 300000
   \<and> timeout (ex_options (sampleExecutor (Some T))) = T"
  by (simp add: sampleExecutor_def createExecutor_def DEFAULT_TIMEOUT_def)

lemma sample_read_binding:
  "getProperty (rt_tools (mkRuntime (sampleExecutor T) someContext)) ''read''
     = Own (createToolFunction echoClient readTool someContext)"
  by (simp add: getProperty_def mkRuntime_def sampleExecutor_def createExecutor_def
        toolFunctions_def sanitizeName_def isWordChar_def readTool_def)

lemma sample_read_call:
  "createToolFunction echoClient readTool someContext (Json (JObj [])) s
     = (Inr ''claude'',
        s\<lparr> st_now := st_now s + 5,
           st_callRecords := st_callRecords s @
             [\<lparr> rec_tool = ''read'', rec_args = Json (JObj []), rec_result = Some ''claude'',
                rec_error = None, rec_duration = 5 \<rparr>] \<rparr>)"
  by (simp add: createToolFunction_def toolRequest_def tool_try_def echoClient_def
        someContext_def readTool_def Let_def)

lemma sample_log_start:
  "rt_log (mkRuntime (sampleExecutor T) someContext) [Json (JStr ''start''), Json (JNum 1)] s
     = (Inr (), s\<lparr> st_logs := st_logs s @ [''start 1''] \<rparr>)"
  by (simp add: mkRuntime_def log_fn_def logArg_def joinParts_def show_int_def show_nat.simps)

text \<open>
  A host answer that is there at once does not let the timer in, however late it is:
  with a host that rejects without delay, code that spins for two seconds past a
  deadline of one second and then calls a tool goes on with the rejection, and the
  record of the call is pushed.
\<close>

lemma instant_answer_not_preempted:
  "run (mkRuntime (createExecutor agentsClient [readTool] [] [] None) someContext) 1000
     (Busy 2000 (CallTool ''read'' (Json (JObj []))
        (uncaught ''tools.read'' (\<lambda>out. Return Undefined)))) emptyState
   = (Failed (ErrorObj ''offline''),
      \<lparr> st_now = 2000, st_logs = [],
        st_callRecords =
          [\<lparr> rec_tool = ''read'', rec_args = Json (JObj []), rec_result = None,
             rec_error = Some ''offline'', rec_duration = 0 \<rparr>] \<rparr>)"
  by (simp add: getProperty_def mkRuntime_def createExecutor_def toolFunctions_def
        sanitizeName_def isWordChar_def readTool_def createToolFunction_def toolRequest_def
        tool_try_def tool_catch_def agentsClient_def emptyState_def Let_def)

text \<open>
  C4, as the code has it. The timer of the deadline is due when the configured timeout
  has passed since the start (after one millisecond when the timeout is 0 or above
  \<open>2^31 - 1\<close>). When the code unit is waiting at that moment, and so in
  particular when it never keeps the thread busy and does not settle by then,
  \<open>execute\<close> returns a result whose \<open>success\<close> is false and whose error is
  \<open>Execution timed out after\<close>, the configured timeout in decimal, \<open>ms\<close>.
  When the code unit is not waiting at that moment or later, the timer does not
  interrupt it: the code unit settles, and \<open>execute\<close> reports its own outcome,
  with the logs and the call trace it left. An executor created without options, or
  with options that have no timeout, has the timeout 300000, and a timeout that is
  supplied is the one used.
\<close>

theorem timeout_yields_failure:
  "(engine (wrapCode code) = Inr fn
      \<and> (waitingAfter (mkRuntime this ctx) (timerDelay (unat (timeout (ex_options this)))) fn
             \<lparr> st_now = now, st_logs = [], st_callRecords = [] \<rparr>
         \<or> busyWork (mkRuntime this ctx) fn
             \<lparr> st_now = now, st_logs = [], st_callRecords = [] \<rparr> = 0
           \<and> \<not> settlesWithin (mkRuntime this ctx)
                 (timerDelay (unat (timeout (ex_options this)))) fn
                 \<lparr> st_now = now, st_logs = [], st_callRecords = [] \<rparr>)
    \<longrightarrow> (\<exists>r msg. execute engine this code ctx now = Inr r \<and> \<not> success r
          \<and> result r = None \<and> error r = Some msg
          \<and> msg = ''Execution timed out after '' @
                  show_nat (unat (timeout (ex_options this))) @ ''ms''
          \<and> sublist (show_nat (unat (timeout (ex_options this)))) msg))
   \<and> (engine (wrapCode code) = Inr fn
      \<and> \<not> waitingAfter (mkRuntime this ctx) (timerDelay (unat (timeout (ex_options this)))) fn
             \<lparr> st_now = now, st_logs = [], st_callRecords = [] \<rparr>
    \<longrightarrow> (\<exists>out s. leftAlone (mkRuntime this ctx) fn
                     \<lparr> st_now = now, st_logs = [], st_callRecords = [] \<rparr> = Some (out, s)
          \<and> execute engine this code ctx now =
              (case out of
                 Inr v \<Rightarrow> Inr \<lparr> success = True, result = Some v, error = None,
                                logs = st_logs s, toolCalls = st_callRecords s \<rparr>
               | Inl e \<Rightarrow>
                   (case errorText e of
                      Inl e' \<Rightarrow> Inl e'
                    | Inr msg \<Rightarrow> Inr \<lparr> success = False, result = None, error = Some msg,
                                       logs = st_logs s, toolCalls = st_callRecords s \<rparr>))))
   \<and> timerDelay n = (if 1 \<le> n \<and> n \<le> 2147483647 then n else 1)
   \<and> timeout (ex_options (createExecutor client tools agents skills None)) = 300000
   \<and> timeout (ex_options (createExecutor client tools agents skills
        (Some \<lparr> opt_timeout = None, opt_maxToolCalls = m \<rparr>))) = 300000
   \<and> timeout (ex_options (createExecutor client tools agents skills
        (Some \<lparr> opt_timeout = Some T, opt_maxToolCalls = m \<rparr>))) = T"
proof (intro conjI impI)
  let ?s0 = "\<lparr> st_now = now, st_logs = [], st_callRecords = [] \<rparr>"
  let ?D = "timerDelay (unat (timeout (ex_options this)))"
  assume h: "engine (wrapCode code) = Inr fn
      \<and> (waitingAfter (mkRuntime this ctx) ?D fn ?s0
         \<or> busyWork (mkRuntime this ctx) fn ?s0 = 0
           \<and> \<not> settlesWithin (mkRuntime this ctx) ?D fn ?s0)"
  then have w: "waitingAfter (mkRuntime this ctx) ?D fn ?s0"
    using idle_unsettled_waiting [of this ctx fn ?s0 ?D] by blast
  from h have c: "engine (wrapCode code) = Inr fn" by simp
  from execute_timeout [where engine = engine and code = code and fn = fn and this = this
      and ctx = ctx and now = now, OF c w]
  obtain r where r: "execute engine this code ctx now = Inr r" "\<not> success r" "result r = None"
    "error r = Some (''Execution timed out after '' @
                      show_nat (unat (timeout (ex_options this))) @ ''ms'')"
    by blast
  have "sublist (show_nat (unat (timeout (ex_options this))))
          (''Execution timed out after '' @ show_nat (unat (timeout (ex_options this))) @ ''ms'')"
    by (rule sublist_appendI)
  with r show "\<exists>r msg. execute engine this code ctx now = Inr r \<and> \<not> success r
          \<and> result r = None \<and> error r = Some msg
          \<and> msg = ''Execution timed out after '' @
                  show_nat (unat (timeout (ex_options this))) @ ''ms''
          \<and> sublist (show_nat (unat (timeout (ex_options this)))) msg"
    by blast
next
  assume "engine (wrapCode code) = Inr fn
      \<and> \<not> waitingAfter (mkRuntime this ctx) (timerDelay (unat (timeout (ex_options this)))) fn
             \<lparr> st_now = now, st_logs = [], st_callRecords = [] \<rparr>"
  then show "\<exists>out s. leftAlone (mkRuntime this ctx) fn
                     \<lparr> st_now = now, st_logs = [], st_callRecords = [] \<rparr> = Some (out, s)
          \<and> execute engine this code ctx now =
              (case out of
                 Inr v \<Rightarrow> Inr \<lparr> success = True, result = Some v, error = None,
                                logs = st_logs s, toolCalls = st_callRecords s \<rparr>
               | Inl e \<Rightarrow>
                   (case errorText e of
                      Inl e' \<Rightarrow> Inl e'
                    | Inr msg \<Rightarrow> Inr \<lparr> success = False, result = None, error = Some msg,
                                       logs = st_logs s, toolCalls = st_callRecords s \<rparr>))"
    by (rule execute_own_outcome)
next
  show "timerDelay n = (if 1 \<le> n \<and> n \<le> 2147483647 then n else 1)"
    by (rule timerDelay_range)
qed (simp_all add: createExecutor_timeout)

lemma execute_slowCode:
  "execute sampleEngine (sampleExecutor (Some 1000)) slowCode someContext 0 =
     Inr \<lparr> success = False, result = None,
           error = Some ''Execution timed out after 1000ms'',
           logs = [''start 1''],
           toolCalls = [\<lparr> rec_tool = ''read'', rec_args = Json (JObj []),
                         rec_result = Some ''claude'', rec_error = None, rec_duration = 5 \<rparr>] \<rparr>"
  by (simp add: execute_def executeWithTimeout_def sampleEngine_slow sample_log_start
        sample_read_binding sample_read_call sampleExecutor_timeout timerDelay_def
        show_nat.simps)

theorem timeout_yields_failure_witness:
  "(\<exists>r. execute sampleEngine (sampleExecutor None) ''await new Promise(() => {})''
           someContext 0 = Inr r
        \<and> \<not> success r \<and> error r = Some ''Execution timed out after 300000ms'')
   \<and> (\<exists>r. execute sampleEngine (sampleExecutor (Some 1000)) slowCode someContext 0 = Inr r
        \<and> \<not> success r \<and> error r = Some ''Execution timed out after 1000ms'')
   \<and> execute sampleEngine (sampleExecutor (Some 1000)) busyCode someContext 0 =
       Inr \<lparr> success = True, result = Some (Json (JNum 1)), error = None, logs = [],
             toolCalls = [] \<rparr>
   \<and> timerDelay 1000 = 1000 \<and> timerDelay 0 = 1 \<and> timerDelay 4294967296 = 1
   \<and> timeout (ex_options (createExecutor echoClient [] [] [] None)) = 300000"
proof -
  have w1: "waitingAfter (mkRuntime (sampleExecutor None) someContext)
               (timerDelay (unat (timeout (ex_options (sampleExecutor None))))) Pending
               \<lparr> st_now = 0, st_logs = [], st_callRecords = [] \<rparr>"
    by (simp add: waitingAfter_def)
  have a: "\<exists>r. execute sampleEngine (sampleExecutor None) ''await new Promise(() => {})''
           someContext 0 = Inr r
        \<and> \<not> success r \<and> error r = Some ''Execution timed out after 300000ms''"
    using timeout_yields_failure
      [where engine = sampleEngine and code = "''await new Promise(() => {})''"
         and fn = Pending and this = "sampleExecutor None" and ctx = someContext
         and now = 0, THEN conjunct1]
      sampleEngine_pending w1
    by (auto simp: sampleExecutor_timeout show_nat.simps)
  let ?slow = "Log [Json (JStr ''start''), Json (JNum 1)] (\<lambda>r. case r of
                  Inl e \<Rightarrow> Throw e
                | Inr u \<Rightarrow> CallTool ''read'' (Json (JObj []))
                    (uncaught ''tools.read'' (\<lambda>out. Sleep 2000 (Return (Json (JNum 1))))))"
  have ns2: "busyWork (mkRuntime (sampleExecutor (Some 1000)) someContext) ?slow
               \<lparr> st_now = 0, st_logs = [], st_callRecords = [] \<rparr> = 0
             \<and> \<not> settlesWithin (mkRuntime (sampleExecutor (Some 1000)) someContext)
               (timerDelay (unat (timeout (ex_options (sampleExecutor (Some 1000)))))) ?slow
               \<lparr> st_now = 0, st_logs = [], st_callRecords = [] \<rparr>"
    by (simp add: settlesWithin_def sample_log_start sample_read_binding sample_read_call
          sampleExecutor_timeout timerDelay_def)
  have b: "\<exists>r. execute sampleEngine (sampleExecutor (Some 1000)) slowCode someContext 0 = Inr r
        \<and> \<not> success r \<and> error r = Some ''Execution timed out after 1000ms''"
    using timeout_yields_failure
      [where engine = sampleEngine and code = slowCode and this = "sampleExecutor (Some 1000)"
         and ctx = someContext and now = 0, THEN conjunct1, THEN mp,
         OF conjI [OF sampleEngine_slow disjI2 [OF ns2]]]
    by (auto simp: sampleExecutor_timeout show_nat.simps)
  have nw: "sampleEngine (wrapCode busyCode) = Inr (Busy 2000 (Return (Json (JNum 1))))
      \<and> \<not> waitingAfter (mkRuntime (sampleExecutor (Some 1000)) someContext)
            (timerDelay (unat (timeout (ex_options (sampleExecutor (Some 1000))))))
            (Busy 2000 (Return (Json (JNum 1))))
            \<lparr> st_now = 0, st_logs = [], st_callRecords = [] \<rparr>"
    by (simp add: sampleEngine_busy waitingAfter_def)
  have c: "execute sampleEngine (sampleExecutor (Some 1000)) busyCode someContext 0 =
       Inr \<lparr> success = True, result = Some (Json (JNum 1)), error = None, logs = [],
             toolCalls = [] \<rparr>"
    using timeout_yields_failure
      [where engine = sampleEngine and code = busyCode and this = "sampleExecutor (Some 1000)"
         and ctx = someContext and now = 0, THEN conjunct2, THEN conjunct1, THEN mp, OF nw]
    by auto
  have d: "timerDelay 1000 = 1000 \<and> timerDelay 0 = 1 \<and> timerDelay 4294967296 = 1"
    using timeout_yields_failure [where n = 1000] timeout_yields_failure [where n = 0]
      timeout_yields_failure [where n = 4294967296]
    by simp
  have e: "timeout (ex_options (createExecutor echoClient [] [] [] None)) = 300000"
    using timeout_yields_failure [where client = echoClient and tools = "[]" and agents = "[]"
        and skills = "[]"]
    by simp
  from a b c d e show ?thesis by simp
qed

text \<open>
  The claim as it was stated fails for code that keeps the thread busy: with a
  timeout of one second, the code unit that spins for two seconds and returns does
  not settle within the timeout, and \<open>execute\<close> reports its return value.
\<close>

theorem busy_code_counterexample:
  "timeout (ex_options (sampleExecutor (Some 1000))) = 1000
   \<and> \<not> settlesWithin (mkRuntime (sampleExecutor (Some 1000)) someContext) 1000
       (Busy 2000 (Return (Json (JNum 1))))
       \<lparr> st_now = 0, st_logs = [], st_callRecords = [] \<rparr>
   \<and> execute sampleEngine (sampleExecutor (Some 1000)) busyCode someContext 0 =
       Inr \<lparr> success = True, result = Some (Json (JNum 1)), error = None, logs = [],
             toolCalls = [] \<rparr>"
  by (simp add: settlesWithin_def sampleExecutor_timeout execute_def executeWithTimeout_def
        sampleEngine_busy Let_def)

section \<open>The result of execute\<close>

text \<open>
  A code that does not compile gives a failed result with the message of the
  SyntaxError and empty logs and call trace.
\<close>

lemma execute_compile_error:
  "engine (wrapCode code) = Inl msg \<Longrightarrow>
   execute engine this code ctx now =
     Inr \<lparr> success = False, result = None, error = Some msg, logs = [], toolCalls = [] \<rparr>"
  by (simp add: execute_def executeWithTimeout_def Let_def)

text \<open>
  Whenever \<open>execute\<close> returns a result, its \<open>success\<close> flag tells whether the
  code unit returned, and its logs and call trace are the two arrays as they are when
  the race is decided.
\<close>

lemma execute_result_sinks:
  "execute engine this code ctx now = Inr r \<Longrightarrow>
   logs r = st_logs (snd (executeWithTimeout engine this code (mkRuntime this ctx)
              \<lparr> st_now = now, st_logs = [], st_callRecords = [] \<rparr>))
   \<and> toolCalls r = st_callRecords (snd (executeWithTimeout engine this code (mkRuntime this ctx)
              \<lparr> st_now = now, st_logs = [], st_callRecords = [] \<rparr>))
   \<and> (success r \<longleftrightarrow> (\<exists>v. fst (executeWithTimeout engine this code (mkRuntime this ctx)
              \<lparr> st_now = now, st_logs = [], st_callRecords = [] \<rparr>) = Inr v))
   \<and> (success r \<longleftrightarrow> error r = None) \<and> (success r \<longleftrightarrow> result r \<noteq> None)"
  by (auto simp: execute_def Let_def split: prod.splits sum.splits thrown.splits)

lemma errorText_Inl:
  "errorText x = Inl e \<Longrightarrow>
   x = Uncoercible \<and> e = ErrorObj ''Cannot convert object to primitive value''"
  by (cases x) simp_all

text \<open>
  \<open>execute\<close> rejects only when the code unit was compiled and the race ended with
  a thrown value that has no string conversion.
\<close>

lemma execute_rejects_only_uncoercible:
  "execute engine this code ctx now = Inl e \<Longrightarrow>
   e = ErrorObj ''Cannot convert object to primitive value''
   \<and> (\<exists>fn s. engine (wrapCode code) = Inr fn
        \<and> run (mkRuntime this ctx)
             (now + int (timerDelay (unat (timeout (ex_options this))))) fn
             \<lparr> st_now = now, st_logs = [], st_callRecords = [] \<rparr> = (Failed Uncoercible, s))"
  by (auto simp: execute_def executeWithTimeout_def Let_def dest!: errorText_Inl
      split: prod.splits sum.splits outcome.splits)

lemma sampleEngine_return:
  "sampleEngine (wrapCode ''return 1 + 1;'') = Inr (Return (Json (JNum 2)))"
  by (simp add: sampleEngine_def wrapCode_def)

lemma sampleEngine_syntax_error:
  "sampleEngine (wrapCode ''return (;'') = Inl ''Unexpected token''"
  by (simp add: sampleEngine_def wrapCode_def slowCode_def agentCode_def busyCode_def)

lemma sampleEngine_throw:
  "sampleEngine (wrapCode ''throw Object.create(null)'') = Inr (Throw Uncoercible)"
  by (simp add: sampleEngine_def)

lemma sampleEngine_agent:
  "sampleEngine (wrapCode agentCode) =
     Inr (logAll [[Json (JStr ''a'')],
                  [Json (JObj [(''n'', JNum 1)]), Undefined, Json (JStr ''b'')]]
            (CallAgent ''explore'' ''find'' None
               (uncaught ''agents.explore'' (\<lambda>out. Return Undefined))))"
  by (simp add: sampleEngine_def wrapCode_def slowCode_def agentCode_def busyCode_def)

lemma sample_explore_binding:
  "rt_agents (mkRuntime (sampleExecutor T) someContext) ''explore''
     = Some (createAgentFunction echoClient exploreAgent someContext)"
  by (simp add: mkRuntime_def sampleExecutor_def createExecutor_def agentFunctions_def
        sanitizeName_def isWordChar_def exploreAgent_def)

lemma sample_explore_property:
  "getProperty (rt_agents (mkRuntime (sampleExecutor T) someContext)) ''explore''
     = Own (createAgentFunction echoClient exploreAgent someContext)"
  by (simp add: getProperty_def sample_explore_binding)

lemma execute_return_two:
  "execute sampleEngine (sampleExecutor None) ''return 1 + 1;'' someContext 0 =
     Inr \<lparr> success = True, result = Some (Json (JNum 2)), error = None, logs = [],
           toolCalls = [] \<rparr>"
  by (simp add: execute_def executeWithTimeout_def sampleEngine_return Let_def)

lemma execute_syntax_error:
  "execute sampleEngine (sampleExecutor None) ''return (;'' someContext 0 =
     Inr \<lparr> success = False, result = None, error = Some ''Unexpected token'', logs = [],
           toolCalls = [] \<rparr>"
  by (simp add: execute_compile_error sampleEngine_syntax_error)

lemma execute_agentCode:
  "execute sampleEngine (sampleExecutor None) agentCode someContext 0 =
     Inr \<lparr> success = False, result = None,
           error = Some
             ''Agent calls are not yet supported. Use the 'task' tool directly for agent invocation.'',
           logs = [''a'', ''{'' @ [CHR 0x22] @ ''n'' @ [CHR 0x22] @ '':1}  b''],
           toolCalls =
             [\<lparr> rec_tool = ''agent:explore'',
                rec_args = Json (JObj [(''prompt'', JStr ''find'')]),
                rec_result = None,
                rec_error = Some ''Agent calls are not yet supported in direct execution mode'',
                rec_duration = 0 \<rparr>] \<rparr>"
  by (simp add: execute_def executeWithTimeout_def sampleEngine_agent run_logAll
        sample_explore_property createAgentFunction_eq exploreAgent_def Let_def
        quote_string_def quote_char_def show_int_def show_nat.simps
        ownEntries_def isArrayIndex_def del: logAll.simps)

text \<open>
  C1. Evaluated for the code \<open>throw Object.create(null)\<close>: the code unit throws a
  value that \<open>String\<close> cannot convert, the \<open>catch\<close> block of \<open>execute\<close>
  raises the TypeError of that conversion, and \<open>execute\<close> rejects instead of
  returning a result.
\<close>

theorem execute_rejects_on_uncoercible_throw:
  "execute sampleEngine (sampleExecutor None) ''throw Object.create(null)'' someContext 0
     = Inl (ErrorObj ''Cannot convert object to primitive value'')"
  by (simp add: execute_def executeWithTimeout_def sampleEngine_throw Let_def)

end
